(* ===== verification/Prelude.thy ===== *)
theory Prelude
  imports Main
begin

text \<open>
  Shared vocabulary of the development. The program is JavaScript (Node.js, Express);
  this theory fixes how its values, its exceptions and its asynchronous calls are
  written in HOL:
  \<^item> \<open>jsval\<close>: the JavaScript values the handlers touch (JSON-like data and
    \<open>undefined\<close>); numbers are integers, since every number of the source is one;
  \<^item> \<open>js_error\<close>: a thrown \<open>Error\<close> (its \<open>name\<close>, its \<open>message\<close> and, for an
    HTTP client error, the upstream \<open>response\<close>);
  \<^item> property access \<open>a.b\<close>, optional chaining \<open>a?.b\<close> and indexing \<open>a[0]\<close> with
    the TypeError that V8 raises on \<open>undefined\<close> and \<open>null\<close>;
  \<^item> truthiness and \<open>||\<close>, template literals \<open>`${x}`\<close>, \<open>new Error(x)\<close>;
  \<^item> \<open>('w, 'a) io\<close>: an \<open>async\<close> function, a state transformer on the world
    \<open>'w\<close> that returns a value or throws (\<open>Inl\<close> the exception), with
    \<open>await\<close> as \<open>bind_io\<close> and \<open>try/catch\<close> as \<open>catch_io\<close>;
  \<^item> \<open>res.json\<close>: the JSON serialisation an Express response applies to its body.
  The named collection \<open>io_simps\<close> gathers the equations that run an \<open>io\<close>
  program symbolically; component proofs use it with \<open>simp add:\<close>.
\<close>

named_theorems io_simps "equations that evaluate io programs step by step"
named_theorems js_simps "equations that evaluate JavaScript value operations"

section \<open>JavaScript values\<close>

datatype jsval =
    Undef
  | Null
  | Bool bool
  | Num int
  | Str string
  | Arr "jsval list"
  | Obj "(string \<times> jsval) list"

text \<open>An HTTP response as the axios client exposes it: \<open>response.status\<close>,
  \<open>response.data\<close>.\<close>

record http_resp =
  resp_status :: nat
  resp_data :: jsval

text \<open>A thrown exception: constructor name, message, and \<open>error.response\<close> when the
  exception comes from an HTTP request that received a response.\<close>

datatype js_error = JsErr (err_name: string) (err_msg: string) (err_resp: "http_resp option")

definition nullish :: "jsval \<Rightarrow> bool" where
  "nullish v \<longleftrightarrow> v = Undef \<or> v = Null"

fun truthy :: "jsval \<Rightarrow> bool" where
  "truthy Undef = False"
| "truthy Null = False"
| "truthy (Bool b) = b"
| "truthy (Num n) = (n \<noteq> 0)"
| "truthy (Str s) = (s \<noteq> [])"
| "truthy (Arr _) = True"
| "truthy (Obj _) = True"

text \<open>\<open>a || b\<close>: the first operand when it is truthy, else the second.\<close>

definition js_or :: "jsval \<Rightarrow> jsval \<Rightarrow> jsval" where
  "js_or a b = (if truthy a then a else b)"

subsection \<open>Decimal printing of numbers\<close>

fun dec_nat :: "nat \<Rightarrow> string" where
  "dec_nat n = (if n < 10 then [char_of (48 + n)] else dec_nat (n div 10) @ [char_of (48 + n mod 10)])"

declare dec_nat.simps [simp del]

definition dec_int :: "int \<Rightarrow> string" where
  "dec_int i = (if i < 0 then CHR ''-'' # dec_nat (nat (- i)) else dec_nat (nat i))"

text \<open>Reading decimal digits back (\<open>parseInt\<close> on a digit string).\<close>

definition parse_dec :: "string \<Rightarrow> nat" where
  "parse_dec s = foldl (\<lambda>n c. 10 * n + (of_char c - 48)) 0 s"

subsection \<open>Template literals and \<open>new Error\<close>\<close>

text \<open>\<open>`${v}`\<close> is \<open>String(v)\<close>: arrays join their elements with commas, with
  \<open>undefined\<close> and \<open>null\<close> elements printed empty; plain objects print as
  \<open>[object Object]\<close>.\<close>

fun join_comma :: "string list \<Rightarrow> string" where
  "join_comma [] = []"
| "join_comma [x] = x"
| "join_comma (x # xs) = x @ '','' @ join_comma xs"

fun to_str :: "jsval \<Rightarrow> string" where
  "to_str Undef = ''undefined''"
| "to_str Null = ''null''"
| "to_str (Bool b) = (if b then ''true'' else ''false'')"
| "to_str (Num n) = dec_int n"
| "to_str (Str s) = s"
| "to_str (Arr vs) = join_comma (map (\<lambda>v. if nullish v then [] else to_str v) vs)"
| "to_str (Obj _) = ''[object Object]''"

text \<open>\<open>new Error(v)\<close>: the message is \<open>String(v)\<close>, or empty when \<open>v\<close> is
  \<open>undefined\<close>.\<close>

definition new_Error :: "jsval \<Rightarrow> js_error" where
  "new_Error v = JsErr ''Error'' (if v = Undef then [] else to_str v) None"

subsection \<open>Property access\<close>

definition type_error_read :: "jsval \<Rightarrow> string \<Rightarrow> js_error" where
  "type_error_read v k =
     JsErr ''TypeError''
       (''Cannot read properties of '' @ (if v = Null then ''null'' else ''undefined'') @
        '' (reading '' @ [CHR 0x27] @ k @ [CHR 0x27] @ '')'') None"

text \<open>An object literal or a parsed JSON object keeps its last binding of a key.\<close>

definition obj_lookup :: "(string \<times> jsval) list \<Rightarrow> string \<Rightarrow> jsval" where
  "obj_lookup fs k = (case map_of (rev fs) k of None \<Rightarrow> Undef | Some v \<Rightarrow> v)"

text \<open>A field of an argument object or request body as a service reads it: any
  value that is no object has no fields.\<close>

definition param :: "jsval \<Rightarrow> string \<Rightarrow> jsval" where
  "param p k = (case p of Obj fs \<Rightarrow> obj_lookup fs k | _ \<Rightarrow> Undef)"

text \<open>\<open>v.k\<close>: a TypeError on \<open>undefined\<close> and \<open>null\<close>; \<open>length\<close> of strings
  and arrays; \<open>undefined\<close> for any other key of a primitive.\<close>

fun js_get :: "jsval \<Rightarrow> string \<Rightarrow> js_error + jsval" where
  "js_get Undef k = Inl (type_error_read Undef k)"
| "js_get Null k = Inl (type_error_read Null k)"
| "js_get (Obj fs) k = Inr (obj_lookup fs k)"
| "js_get (Arr vs) k = Inr (if k = ''length'' then Num (int (length vs)) else Undef)"
| "js_get (Str s) k = Inr (if k = ''length'' then Num (int (length s)) else Undef)"
| "js_get (Bool b) k = Inr Undef"
| "js_get (Num n) k = Inr Undef"

text \<open>\<open>v[i]\<close> for a numeric index: out of range is \<open>undefined\<close>.\<close>

fun js_idx :: "jsval \<Rightarrow> nat \<Rightarrow> js_error + jsval" where
  "js_idx (Arr vs) i = Inr (if i < length vs then vs ! i else Undef)"
| "js_idx (Obj fs) i = Inr (obj_lookup fs (dec_nat i))"
| "js_idx (Str s) i = Inr (if i < length s then Str [s ! i] else Undef)"
| "js_idx v i = (if nullish v then Inl (type_error_read v (dec_nat i)) else Inr Undef)"

text \<open>A member chain: \<open>.k\<close>, \<open>?.k\<close> and \<open>[i]\<close>. Optional chaining on a nullish
  value short-circuits the whole rest of the chain to \<open>undefined\<close>.\<close>

datatype step = Get string | OptGet string | Idx nat

fun js_path :: "jsval \<Rightarrow> step list \<Rightarrow> js_error + jsval" where
  "js_path v [] = Inr v"
| "js_path v (Get k # ss) = (case js_get v k of Inl e \<Rightarrow> Inl e | Inr v' \<Rightarrow> js_path v' ss)"
| "js_path v (OptGet k # ss) =
     (if nullish v then Inr Undef
      else case js_get v k of Inl e \<Rightarrow> Inl e | Inr v' \<Rightarrow> js_path v' ss)"
| "js_path v (Idx i # ss) = (case js_idx v i of Inl e \<Rightarrow> Inl e | Inr v' \<Rightarrow> js_path v' ss)"

text \<open>An object literal whose fields are member chains of one value, evaluated left to
  right: the first failing chain throws.\<close>

fun js_fields :: "jsval \<Rightarrow> (string \<times> step list) list \<Rightarrow> js_error + (string \<times> jsval) list" where
  "js_fields v [] = Inr []"
| "js_fields v ((k, p) # fs) =
     (case js_path v p of
        Inl e \<Rightarrow> Inl e
      | Inr x \<Rightarrow> (case js_fields v fs of Inl e \<Rightarrow> Inl e | Inr ys \<Rightarrow> Inr ((k, x) # ys)))"

definition js_pick :: "jsval \<Rightarrow> (string \<times> step list) list \<Rightarrow> js_error + jsval" where
  "js_pick v fs = (case js_fields v fs of Inl e \<Rightarrow> Inl e | Inr ys \<Rightarrow> Inr (Obj ys))"

text \<open>\<open>const { k } = v\<close>: destructuring throws on \<open>undefined\<close> and \<open>null\<close>.\<close>

definition destructure :: "jsval \<Rightarrow> string \<Rightarrow> js_error + jsval" where
  "destructure v k =
     (if nullish v
      then Inl (JsErr ''TypeError''
             (''Cannot destructure property '' @ [CHR 0x27] @ k @ [CHR 0x27] @ '' of '' @
              [CHR 0x27] @ to_str v @ [CHR 0x27] @ '' as it is '' @ to_str v @ ''.'') None)
      else js_get v k)"

subsection \<open>Serialisation by \<open>res.json\<close>\<close>

text \<open>\<open>JSON.stringify\<close> drops object fields whose value is \<open>undefined\<close> and writes
  an \<open>undefined\<close> array element as \<open>null\<close>.\<close>

fun json_clean :: "jsval \<Rightarrow> jsval" where
  "json_clean (Obj fs) = Obj (map (\<lambda>(k, v). (k, json_clean v)) (filter (\<lambda>(k, v). v \<noteq> Undef) fs))"
| "json_clean (Arr vs) = Arr (map (\<lambda>v. if v = Undef then Null else json_clean v) vs)"
| "json_clean v = v"

fun no_undef :: "jsval \<Rightarrow> bool" where
  "no_undef Undef = False"
| "no_undef (Obj fs) = (\<forall>kv \<in> set fs. no_undef (snd kv))"
| "no_undef (Arr vs) = (\<forall>v \<in> set vs. no_undef v)"
| "no_undef _ = True"

text \<open>What an Express handler sends: a status and the serialised body.\<close>

record response =
  status :: nat
  body :: jsval

definition res_json :: "jsval \<Rightarrow> response" where
  "res_json v = \<lparr>status = 200, body = json_clean v\<rparr>"

definition res_status_json :: "nat \<Rightarrow> jsval \<Rightarrow> response" where
  "res_status_json s v = \<lparr>status = s, body = json_clean v\<rparr>"

subsection \<open>\<open>Array.prototype.find\<close> with a strict-equality test on a field\<close>

text \<open>\<open>arr.find(x => x.k === v)\<close>: the first element whose field \<open>k\<close> is \<open>v\<close>,
  else \<open>undefined\<close>; the callback's read of \<open>x.k\<close> throws on a nullish element; a
  receiver that is no array throws (\<open>expr\<close> is the source text of \<open>arr\<close>).\<close>

fun find_field_eq :: "jsval list \<Rightarrow> string \<Rightarrow> jsval \<Rightarrow> js_error + jsval" where
  "find_field_eq [] k v = Inr Undef"
| "find_field_eq (x # xs) k v =
     (case js_get x k of Inl e \<Rightarrow> Inl e | Inr y \<Rightarrow> if y = v then Inr x else find_field_eq xs k v)"

definition js_find_eq :: "string \<Rightarrow> jsval \<Rightarrow> string \<Rightarrow> jsval \<Rightarrow> js_error + jsval" where
  "js_find_eq expr arr k v =
     (case arr of
        Arr xs \<Rightarrow> find_field_eq xs k v
      | _ \<Rightarrow> if nullish arr then Inl (type_error_read arr ''find'')
             else Inl (JsErr ''TypeError'' (expr @ ''.find is not a function'') None))"

subsection \<open>\<open>Date.prototype.toISOString\<close>\<close>

text \<open>A time value is milliseconds since 1970-01-01T00:00:00Z. The calendar date of a
  day number is computed with the civil-from-days algorithm on the proleptic Gregorian
  calendar (eras of 400 years, years starting in March); \<open>toISOString\<close> throws a
  RangeError beyond 8.64e15 ms and writes years outside 0..9999 with a sign and six
  digits.\<close>

definition pad_dec :: "nat \<Rightarrow> nat \<Rightarrow> string" where
  "pad_dec w n = replicate (w - length (dec_nat n)) CHR ''0'' @ dec_nat n"

definition civil_from_days :: "int \<Rightarrow> int \<times> int \<times> int" where
  "civil_from_days z0 =
     (let z = z0 + 719468;
          era = z div 146097;
          doe = z - era * 146097;
          yoe = (doe - doe div 1460 + doe div 36524 - doe div 146096) div 365;
          doy = doe - (365 * yoe + yoe div 4 - yoe div 100);
          mp = (5 * doy + 2) div 153;
          d = doy - (153 * mp + 2) div 5 + 1;
          m = (if mp < 10 then mp + 3 else mp - 9);
          y = yoe + era * 400
      in (if m \<le> 2 then y + 1 else y, m, d))"

definition iso_year :: "int \<Rightarrow> string" where
  "iso_year y =
     (if 0 \<le> y \<and> y \<le> 9999 then pad_dec 4 (nat y)
      else (if y < 0 then ''-'' else ''+'') @ pad_dec 6 (nat \<bar>y\<bar>))"

definition to_iso_string :: "int \<Rightarrow> js_error + string" where
  "to_iso_string t =
     (if 8640000000000000 < \<bar>t\<bar> then Inl (JsErr ''RangeError'' ''Invalid time value'' None)
      else
        (let ms = t mod 86400000; (y, m, d) = civil_from_days (t div 86400000) in
         Inr (iso_year y @ ''-'' @ pad_dec 2 (nat m) @ ''-'' @ pad_dec 2 (nat d) @ ''T'' @
              pad_dec 2 (nat (ms div 3600000)) @ '':'' @ pad_dec 2 (nat (ms div 60000 mod 60)) @ '':'' @
              pad_dec 2 (nat (ms div 1000 mod 60)) @ ''.'' @ pad_dec 3 (nat (ms mod 1000)) @ ''Z'')))"

section \<open>Asynchronous functions as state transformers\<close>

text \<open>An \<open>async\<close> function run against the world \<open>'w\<close> (the remote services and
  the clock): it returns \<open>Inr\<close> its value or \<open>Inl\<close> the exception it throws,
  and the world after its calls.\<close>

type_synonym ('w, 'a) io = "'w \<Rightarrow> (js_error + 'a) \<times> 'w"

definition ret :: "'a \<Rightarrow> ('w, 'a) io" where
  "ret x = (\<lambda>w. (Inr x, w))"

definition throw :: "js_error \<Rightarrow> ('w, 'a) io" where
  "throw e = (\<lambda>w. (Inl e, w))"

text \<open>A synchronous expression that may throw (a property access, a destructuring).\<close>

definition lift_io :: "js_error + 'a \<Rightarrow> ('w, 'a) io" where
  "lift_io r = (\<lambda>w. (r, w))"

definition bind_io :: "('w, 'a) io \<Rightarrow> ('a \<Rightarrow> ('w, 'b) io) \<Rightarrow> ('w, 'b) io" where
  "bind_io m f = (\<lambda>w. case m w of (Inl e, w') \<Rightarrow> (Inl e, w') | (Inr x, w') \<Rightarrow> f x w')"

definition catch_io :: "('w, 'a) io \<Rightarrow> (js_error \<Rightarrow> ('w, 'a) io) \<Rightarrow> ('w, 'a) io" where
  "catch_io m h = (\<lambda>w. case m w of (Inl e, w') \<Rightarrow> h e w' | (Inr x, w') \<Rightarrow> (Inr x, w'))"

text \<open>Reading the world without changing it (\<open>Date.now()\<close>).\<close>

definition get_io :: "('w \<Rightarrow> 'a) \<Rightarrow> ('w, 'a) io" where
  "get_io f = (\<lambda>w. (Inr (f w), w))"

text \<open>Postconditions of io programs: \<open>returns P m\<close> says that every value \<open>m\<close>
  returns normally satisfies \<open>P\<close>; \<open>never_throws m\<close> that \<open>m\<close> returns normally
  from every world.\<close>

definition returns :: "('a \<Rightarrow> bool) \<Rightarrow> ('w, 'a) io \<Rightarrow> bool" where
  "returns P m \<longleftrightarrow> (\<forall>w x w'. m w = (Inr x, w') \<longrightarrow> P x)"

definition never_throws :: "('w, 'a) io \<Rightarrow> bool" where
  "never_throws m \<longleftrightarrow> (\<forall>w. \<exists>x w'. m w = (Inr x, w'))"

section \<open>Laws of the io programs\<close>

lemma bind_io_ret [io_simps]: "bind_io (ret x) f = f x"
  by (simp add: bind_io_def ret_def)

lemma bind_io_throw [io_simps]: "bind_io (throw e) f = throw e"
  by (simp add: bind_io_def throw_def)

lemma bind_io_lift_Inr [io_simps]: "bind_io (lift_io (Inr x)) f = f x"
  by (simp add: bind_io_def lift_io_def)

lemma bind_io_lift_Inl [io_simps]: "bind_io (lift_io (Inl e)) f = throw e"
  by (simp add: bind_io_def lift_io_def throw_def)

lemma bind_io_get [io_simps]: "bind_io (get_io g) f = (\<lambda>w. f (g w) w)"
  by (simp add: bind_io_def get_io_def)

lemma bind_io_assoc [io_simps]: "bind_io (bind_io m f) g = bind_io m (\<lambda>x. bind_io (f x) g)"
  by (rule ext) (simp add: bind_io_def split: prod.splits sum.splits)

lemma catch_io_ret [io_simps]: "catch_io (ret x) h = ret x"
  by (simp add: catch_io_def ret_def)

lemma catch_io_throw [io_simps]: "catch_io (throw e) h = h e"
  by (simp add: catch_io_def throw_def)

text \<open>\<open>catch (error) { ...; throw error; }\<close> with a handler that only logs is the
  identity.\<close>

lemma catch_io_rethrow [io_simps]: "catch_io m throw = m"
  by (rule ext) (simp add: catch_io_def throw_def split: prod.splits sum.splits)

lemma lift_io_eq [io_simps]: "lift_io (Inr x) = ret x" "lift_io (Inl e) = throw e"
  by (simp_all add: lift_io_def ret_def throw_def)

lemma run_ret [io_simps]: "ret x w = (Inr x, w)"
  and run_throw [io_simps]: "throw e w = (Inl e, w)"
  and run_lift_io [io_simps]: "lift_io r w = (r, w)"
  and run_get_io [io_simps]: "get_io f w = (Inr (f w), w)"
  by (simp_all add: ret_def throw_def lift_io_def get_io_def)

text \<open>Running a sequence: the first call's outcome decides whether the rest runs.\<close>

lemma run_bind_io [io_simps]:
  "bind_io m f w = (case m w of (Inl e, w') \<Rightarrow> (Inl e, w') | (Inr x, w') \<Rightarrow> f x w')"
  by (simp add: bind_io_def)

lemma run_catch_io [io_simps]:
  "catch_io m h w = (case m w of (Inl e, w') \<Rightarrow> h e w' | (Inr x, w') \<Rightarrow> (Inr x, w'))"
  by (simp add: catch_io_def)

subsection \<open>Postcondition rules\<close>

named_theorems returns_intros "introduction rules for returns and never_throws"

lemma returns_ret [returns_intros]: "P x \<Longrightarrow> returns P (ret x)"
  by (simp add: returns_def ret_def)

lemma returns_throw [returns_intros]: "returns P (throw e)"
  by (simp add: returns_def throw_def)

lemma returns_lift [returns_intros]: "(\<And>x. r = Inr x \<Longrightarrow> P x) \<Longrightarrow> returns P (lift_io r)"
  by (simp add: returns_def lift_io_def)

lemma returns_bind [returns_intros]: "(\<And>x. returns P (f x)) \<Longrightarrow> returns P (bind_io m f)"
  by (fastforce simp: returns_def bind_io_def split: prod.splits sum.splits)

lemma returns_bind_post: "returns Q m \<Longrightarrow> (\<And>x. Q x \<Longrightarrow> returns P (f x)) \<Longrightarrow> returns P (bind_io m f)"
  by (fastforce simp: returns_def bind_io_def split: prod.splits sum.splits)

lemma returns_catch [returns_intros]:
  "returns P m \<Longrightarrow> (\<And>e. returns P (h e)) \<Longrightarrow> returns P (catch_io m h)"
  by (fastforce simp: returns_def catch_io_def split: prod.splits sum.splits)

lemma returns_if [returns_intros]: "returns P a \<Longrightarrow> returns P b \<Longrightarrow> returns P (if c then a else b)"
  by simp

lemma never_throws_ret [returns_intros]: "never_throws (ret x)"
  by (simp add: never_throws_def ret_def)

lemma never_throws_catch [returns_intros]: "(\<And>e. never_throws (h e)) \<Longrightarrow> never_throws (catch_io m h)"
  by (auto simp: never_throws_def catch_io_def split: prod.splits sum.splits)

lemma never_throws_bind [returns_intros]:
  assumes m: "never_throws m" and f: "\<And>x. never_throws (f x)"
  shows "never_throws (bind_io m f)"
  unfolding never_throws_def
proof
  fix w
  from m obtain x w1 where x: "m w = (Inr x, w1)"
    unfolding never_throws_def by blast
  from f [of x] obtain y w2 where "f x w1 = (Inr y, w2)"
    unfolding never_throws_def by blast
  with x show "\<exists>y w'. bind_io m f w = (Inr y, w')"
    by (simp add: bind_io_def)
qed

lemma never_throws_lift [returns_intros]: "never_throws (lift_io (Inr x))"
  by (simp add: never_throws_def lift_io_def)

lemma returns_run: "returns P m \<Longrightarrow> m w = (Inr x, w') \<Longrightarrow> P x"
  unfolding returns_def by blast

lemma never_throws_run: "never_throws m \<Longrightarrow> \<exists>x w'. m w = (Inr x, w')"
  by (simp add: never_throws_def)

subsection \<open>Decimal printing round trip\<close>

lemma parse_dec_snoc: "parse_dec (s @ [c]) = 10 * parse_dec s + (of_char c - 48)"
  by (simp add: parse_dec_def)

lemma of_char_digit: "d < 10 \<Longrightarrow> of_char (char_of (48 + d) :: char) - 48 = (d :: nat)"
  by simp

lemma parse_dec_dec_nat [simp]: "parse_dec (dec_nat n) = n"
proof (induction n rule: dec_nat.induct)
  case (1 n)
  show ?case
  proof (cases "n < 10")
    case True
    then show ?thesis by (simp add: dec_nat.simps [of n] parse_dec_def)
  next
    case False
    with "1.IH" have "parse_dec (dec_nat (n div 10)) = n div 10" by simp
    with False show ?thesis
      by (simp add: dec_nat.simps [of n] parse_dec_snoc of_char_digit)
  qed
qed

lemma dec_nat_inj [simp]: "dec_nat m = dec_nat n \<longleftrightarrow> m = n"
  by (metis parse_dec_dec_nat)

lemma dec_nat_append_inj: "p @ dec_nat m = p @ dec_nat n \<longleftrightarrow> m = n"
  by simp

section \<open>Laws of the value operations\<close>

lemma nullish_simps [simp, js_simps]:
  "nullish Undef" "nullish Null" "\<not> nullish (Bool b)" "\<not> nullish (Num n)"
  "\<not> nullish (Str s)" "\<not> nullish (Arr vs)" "\<not> nullish (Obj fs)"
  by (simp_all add: nullish_def)

lemma js_or_simps [simp, js_simps]:
  "js_or Undef b = b" "js_or Null b = b" "js_or (Obj fs) b = Obj fs" "js_or (Arr vs) b = Arr vs"
  "js_or (Str s) b = (if s = [] then b else Str s)"
  by (simp_all add: js_or_def)

lemma obj_lookup_Cons [simp, js_simps]:
  "obj_lookup ((k', v) # fs) k = (if k \<in> fst ` set fs then obj_lookup fs k else if k = k' then v else Undef)"
proof -
  have none: "map_of (rev fs) k = None \<longleftrightarrow> k \<notin> fst ` set fs"
    by (simp add: map_of_eq_None_iff)
  show ?thesis
  proof (cases "k \<in> fst ` set fs")
    case True
    with none obtain x where "map_of (rev fs) k = Some x" by auto
    with True show ?thesis by (simp add: obj_lookup_def map_add_def)
  next
    case False
    with none have "map_of (rev fs) k = None" by simp
    with False show ?thesis by (simp add: obj_lookup_def map_add_def)
  qed
qed

lemma obj_lookup_notin: "k \<notin> fst ` set fs \<Longrightarrow> obj_lookup fs k = Undef"
proof -
  assume "k \<notin> fst ` set fs"
  then have "map_of (rev fs) k = None" by (simp add: map_of_eq_None_iff)
  then show ?thesis by (simp add: obj_lookup_def)
qed

lemma obj_lookup_Nil [simp, js_simps]: "obj_lookup [] k = Undef"
  by (simp add: obj_lookup_def)

lemma js_get_not_nullish [js_simps]: "\<not> nullish v \<Longrightarrow> \<exists>x. js_get v k = Inr x"
  by (cases v) (auto simp: nullish_def)

text \<open>Only nullish values make an access throw, and then always a TypeError.\<close>

lemma js_get_Inl_iff: "js_get v k = Inl e \<longleftrightarrow> nullish v \<and> e = type_error_read v k"
  by (cases v) (auto simp: nullish_def)

subsection \<open>Shared facts about the routes' building blocks\<close>

lemma destructure_Inr: "\<not> nullish v \<Longrightarrow> \<exists>x. destructure v k = Inr x"
  by (simp add: destructure_def js_get_not_nullish)

lemma destructure_single [simp]: "destructure (Obj [(k, v)]) k = Inr v"
  by (simp add: destructure_def)

lemma dec_nat_not_minus: "CHR ''-'' \<notin> set (dec_nat n)"
proof (induction n rule: dec_nat.induct)
  case (1 n)
  have digit: "CHR ''-'' \<noteq> char_of (48 + d)" if "d < 10" for d :: nat
  proof
    assume "CHR ''-'' = char_of (48 + d)"
    then have "(of_char CHR ''-'' :: nat) = of_char (char_of (48 + d) :: char)" by simp
    with that show False by simp
  qed
  show ?case
    using "1.IH" digit [of n] digit [of "n mod 10"]
    by (cases "n < 10") (simp_all add: dec_nat.simps [of n])
qed

lemma dec_nat_digits: "c \<in> set (dec_nat n) \<Longrightarrow> 48 \<le> (of_char c :: nat) \<and> (of_char c :: nat) \<le> 57"
proof (induction n rule: dec_nat.induct)
  case (1 n)
  have d: "48 \<le> (of_char (char_of (48 + d) :: char) :: nat) \<and> (of_char (char_of (48 + d) :: char) :: nat) \<le> 57"
    if "d < 10" for d :: nat
    using that by simp
  show ?case
    using "1.IH" "1.prems" d [of n] d [of "n mod 10"]
    by (cases "n < 10") (auto simp: dec_nat.simps [of n])
qed

lemma dec_nat_plain: "set (dec_nat n) \<inter> {CHR ''/'', CHR 0x5C, CHR ''?'', CHR ''#'', CHR ''%'', CHR ''.''} = {}"
  by (auto dest: dec_nat_digits)

lemma dec_nat_Cons: "\<exists>c cs. dec_nat n = c # cs \<and> c \<noteq> CHR ''-''"
  using dec_nat_not_minus [of n]
  by (cases "dec_nat n") (auto simp: dec_nat.simps [of n] split: if_splits)

lemma dec_int_inj [simp]: "dec_int i = dec_int j \<longleftrightarrow> i = j"
proof
  assume eq: "dec_int i = dec_int j"
  show "i = j"
  proof (cases "i < 0"; cases "j < 0")
    assume "i < 0" "j < 0"
    with eq show ?thesis by (simp add: dec_int_def)
  next
    assume "\<not> i < 0" "\<not> j < 0"
    with eq show ?thesis by (simp add: dec_int_def)
  next
    assume "i < 0" "\<not> j < 0"
    with eq dec_nat_Cons [of "nat j"] show ?thesis by (auto simp: dec_int_def)
  next
    assume "\<not> i < 0" "j < 0"
    with eq dec_nat_Cons [of "nat i"] show ?thesis by (auto simp: dec_int_def)
  qed
qed simp

lemma js_or_Str_not_Undef [simp]: "js_or a (Str m) \<noteq> Undef"
  by (cases a) (simp_all add: js_or_def)

lemma no_undef_json_clean: "v \<noteq> Undef \<Longrightarrow> no_undef (json_clean v)"
proof (induction v rule: json_clean.induct)
  case (1 fs)
  then show ?case by (fastforce simp: split_beta)
next
  case (2 vs)
  then show ?case by auto
qed simp_all

end
