(* ===== verification/Services.thy ===== *)
theory Services
  imports Prelude
begin

text \<open>
  The interface between the gateway's code and the outside world. Every handler of
  \<open>src/routes\<close> and \<open>src/config/paypal.js\<close> is defined over a value
  \<open>sv :: 'w services\<close>: the process environment, the clock read by \<open>Date.now()\<close>,
  the HTTP transport under axios, and the Braintree SDK gateway object of
  \<open>src/config/braintree.js\<close>. The world type \<open>'w\<close> is left open, so the lemmas
  about the handlers hold for any processor; the theory \<open>Braintree_Sim\<close> gives one
  processor that follows Braintree's documented contract.

  \<open>axios\<close> models the library's rule that a response whose status is outside
  2xx rejects with an \<open>AxiosError\<close> carrying the response. \<open>traced\<close> wraps a
  services value so that the world also records every remote call in order; the
  ordering theorems of the components are stated over it, and \<open>calls_within\<close>
  bounds how many calls a program adds to that record, whatever the services answer.
\<close>

datatype http_method = GET | POST

datatype req_body = NoBody | FormBody string | JsonBody jsval

record http_req =
  req_method :: http_method
  req_url :: string
  req_headers :: "(string \<times> string) list"
  req_body :: req_body

text \<open>The Braintree SDK calls the routes make, with their argument objects.\<close>

datatype bt_op =
    CustomerCreate jsval
  | SubscriptionCreate jsval
  | SubscriptionFind jsval
  | PaymentMethodCreate jsval
  | SubscriptionUpdate jsval jsval
  | ClientTokenGenerate

record 'w services =
  penv :: "string \<Rightarrow> string option"
  clock :: "'w \<Rightarrow> int"
  transport :: "http_req \<Rightarrow> 'w \<Rightarrow> (js_error + http_resp) \<times> 'w"
  gateway :: "bt_op \<Rightarrow> 'w \<Rightarrow> (js_error + jsval) \<times> 'w"

text \<open>\<open>axios.get\<close>/\<open>axios.post\<close>: a transport failure rejects as it is; a response
  outside 2xx rejects with the response attached (axios' default \<open>validateStatus\<close>).\<close>

definition axios_error :: "http_resp \<Rightarrow> js_error" where
  "axios_error r =
     JsErr ''AxiosError'' (''Request failed with status code '' @ dec_nat (resp_status r)) (Some r)"

definition axios :: "'w services \<Rightarrow> http_req \<Rightarrow> ('w, http_resp) io" where
  "axios sv r =
     bind_io (transport sv r) (\<lambda>resp.
       if 200 \<le> resp_status resp \<and> resp_status resp < 300 then ret resp
       else throw (axios_error resp))"

text \<open>Remote calls, recorded in the order they are made.\<close>

datatype call = HttpCall http_req | BtCall bt_op

definition traced :: "'w services \<Rightarrow> ('w \<times> call list) services" where
  "traced sv =
     \<lparr>penv = penv sv,
      clock = (\<lambda>(w, log). clock sv w),
      transport = (\<lambda>r (w, log). (case transport sv r w of (x, w') \<Rightarrow> (x, (w', log @ [HttpCall r])))),
      gateway = (\<lambda>op (w, log). (case gateway sv op w of (x, w') \<Rightarrow> (x, (w', log @ [BtCall op]))))\<rparr>"

text \<open>A services value whose transport answers every request with \<open>answer\<close> and
  whose clock stands at \<open>now\<close>: a concrete instance of the interface.\<close>

definition fixed_services :: "(string \<Rightarrow> string option) \<Rightarrow> int \<Rightarrow> (http_req \<Rightarrow> http_resp) \<Rightarrow> unit services" where
  "fixed_services env now answer =
     \<lparr>penv = env, clock = (\<lambda>_. now), transport = (\<lambda>r w. (Inr (answer r), w)),
      gateway = (\<lambda>op w. (Inl (JsErr ''Error'' ''no gateway'' None), w))\<rparr>"

text \<open>A bound on the remote calls a program makes, counted on the call log of a
  traced world: every run, whatever the services answer, appends at most \<open>n\<close>
  calls to the log (the cost-monad reading of \<open>traced\<close>).\<close>

definition calls_within :: "nat \<Rightarrow> ('w \<times> call list, 'a) io \<Rightarrow> bool" where
  "calls_within n m \<longleftrightarrow> (\<forall>w log. \<exists>cs. snd (snd (m (w, log))) = log @ cs \<and> length cs \<le> n)"

named_theorems calls_intros "rules bounding the remote calls of io programs"

lemma traced_simps [io_simps]:
  "penv (traced sv) = penv sv"
  "clock (traced sv) (w, log) = clock sv w"
  "transport (traced sv) r (w, log) = (case transport sv r w of (x, w') \<Rightarrow> (x, (w', log @ [HttpCall r])))"
  "gateway (traced sv) op (w, log) = (case gateway sv op w of (x, w') \<Rightarrow> (x, (w', log @ [BtCall op])))"
  by (simp_all add: traced_def)

lemma axios_ok [io_simps]:
  "transport sv r w = (Inr resp, w') \<Longrightarrow> 200 \<le> resp_status resp \<Longrightarrow> resp_status resp < 300 \<Longrightarrow>
   axios sv r w = (Inr resp, w')"
  by (simp add: axios_def io_simps)

lemma axios_status_error [io_simps]:
  "transport sv r w = (Inr resp, w') \<Longrightarrow> \<not> (200 \<le> resp_status resp \<and> resp_status resp < 300) \<Longrightarrow>
   axios sv r w = (Inl (axios_error resp), w')"
  by (simp add: axios_def io_simps)

lemma axios_transport_error [io_simps]:
  "transport sv r w = (Inl e, w') \<Longrightarrow> axios sv r w = (Inl e, w')"
  by (simp add: axios_def io_simps)

subsection \<open>Counting remote calls\<close>

lemma calls_ret [calls_intros]: "calls_within 0 (ret x)"
  by (simp add: calls_within_def ret_def)

lemma calls_throw [calls_intros]: "calls_within 0 (throw e)"
  by (simp add: calls_within_def throw_def)

lemma calls_lift [calls_intros]: "calls_within 0 (lift_io r)"
  by (simp add: calls_within_def lift_io_def)

lemma calls_get [calls_intros]: "calls_within 0 (get_io g)"
  by (simp add: calls_within_def get_io_def)

lemma calls_transport [calls_intros]: "calls_within 1 (transport (traced sv) r)"
  by (simp add: calls_within_def traced_def split: prod.split)

lemma calls_gateway [calls_intros]: "calls_within 1 (gateway (traced sv) op)"
  by (simp add: calls_within_def traced_def split: prod.split)

lemma calls_runD:
  assumes "calls_within n m" "m (w, log) = (x, (w', log'))"
  obtains cs where "log' = log @ cs" "length cs \<le> n"
  using assms unfolding calls_within_def by (metis snd_conv)

lemma calls_bind [calls_intros]:
  assumes m: "calls_within a m" and f: "\<And>x. calls_within b (f x)"
  shows "calls_within (a + b) (bind_io m f)"
  unfolding calls_within_def
proof (intro allI)
  fix w log
  obtain x w1 l1 where r1: "m (w, log) = (x, (w1, l1))" by (metis prod.collapse)
  from calls_runD [OF m r1] obtain cs1 where c1: "l1 = log @ cs1" "length cs1 \<le> a" .
  show "\<exists>cs. snd (snd (bind_io m f (w, log))) = log @ cs \<and> length cs \<le> a + b"
  proof (cases x)
    case (Inl e)
    then show ?thesis using r1 c1 by (simp add: bind_io_def)
  next
    case (Inr y)
    obtain z w2 l2 where r2: "f y (w1, l1) = (z, (w2, l2))" by (metis prod.collapse)
    from calls_runD [OF f r2] obtain cs2 where "l2 = l1 @ cs2" "length cs2 \<le> b" .
    with Inr r1 r2 c1 show ?thesis by (simp add: bind_io_def)
  qed
qed

lemma calls_catch [calls_intros]:
  assumes m: "calls_within a m" and h: "\<And>e. calls_within b (h e)"
  shows "calls_within (a + b) (catch_io m h)"
  unfolding calls_within_def
proof (intro allI)
  fix w log
  obtain x w1 l1 where r1: "m (w, log) = (x, (w1, l1))" by (metis prod.collapse)
  from calls_runD [OF m r1] obtain cs1 where c1: "l1 = log @ cs1" "length cs1 \<le> a" .
  show "\<exists>cs. snd (snd (catch_io m h (w, log))) = log @ cs \<and> length cs \<le> a + b"
  proof (cases x)
    case (Inr y)
    then show ?thesis using r1 c1 by (simp add: catch_io_def)
  next
    case (Inl e)
    obtain z w2 l2 where r2: "h e (w1, l1) = (z, (w2, l2))" by (metis prod.collapse)
    from calls_runD [OF h r2] obtain cs2 where "l2 = l1 @ cs2" "length cs2 \<le> b" .
    with Inl r1 r2 c1 show ?thesis by (simp add: catch_io_def)
  qed
qed

lemma calls_mono: "calls_within a m \<Longrightarrow> a \<le> n \<Longrightarrow> calls_within n m"
  unfolding calls_within_def using le_trans by blast

lemma calls_if [calls_intros]:
  assumes "calls_within a p" "calls_within b q"
  shows "calls_within (max a b) (if c then p else q)"
  using assms calls_mono [of a p "max a b"] calls_mono [of b q "max a b"] by simp

lemma calls_axios [calls_intros]: "calls_within 1 (axios (traced sv) r)"
  unfolding axios_def by (rule calls_mono, (rule calls_intros)+) simp

end
