(* ===== verification/Braintree_Routes.thy ===== *)
theory Braintree_Routes
  imports Services
begin

text \<open>
  \<open>src/routes/braintree.js\<close>: the card-processor integration. Four helpers call
  the Braintree SDK (\<open>createCustomerWithPayment\<close>, \<open>bt_createSubscription\<close>,
  \<open>bt_checkSubscriptionStatus\<close>, \<open>updatePaymentMethod\<close>) and five Express routes
  compose them. Each definition follows its source function statement by statement:
  every \<open>await\<close> is a \<open>bind_io\<close>, every property read that can throw (a read of
  \<open>undefined\<close>, including the reads inside \<open>console.log\<close> arguments) is a
  \<open>lift_io\<close> of \<open>js_path\<close>, every \<open>if (!result.success)\<close> throws
  \<open>new Error(...)\<close>, and every \<open>try/catch\<close> is a \<open>catch_io\<close>. Logging has
  no other effect and is not modelled. A route returns \<open>Inr\<close> the response it sends;
  \<open>Inl\<close> is an exception that escapes the handler (the request is never answered).
\<close>

section \<open>SDK helpers\<close>

definition createCustomerWithPayment :: "'w services \<Rightarrow> jsval \<Rightarrow> ('w, jsval) io" where
  "createCustomerWithPayment sv nonce =
     catch_io
       (bind_io (gateway sv (CustomerCreate (Obj [(''paymentMethodNonce'', nonce)]))) (\<lambda>result.
        bind_io (lift_io (js_get result ''success'')) (\<lambda>success.
        if \<not> truthy success then
          bind_io (lift_io (js_get result ''message'')) (\<lambda>message.
          throw (new_Error (js_or message (Str ''Customer creation failed''))))
        else
          bind_io (lift_io (js_path result [Get ''customer'', Get ''id''])) (\<lambda>_.
          bind_io (lift_io (js_path result [Get ''customer'', Get ''paymentMethods'', Idx 0])) (\<lambda>_.
          lift_io (js_path result [Get ''customer'', Get ''paymentMethods'', Idx 0, Get ''token'']))))))
       (\<lambda>error. throw error)"

text \<open>The subscription terms are fixed in the source: \$10.00 USD, billed on day 1,
  starting immediately, \<open>numberOfBillingCycles: 0\<close>.\<close>

definition bt_subscription_params :: "jsval \<Rightarrow> jsval" where
  "bt_subscription_params paymentMethodToken =
     Obj [(''paymentMethodToken'', paymentMethodToken),
          (''merchantAccountId'', Str ''byyn8rvkn643n9c6_USD''),
          (''price'', Str ''10.00''),
          (''currencyIsoCode'', Str ''USD''),
          (''recurring'', Bool True),
          (''billingDayOfMonth'', Num 1),
          (''options'', Obj [(''startImmediately'', Bool True)]),
          (''numberOfBillingCycles'', Num 0)]"

definition bt_createSubscription :: "'w services \<Rightarrow> jsval \<Rightarrow> ('w, jsval) io" where
  "bt_createSubscription sv paymentMethodToken =
     catch_io
       (bind_io (gateway sv (SubscriptionCreate (bt_subscription_params paymentMethodToken))) (\<lambda>result.
        bind_io (lift_io (js_get result ''success'')) (\<lambda>success.
        if \<not> truthy success then
          bind_io (lift_io (js_get result ''message'')) (\<lambda>message. throw (new_Error message))
        else
          bind_io (lift_io (js_path result [Get ''subscription'', Get ''id''])) (\<lambda>_.
          lift_io (js_path result [Get ''subscription'', Get ''id''])))))
       (\<lambda>error. throw error)"

definition bt_checkSubscriptionStatus :: "'w services \<Rightarrow> jsval \<Rightarrow> ('w, jsval) io" where
  "bt_checkSubscriptionStatus sv subscriptionId = gateway sv (SubscriptionFind subscriptionId)"

definition updatePaymentMethod :: "'w services \<Rightarrow> jsval \<Rightarrow> jsval \<Rightarrow> ('w, jsval) io" where
  "updatePaymentMethod sv subscriptionId newNonce =
     catch_io
       (bind_io (gateway sv (PaymentMethodCreate (Obj [(''paymentMethodNonce'', newNonce)]))) (\<lambda>paymentResult.
        bind_io (lift_io (js_get paymentResult ''success'')) (\<lambda>success.
        if \<not> truthy success then
          bind_io (lift_io (js_get paymentResult ''message'')) (\<lambda>message. throw (new_Error message))
        else
          bind_io (lift_io (js_path paymentResult [Get ''paymentMethod'', Get ''token''])) (\<lambda>newPaymentMethodToken.
          bind_io (gateway sv (SubscriptionUpdate subscriptionId
                     (Obj [(''paymentMethodToken'', newPaymentMethodToken)]))) (\<lambda>updateResult.
          bind_io (lift_io (js_get updateResult ''success'')) (\<lambda>success'.
          if \<not> truthy success' then
            bind_io (lift_io (js_get updateResult ''message'')) (\<lambda>message. throw (new_Error message))
          else lift_io (js_get updateResult ''subscription'')))))))
       (\<lambda>error. throw error)"

section \<open>Routes\<close>

text \<open>Every catch block of the router answers 500 with the exception's message.\<close>

definition bt_error_response :: "js_error \<Rightarrow> response" where
  "bt_error_response error = res_status_json 500 (Obj [(''error'', Str (err_msg error))])"

definition bt_subscribe_route :: "'w services \<Rightarrow> jsval \<Rightarrow> ('w, response) io" where
  "bt_subscribe_route sv reqbody =
     bind_io (lift_io (destructure reqbody ''paymentMethodNonce'')) (\<lambda>paymentMethodNonce.
     catch_io
       (bind_io (createCustomerWithPayment sv paymentMethodNonce) (\<lambda>paymentMethodToken.
        bind_io (bt_createSubscription sv paymentMethodToken) (\<lambda>subscriptionId.
        ret (res_json (Obj [(''subscriptionId'', subscriptionId),
                            (''message'', Str ''Braintree subscription created successfully.'')])))))
       (\<lambda>error. ret (bt_error_response error)))"

text \<open>The projection of a Braintree subscription that \<open>check-subscription\<close> sends.\<close>

definition bt_status_fields :: "(string \<times> step list) list" where
  "bt_status_fields =
     [(''id'', [Get ''id'']),
      (''status'', [Get ''status'']),
      (''nextBillingDate'', [Get ''nextBillingDate'']),
      (''paymentMethodToken'', [Get ''paymentMethodToken'']),
      (''amount'', [Get ''price'']),
      (''currency'', [Get ''currencyIsoCode'']),
      (''cyclesCompleted'', [Get ''billingCyclesCompleted'']),
      (''totalCycles'', [Get ''numberOfBillingCycles'']),
      (''failureCount'', [Get ''failureCount'']),
      (''createdAt'', [Get ''createdAt'']),
      (''updatedAt'', [Get ''updatedAt''])]"

definition bt_check_subscription_route :: "'w services \<Rightarrow> string \<Rightarrow> ('w, response) io" where
  "bt_check_subscription_route sv subscriptionId =
     catch_io
       (bind_io (bt_checkSubscriptionStatus sv (Str subscriptionId)) (\<lambda>subscription.
        bind_io (lift_io (js_pick subscription bt_status_fields)) (\<lambda>snapshot.
        ret (res_json snapshot))))
       (\<lambda>error. ret (bt_error_response error))"

definition bt_update_card_route :: "'w services \<Rightarrow> string \<Rightarrow> jsval \<Rightarrow> ('w, response) io" where
  "bt_update_card_route sv subscriptionId reqbody =
     bind_io (lift_io (destructure reqbody ''paymentMethodNonce'')) (\<lambda>paymentMethodNonce.
     catch_io
       (bind_io (updatePaymentMethod sv (Str subscriptionId) paymentMethodNonce) (\<lambda>updatedSubscription.
        bind_io (lift_io (js_get updatedSubscription ''id'')) (\<lambda>sid.
        bind_io (lift_io (js_get updatedSubscription ''paymentMethodToken'')) (\<lambda>token.
        ret (res_json (Obj [(''message'', Str ''Braintree payment method updated successfully.''),
                            (''subscriptionId'', sid),
                            (''paymentMethodToken'', token)]))))))
       (\<lambda>error. ret (bt_error_response error)))"

text \<open>The \<open>console.log\<close> of line 148 reads \<open>result.clientToken\<close> before the
  response does; the second read cannot fail where the first succeeded.\<close>

definition bt_test_connection_route :: "'w services \<Rightarrow> ('w, response) io" where
  "bt_test_connection_route sv =
     catch_io
       (bind_io (gateway sv ClientTokenGenerate) (\<lambda>result.
        bind_io (lift_io (js_get result ''clientToken'')) (\<lambda>clientToken.
        ret (res_json (Obj [(''message'', Str ''Braintree API connection successful''),
                            (''clientToken'', clientToken)])))))
       (\<lambda>error. ret (bt_error_response error))"

definition bt_test_subscription_route :: "'w services \<Rightarrow> jsval \<Rightarrow> ('w, response) io" where
  "bt_test_subscription_route sv reqbody =
     bind_io (lift_io (destructure reqbody ''paymentMethodToken'')) (\<lambda>paymentMethodToken.
     catch_io
       (bind_io (bt_createSubscription sv paymentMethodToken) (\<lambda>subscriptionId.
        ret (res_json (Obj [(''subscriptionId'', subscriptionId),
                            (''message'', Str ''Subscription created successfully.'')]))))
       (\<lambda>error. ret (bt_error_response error)))"

text \<open>What the router promises its client: a 200 response, or a 500 response whose
  body is \<open>{error: message}\<close>.\<close>

definition bt_answered :: "response \<Rightarrow> bool" where
  "bt_answered r \<longleftrightarrow>
     status r = 200 \<or>
     status r = 500 \<and> (case body r of Obj [(k, Str m)] \<Rightarrow> k = ''error'' | _ \<Rightarrow> False)"

section \<open>Properties of the router\<close>

lemma bt_answered_ok [simp]: "bt_answered (res_json v)" "bt_answered (bt_error_response e)"
  by (simp_all add: bt_answered_def res_json_def bt_error_response_def res_status_json_def)

subsection \<open>Every route answers\<close>

text \<open>C2: with an object as request body (what \<open>express.json()\<close> provides), no
  Braintree route lets an exception escape: each answers 200 or 500 with
  \<open>{error: message}\<close>, whatever the SDK returns or throws.\<close>

theorem bt_routes_answer:
  assumes obj: "\<not> nullish reqbody"
  shows "(never_throws (bt_subscribe_route sv reqbody) \<and> returns bt_answered (bt_subscribe_route sv reqbody)) \<and>
         (never_throws (bt_check_subscription_route sv sid) \<and> returns bt_answered (bt_check_subscription_route sv sid)) \<and>
         (never_throws (bt_update_card_route sv sid reqbody) \<and> returns bt_answered (bt_update_card_route sv sid reqbody)) \<and>
         (never_throws (bt_test_connection_route sv) \<and> returns bt_answered (bt_test_connection_route sv)) \<and>
         (never_throws (bt_test_subscription_route sv reqbody) \<and> returns bt_answered (bt_test_subscription_route sv reqbody))"
proof -
  from obj obtain n where n: "destructure reqbody ''paymentMethodNonce'' = Inr n"
    using destructure_Inr by blast
  from obj obtain t where t: "destructure reqbody ''paymentMethodToken'' = Inr t"
    using destructure_Inr by blast
  show ?thesis
    unfolding bt_subscribe_route_def bt_check_subscription_route_def bt_update_card_route_def
      bt_test_connection_route_def bt_test_subscription_route_def n t
    by (intro conjI; intro returns_intros; simp)
qed

subsection \<open>The SDK calls each route makes, in order\<close>

lemma createCustomerWithPayment_traced:
  "createCustomerWithPayment (traced sv) n (w, log) =
     (case createCustomerWithPayment sv n w of
        (x, w') \<Rightarrow> (x, (w', log @ [BtCall (CustomerCreate (Obj [(''paymentMethodNonce'', n)]))])))"
  by (simp add: createCustomerWithPayment_def io_simps split: prod.split sum.split)

lemma bt_createSubscription_traced:
  "bt_createSubscription (traced sv) t (w, log) =
     (case bt_createSubscription sv t w of
        (x, w') \<Rightarrow> (x, (w', log @ [BtCall (SubscriptionCreate (bt_subscription_params t))])))"
  by (simp add: bt_createSubscription_def io_simps split: prod.split sum.split)

text \<open>C3: \<open>POST /subscribe\<close> first asks Braintree to create the customer from the
  nonce; it creates a subscription only when that returned a payment-method token, and
  then with that token and the fixed plan terms. Nothing else is called.\<close>

theorem bt_subscribe_calls:
  assumes run: "bt_subscribe_route (traced sv) (Obj [(''paymentMethodNonce'', n)]) (w, []) = (r, (w', log))"
  shows "log = [BtCall (CustomerCreate (Obj [(''paymentMethodNonce'', n)]))] \<or>
         (\<exists>t w1. createCustomerWithPayment sv n w = (Inr t, w1) \<and>
            log = [BtCall (CustomerCreate (Obj [(''paymentMethodNonce'', n)])),
                   BtCall (SubscriptionCreate (bt_subscription_params t))])"
  using run
  by (auto simp: bt_subscribe_route_def io_simps createCustomerWithPayment_traced
        bt_createSubscription_traced split: prod.splits sum.splits)

text \<open>C4: \<open>POST /update-card/:id\<close> first creates a payment method from the nonce;
  it issues the subscription update only after that creation succeeded, and then with
  exactly the token it returned. The two calls are not undone on a later failure.\<close>

theorem bt_update_card_calls:
  assumes run: "bt_update_card_route (traced sv) sid (Obj [(''paymentMethodNonce'', n)]) (w, []) = (r, (w', log))"
  shows "log = [BtCall (PaymentMethodCreate (Obj [(''paymentMethodNonce'', n)]))] \<or>
         (\<exists>pr w1 s t. gateway sv (PaymentMethodCreate (Obj [(''paymentMethodNonce'', n)])) w = (Inr pr, w1) \<and>
            js_get pr ''success'' = Inr s \<and> truthy s \<and>
            js_path pr [Get ''paymentMethod'', Get ''token''] = Inr t \<and>
            log = [BtCall (PaymentMethodCreate (Obj [(''paymentMethodNonce'', n)])),
                   BtCall (SubscriptionUpdate (Str sid) (Obj [(''paymentMethodToken'', t)]))])"
proof -
  let ?p = "Obj [(''paymentMethodNonce'', n)]"
  obtain res1 w1 where g1: "gateway sv (PaymentMethodCreate ?p) w = (res1, w1)"
    by fastforce
  show ?thesis
  proof (cases "\<exists>pr s t. res1 = Inr pr \<and> js_get pr ''success'' = Inr s \<and> truthy s \<and>
                  js_path pr [Get ''paymentMethod'', Get ''token''] = Inr t")
    case True
    then obtain pr s t where ok: "res1 = Inr pr" "js_get pr ''success'' = Inr s" "truthy s"
      "js_path pr [Get ''paymentMethod'', Get ''token''] = Inr t"
      by blast
    from run g1 ok have "log = [BtCall (PaymentMethodCreate ?p),
                               BtCall (SubscriptionUpdate (Str sid) (Obj [(''paymentMethodToken'', t)]))]"
      by (auto simp: bt_update_card_route_def updatePaymentMethod_def io_simps
            split: prod.splits sum.splits if_splits)
    with g1 ok show ?thesis by blast
  next
    case False
    with run g1 have "log = [BtCall (PaymentMethodCreate ?p)]"
      by (auto simp: bt_update_card_route_def updatePaymentMethod_def io_simps
            split: prod.splits sum.splits if_splits)
    then show ?thesis by blast
  qed
qed

end
