(* ===== verification/Braintree_Sim.thy ===== *)
theory Braintree_Sim
  imports Braintree_Routes
begin

text \<open>
  A processor for the card gateway: the state Braintree keeps for the merchant and the
  result objects its SDK calls return, following Braintree's documented contract (the
  processor is an external service; nothing here translates code of the repository).
  \<^item> \<open>bt_store\<close>: the nonces handed out to clients and not yet used, the customers,
    the vaulted payment methods (token to customer), the subscriptions, the merchant
    accounts, the plans the merchant has defined, and a counter from which every new
    identifier is made;
  \<^item> \<open>bt_sim\<close>: one equation per SDK call. Validation failures are results with
    \<open>success: false\<close> and a message; an unknown subscription id rejects with the
    SDK's \<open>notFoundError\<close>. A nonce is consumed by the call that vaults it.
    \<open>paymentMethod.create\<close> needs the customer the method is vaulted for
    (\<open>customerId\<close>), and \<open>subscription.create\<close> needs a vaulted token, a known
    merchant account and the id of one of the merchant's plans (\<open>planId\<close>), as the
    API requires; the first failing check gives the message, and the checks Braintree
    makes after the plan's (such as the number of billing cycles) are not simulated;
  \<^item> \<open>bt_world\<close>: the clock and the store, and \<open>bt_services\<close>, the services
    value through which the routes of \<open>Braintree_Routes\<close> reach this processor.
  The store condition \<open>bt_inv\<close> (methods belong to customers, subscriptions reference
  vaulted methods, identifiers from the counter onwards are unused) is what a fresh
  token needs (C6). Timestamps are the clock value; \<open>nextBillingDate\<close> is not
  computed (\<open>null\<close>).
\<close>

record bt_sub =
  sub_status :: string
  sub_token :: string
  sub_price :: jsval
  sub_currency :: jsval
  sub_cycles :: jsval
  sub_done :: nat
  sub_failures :: nat
  sub_created :: int
  sub_updated :: int

record bt_store =
  bt_nonces :: "string list"
  bt_customers :: "string list"
  bt_methods :: "string \<rightharpoonup> string"
  bt_subs :: "string \<rightharpoonup> bt_sub"
  bt_merchants :: "string list"
  bt_plans :: "string list"
  bt_seq :: nat

definition cust_id :: "nat \<Rightarrow> string" where "cust_id k = ''cust_'' @ dec_nat k"
definition tok_id :: "nat \<Rightarrow> string" where "tok_id k = ''tok_'' @ dec_nat k"
definition sub_ident :: "nat \<Rightarrow> string" where "sub_ident k = ''sub_'' @ dec_nat k"
definition ct_id :: "nat \<Rightarrow> string" where "ct_id k = ''ct_'' @ dec_nat k"

definition bt_fail :: "string \<Rightarrow> jsval" where
  "bt_fail msg = Obj [(''success'', Bool False), (''message'', Str msg)]"

definition bt_not_found :: js_error where
  "bt_not_found = JsErr ''notFoundError'' ''Not Found'' None"

definition msg_bad_nonce :: string where
  "msg_bad_nonce = ''Unknown or expired payment_method_nonce.''"

definition msg_bad_plan :: string where
  "msg_bad_plan = ''Plan ID is invalid.''"

definition msg_bad_token :: string where
  "msg_bad_token = ''Payment method token is invalid.''"

definition sub_json :: "string \<Rightarrow> bt_sub \<Rightarrow> jsval" where
  "sub_json i sb =
     Obj [(''id'', Str i), (''status'', Str (sub_status sb)),
          (''paymentMethodToken'', Str (sub_token sb)),
          (''price'', sub_price sb), (''currencyIsoCode'', sub_currency sb),
          (''numberOfBillingCycles'', sub_cycles sb),
          (''billingCyclesCompleted'', Num (int (sub_done sb))),
          (''failureCount'', Num (int (sub_failures sb))),
          (''nextBillingDate'', Null),
          (''createdAt'', Num (sub_created sb)), (''updatedAt'', Num (sub_updated sb))]"

definition new_sub :: "string \<Rightarrow> jsval \<Rightarrow> int \<Rightarrow> bt_sub" where
  "new_sub tok p now =
     \<lparr>sub_status = ''Active'', sub_token = tok, sub_price = param p ''price'',
      sub_currency = param p ''currencyIsoCode'', sub_cycles = param p ''numberOfBillingCycles'',
      sub_done = 0, sub_failures = 0, sub_created = now, sub_updated = now\<rparr>"

text \<open>\<open>customer.create\<close>: without a nonce the customer is created with no payment
  method; with an unused nonce the method is vaulted and the nonce consumed.\<close>

definition bt_customer_create :: "jsval \<Rightarrow> bt_store \<Rightarrow> (js_error + jsval) \<times> bt_store" where
  "bt_customer_create p s =
     (let c = cust_id (bt_seq s); t = tok_id (bt_seq s) in
      case param p ''paymentMethodNonce'' of
        Undef \<Rightarrow>
          (Inr (Obj [(''success'', Bool True),
                     (''customer'', Obj [(''id'', Str c), (''paymentMethods'', Arr [])])]),
           s\<lparr>bt_customers := bt_customers s @ [c], bt_seq := Suc (bt_seq s)\<rparr>)
      | Str n \<Rightarrow>
          (if n \<in> set (bt_nonces s) then
             (Inr (Obj [(''success'', Bool True),
                        (''customer'', Obj [(''id'', Str c),
                           (''paymentMethods'', Arr [Obj [(''token'', Str t), (''customerId'', Str c)]])])]),
              s\<lparr>bt_nonces := removeAll n (bt_nonces s), bt_customers := bt_customers s @ [c],
                bt_methods := (bt_methods s)(t \<mapsto> c), bt_seq := Suc (bt_seq s)\<rparr>)
           else (Inr (bt_fail msg_bad_nonce), s))
      | _ \<Rightarrow> (Inr (bt_fail msg_bad_nonce), s))"

definition bt_payment_method_create :: "jsval \<Rightarrow> bt_store \<Rightarrow> (js_error + jsval) \<times> bt_store" where
  "bt_payment_method_create p s =
     (let t = tok_id (bt_seq s) in
      case param p ''customerId'' of
        Undef \<Rightarrow> (Inr (bt_fail ''Customer ID is required.''), s)
      | Str c \<Rightarrow>
          (if c \<notin> set (bt_customers s) then (Inr (bt_fail ''Customer ID is invalid.''), s)
           else case param p ''paymentMethodNonce'' of
             Str n \<Rightarrow>
               (if n \<in> set (bt_nonces s) then
                  (Inr (Obj [(''success'', Bool True),
                             (''paymentMethod'', Obj [(''token'', Str t), (''customerId'', Str c)])]),
                   s\<lparr>bt_nonces := removeAll n (bt_nonces s), bt_methods := (bt_methods s)(t \<mapsto> c),
                     bt_seq := Suc (bt_seq s)\<rparr>)
                else (Inr (bt_fail msg_bad_nonce), s))
           | _ \<Rightarrow> (Inr (bt_fail msg_bad_nonce), s))
      | _ \<Rightarrow> (Inr (bt_fail ''Customer ID is invalid.''), s))"

definition bt_subscription_create ::
  "jsval \<Rightarrow> int \<Rightarrow> bt_store \<Rightarrow> (js_error + jsval) \<times> bt_store" where
  "bt_subscription_create p now s =
     (let i = sub_ident (bt_seq s) in
      case param p ''paymentMethodToken'' of
        Str tok \<Rightarrow>
          (if bt_methods s tok = None then (Inr (bt_fail msg_bad_token), s)
           else if param p ''merchantAccountId'' \<noteq> Undef \<and>
                   param p ''merchantAccountId'' \<notin> Str ` set (bt_merchants s)
           then (Inr (bt_fail ''Merchant account ID is invalid.''), s)
           else if (case param p ''planId'' of Str pid \<Rightarrow> pid \<notin> set (bt_plans s) | _ \<Rightarrow> True)
           then (Inr (bt_fail msg_bad_plan), s)
           else (Inr (Obj [(''success'', Bool True), (''subscription'', sub_json i (new_sub tok p now))]),
                 s\<lparr>bt_subs := (bt_subs s)(i \<mapsto> new_sub tok p now), bt_seq := Suc (bt_seq s)\<rparr>))
      | _ \<Rightarrow> (Inr (bt_fail msg_bad_token), s))"

definition bt_subscription_find :: "jsval \<Rightarrow> bt_store \<Rightarrow> (js_error + jsval) \<times> bt_store" where
  "bt_subscription_find i s =
     (case i of
        Str x \<Rightarrow> (case bt_subs s x of Some sb \<Rightarrow> (Inr (sub_json x sb), s) | None \<Rightarrow> (Inl bt_not_found, s))
      | _ \<Rightarrow> (Inl bt_not_found, s))"

definition bt_subscription_update ::
  "jsval \<Rightarrow> jsval \<Rightarrow> int \<Rightarrow> bt_store \<Rightarrow> (js_error + jsval) \<times> bt_store" where
  "bt_subscription_update i p now s =
     (case i of
        Str x \<Rightarrow>
          (case bt_subs s x of
             None \<Rightarrow> (Inl bt_not_found, s)
           | Some sb \<Rightarrow>
               (case param p ''paymentMethodToken'' of
                  Undef \<Rightarrow> (Inr (Obj [(''success'', Bool True), (''subscription'', sub_json x sb)]), s)
                | Str tok \<Rightarrow>
                    (if bt_methods s tok = None then (Inr (bt_fail msg_bad_token), s)
                     else (Inr (Obj [(''success'', Bool True),
                                     (''subscription'', sub_json x (sb\<lparr>sub_token := tok, sub_updated := now\<rparr>))]),
                           s\<lparr>bt_subs := (bt_subs s)(x \<mapsto> sb\<lparr>sub_token := tok, sub_updated := now\<rparr>)\<rparr>))
                | _ \<Rightarrow> (Inr (bt_fail msg_bad_token), s)))
      | _ \<Rightarrow> (Inl bt_not_found, s))"

fun bt_sim :: "bt_op \<Rightarrow> int \<Rightarrow> bt_store \<Rightarrow> (js_error + jsval) \<times> bt_store" where
  "bt_sim (CustomerCreate p) now s = bt_customer_create p s"
| "bt_sim (PaymentMethodCreate p) now s = bt_payment_method_create p s"
| "bt_sim (SubscriptionCreate p) now s = bt_subscription_create p now s"
| "bt_sim (SubscriptionFind i) now s = bt_subscription_find i s"
| "bt_sim (SubscriptionUpdate i p) now s = bt_subscription_update i p now s"
| "bt_sim ClientTokenGenerate now s =
     (Inr (Obj [(''success'', Bool True), (''clientToken'', Str (ct_id (bt_seq s)))]),
      s\<lparr>bt_seq := Suc (bt_seq s)\<rparr>)"

record bt_world =
  bw_clock :: int
  bw_store :: bt_store

definition bt_services :: "bt_world services" where
  "bt_services =
     \<lparr>penv = (\<lambda>_. None),
      clock = bw_clock,
      transport = (\<lambda>r w. (Inl (JsErr ''Error'' ''connect ECONNREFUSED'' None), w)),
      gateway = (\<lambda>op w. case bt_sim op (bw_clock w) (bw_store w) of
                          (x, s') \<Rightarrow> (x, w\<lparr>bw_store := s'\<rparr>))\<rparr>"

definition bt_inv :: "bt_store \<Rightarrow> bool" where
  "bt_inv s \<longleftrightarrow>
     (\<forall>t c. bt_methods s t = Some c \<longrightarrow> c \<in> set (bt_customers s)) \<and>
     (\<forall>x sb. bt_subs s x = Some sb \<longrightarrow> bt_methods s (sub_token sb) \<noteq> None) \<and>
     (\<forall>k. bt_seq s \<le> k \<longrightarrow>
        bt_methods s (tok_id k) = None \<and> bt_subs s (sub_ident k) = None \<and>
        cust_id k \<notin> set (bt_customers s))"

text \<open>A sandbox store: the test nonce and the merchant account the source names; the
  merchant has defined no plan, and none would help, as the source sends no plan id.\<close>

definition bt_store0 :: bt_store where
  "bt_store0 = \<lparr>bt_nonces = [''fake-valid-nonce''], bt_customers = [], bt_methods = Map.empty,
                bt_subs = Map.empty, bt_merchants = [''byyn8rvkn643n9c6_USD''], bt_plans = [], bt_seq = 0\<rparr>"

section \<open>Facts about the processor\<close>

lemma ids_distinct [simp]:
  "tok_id a = tok_id b \<longleftrightarrow> a = b" "cust_id a = cust_id b \<longleftrightarrow> a = b" "sub_ident a = sub_ident b \<longleftrightarrow> a = b"
  by (simp_all add: tok_id_def cust_id_def sub_ident_def)

lemmas bt_sim_defs = bt_customer_create_def bt_payment_method_create_def
  bt_subscription_create_def bt_subscription_find_def bt_subscription_update_def
  param_def bt_fail_def sub_json_def new_sub_def Let_def

lemmas bt_route_defs = bt_subscribe_route_def bt_check_subscription_route_def
  bt_update_card_route_def createCustomerWithPayment_def bt_createSubscription_def
  bt_checkSubscriptionStatus_def updatePaymentMethod_def bt_subscription_params_def

lemma bt_services_gateway [io_simps]:
  "gateway bt_services op w = (case bt_sim op (bw_clock w) (bw_store w) of (x, s') \<Rightarrow> (x, w\<lparr>bw_store := s'\<rparr>))"
  by (simp add: bt_services_def)

text \<open>C8: \<open>POST /update-card/:id\<close> never reaches the subscription update against a
  processor that requires \<open>customerId\<close> for \<open>paymentMethod.create\<close>: the source
  sends only the nonce, so every request answers 500 \<open>Customer ID is required.\<close> and
  changes nothing.\<close>

theorem bt_update_card_rejected:
  "bt_update_card_route bt_services sid (Obj [(''paymentMethodNonce'', v)]) w =
     (Inr (bt_error_response (new_Error (Str ''Customer ID is required.''))), w)"
  by (simp add: bt_route_defs io_simps bt_sim_defs)

text \<open>C7: \<open>GET /check-subscription/:id\<close> for an id the processor does not know answers
  500 with the SDK's \<open>Not Found\<close> message and leaves the processor unchanged; the
  client gets no distinct not-found status.\<close>

theorem bt_check_unknown:
  "bt_subs (bw_store w) sid = None \<Longrightarrow>
   bt_check_subscription_route bt_services sid w = (Inr (bt_error_response bt_not_found), w)"
  by (simp add: bt_route_defs io_simps bt_sim_defs)

text \<open>C9: \<open>POST /subscribe\<close> without \<open>paymentMethodNonce\<close> still creates a customer
  (with no payment method) and then answers 500 with the TypeError of reading
  \<open>token\<close> of \<open>paymentMethods[0]\<close>; the customer is left behind.\<close>

theorem bt_subscribe_without_nonce:
  "bt_subscribe_route bt_services (Obj []) w =
     (Inr (bt_error_response (type_error_read Undef ''token'')),
      w\<lparr>bw_store := (bw_store w)\<lparr>bt_customers := bt_customers (bw_store w) @ [cust_id (bt_seq (bw_store w))],
                                 bt_seq := Suc (bt_seq (bw_store w))\<rparr>\<rparr>)"
  by (simp add: bt_route_defs io_simps bt_sim_defs destructure_def)

text \<open>C1: \<open>POST /subscribe\<close> with an unused nonce and the merchant account configured
  never creates a subscription. The customer and its payment method are vaulted and the
  nonce is consumed, then \<open>subscription.create\<close> fails validation, because the source
  sends no \<open>planId\<close> and Braintree requires one. The route answers 500 with
  Braintree's message and leaves the customer behind.\<close>

theorem bt_subscribe_no_plan:
  assumes n: "n \<in> set (bt_nonces s)" and m: "''byyn8rvkn643n9c6_USD'' \<in> set (bt_merchants s)"
  shows "bt_subscribe_route bt_services (Obj [(''paymentMethodNonce'', Str n)]) \<lparr>bw_clock = now, bw_store = s\<rparr> =
           (Inr (bt_error_response (new_Error (Str msg_bad_plan))),
            \<lparr>bw_clock = now,
             bw_store = s\<lparr>bt_nonces := removeAll n (bt_nonces s), bt_customers := bt_customers s @ [cust_id (bt_seq s)],
                         bt_methods := (bt_methods s)(tok_id (bt_seq s) \<mapsto> cust_id (bt_seq s)),
                         bt_seq := Suc (bt_seq s)\<rparr>\<rparr>)"
  using n m by (simp add: bt_route_defs io_simps bt_sim_defs)

text \<open>C5: a nonce is consumed by the subscribe request that vaults it: the same request
  repeated answers 500 with Braintree's unknown-nonce message and changes nothing.\<close>

theorem bt_nonce_single_use:
  assumes n: "n \<in> set (bt_nonces s)"
    and run1: "bt_subscribe_route bt_services (Obj [(''paymentMethodNonce'', Str n)])
                 \<lparr>bw_clock = now, bw_store = s\<rparr> = (r1, w1)"
    and run2: "bt_subscribe_route bt_services (Obj [(''paymentMethodNonce'', Str n)]) w1 = (r2, w2)"
  shows "r2 = Inr (bt_error_response (new_Error (Str msg_bad_nonce))) \<and> w2 = w1"
proof -
  from run1 n have "n \<notin> set (bt_nonces (bw_store w1))"
    by (auto simp: bt_route_defs io_simps bt_sim_defs split: if_splits)
  with run2 show ?thesis
    by (auto simp: bt_route_defs io_simps bt_sim_defs msg_bad_nonce_def)
qed

text \<open>C6: the payment-method token \<open>createCustomerWithPayment\<close> returns is new: no
  payment method had it before the call, and afterwards it is vaulted.\<close>

theorem bt_customer_token_fresh:
  assumes inv: "bt_inv (bw_store w)"
    and run: "createCustomerWithPayment bt_services v w = (Inr t, w')"
  shows "\<exists>tok. t = Str tok \<and> bt_methods (bw_store w) tok = None \<and> bt_methods (bw_store w') tok \<noteq> None"
  using run inv
  by (auto simp: createCustomerWithPayment_def io_simps bt_sim_defs bt_inv_def
      split: jsval.splits if_splits)

section \<open>Witnesses at the sandbox store\<close>

theorem bt_subscribe_no_plan_witness:
  "bt_subscribe_route bt_services (Obj [(''paymentMethodNonce'', Str ''fake-valid-nonce'')])
     \<lparr>bw_clock = 1700000000000, bw_store = bt_store0\<rparr> =
   (Inr (bt_error_response (new_Error (Str msg_bad_plan))),
    \<lparr>bw_clock = 1700000000000,
     bw_store = bt_store0\<lparr>bt_nonces := [], bt_customers := [cust_id 0], bt_methods := [tok_id 0 \<mapsto> cust_id 0],
                        bt_seq := 1\<rparr>\<rparr>)"
  using bt_subscribe_no_plan [of "''fake-valid-nonce''" bt_store0 1700000000000]
  by (simp add: bt_store0_def)

theorem bt_routes_answer_witness:
  "(never_throws (bt_subscribe_route bt_services (Obj [])) \<and> returns bt_answered (bt_subscribe_route bt_services (Obj []))) \<and>
   (never_throws (bt_check_subscription_route bt_services ''sub_0'') \<and> returns bt_answered (bt_check_subscription_route bt_services ''sub_0'')) \<and>
   (never_throws (bt_update_card_route bt_services ''sub_0'' (Obj [])) \<and> returns bt_answered (bt_update_card_route bt_services ''sub_0'' (Obj []))) \<and>
   (never_throws (bt_test_connection_route bt_services) \<and> returns bt_answered (bt_test_connection_route bt_services)) \<and>
   (never_throws (bt_test_subscription_route bt_services (Obj [])) \<and> returns bt_answered (bt_test_subscription_route bt_services (Obj [])))"
  by (rule bt_routes_answer [where reqbody = "Obj []"]) simp

theorem bt_subscribe_calls_witness:
  "let R = bt_subscribe_route (traced bt_services) (Obj [(''paymentMethodNonce'', Str ''fake-valid-nonce'')])
             (\<lparr>bw_clock = 1700000000000, bw_store = bt_store0\<rparr>, [])
   in snd (snd R) = [BtCall (CustomerCreate (Obj [(''paymentMethodNonce'', Str ''fake-valid-nonce'')]))] \<or>
      (\<exists>t w1. createCustomerWithPayment bt_services (Str ''fake-valid-nonce'')
                 \<lparr>bw_clock = 1700000000000, bw_store = bt_store0\<rparr> = (Inr t, w1) \<and>
         snd (snd R) = [BtCall (CustomerCreate (Obj [(''paymentMethodNonce'', Str ''fake-valid-nonce'')])),
                        BtCall (SubscriptionCreate (bt_subscription_params t))])"
proof -
  let ?R = "bt_subscribe_route (traced bt_services) (Obj [(''paymentMethodNonce'', Str ''fake-valid-nonce'')])
             (\<lparr>bw_clock = 1700000000000, bw_store = bt_store0\<rparr>, [])"
  have "?R = (fst ?R, fst (snd ?R), snd (snd ?R))" by simp
  from bt_subscribe_calls [OF this] show ?thesis by (simp add: Let_def)
qed

theorem bt_update_card_calls_witness:
  "let R = bt_update_card_route (traced bt_services) ''sub_0'' (Obj [(''paymentMethodNonce'', Str ''fake-valid-nonce'')])
             (\<lparr>bw_clock = 1700000000000, bw_store = bt_store0\<rparr>, [])
   in snd (snd R) = [BtCall (PaymentMethodCreate (Obj [(''paymentMethodNonce'', Str ''fake-valid-nonce'')]))] \<or>
      (\<exists>pr w1 s t. gateway bt_services (PaymentMethodCreate (Obj [(''paymentMethodNonce'', Str ''fake-valid-nonce'')]))
                     \<lparr>bw_clock = 1700000000000, bw_store = bt_store0\<rparr> = (Inr pr, w1) \<and>
         js_get pr ''success'' = Inr s \<and> truthy s \<and>
         js_path pr [Get ''paymentMethod'', Get ''token''] = Inr t \<and>
         snd (snd R) = [BtCall (PaymentMethodCreate (Obj [(''paymentMethodNonce'', Str ''fake-valid-nonce'')])),
                        BtCall (SubscriptionUpdate (Str ''sub_0'') (Obj [(''paymentMethodToken'', t)]))])"
proof -
  let ?R = "bt_update_card_route (traced bt_services) ''sub_0'' (Obj [(''paymentMethodNonce'', Str ''fake-valid-nonce'')])
             (\<lparr>bw_clock = 1700000000000, bw_store = bt_store0\<rparr>, [])"
  have "?R = (fst ?R, fst (snd ?R), snd (snd ?R))" by simp
  from bt_update_card_calls [OF this] show ?thesis by (simp add: Let_def)
qed

theorem bt_update_card_rejected_witness:
  "bt_update_card_route bt_services ''sub_1'' (Obj [(''paymentMethodNonce'', Str ''fake-valid-nonce'')])
     \<lparr>bw_clock = 1700000000000, bw_store = bt_store0\<rparr> =
   (Inr (bt_error_response (new_Error (Str ''Customer ID is required.''))),
    \<lparr>bw_clock = 1700000000000, bw_store = bt_store0\<rparr>)"
  by (rule bt_update_card_rejected)

theorem bt_check_unknown_witness:
  "bt_check_subscription_route bt_services ''sub_7'' \<lparr>bw_clock = 0, bw_store = bt_store0\<rparr> =
     (Inr (bt_error_response bt_not_found), \<lparr>bw_clock = 0, bw_store = bt_store0\<rparr>)"
  by (rule bt_check_unknown) (simp add: bt_store0_def)

theorem bt_subscribe_without_nonce_witness:
  "fst (bt_subscribe_route bt_services (Obj []) \<lparr>bw_clock = 0, bw_store = bt_store0\<rparr>) =
     Inr (bt_error_response (type_error_read Undef ''token''))"
  by (simp add: bt_subscribe_without_nonce)

theorem bt_nonce_single_use_witness:
  "let w1 = snd (bt_subscribe_route bt_services (Obj [(''paymentMethodNonce'', Str ''fake-valid-nonce'')])
                  \<lparr>bw_clock = 0, bw_store = bt_store0\<rparr>)
   in bt_subscribe_route bt_services (Obj [(''paymentMethodNonce'', Str ''fake-valid-nonce'')]) w1 =
        (Inr (bt_error_response (new_Error (Str msg_bad_nonce))), w1)"
proof -
  let ?b = "Obj [(''paymentMethodNonce'', Str ''fake-valid-nonce'')]"
  let ?R1 = "bt_subscribe_route bt_services ?b \<lparr>bw_clock = 0, bw_store = bt_store0\<rparr>"
  let ?R2 = "bt_subscribe_route bt_services ?b (snd ?R1)"
  have "''fake-valid-nonce'' \<in> set (bt_nonces bt_store0)" by (simp add: bt_store0_def)
  from bt_nonce_single_use [OF this, of 0 "fst ?R1" "snd ?R1" "fst ?R2" "snd ?R2"]
  show ?thesis by (simp add: Let_def prod_eq_iff)
qed

theorem bt_customer_token_fresh_witness:
  "\<exists>tok. fst (createCustomerWithPayment bt_services (Str ''fake-valid-nonce'') \<lparr>bw_clock = 0, bw_store = bt_store0\<rparr>) = Inr (Str tok) \<and>
     bt_methods bt_store0 tok = None \<and>
     bt_methods (bw_store (snd (createCustomerWithPayment bt_services (Str ''fake-valid-nonce'') \<lparr>bw_clock = 0, bw_store = bt_store0\<rparr>))) tok \<noteq> None"
proof -
  let ?w = "\<lparr>bw_clock = 0, bw_store = bt_store0\<rparr>"
  let ?R = "createCustomerWithPayment bt_services (Str ''fake-valid-nonce'') ?w"
  have inv: "bt_inv (bw_store ?w)" by (simp add: bt_inv_def bt_store0_def)
  have eq: "?R = (Inr (Str (tok_id 0)), snd ?R)"
    by (simp add: createCustomerWithPayment_def io_simps bt_sim_defs bt_store0_def)
  then have f: "fst ?R = Inr (Str (tok_id 0))" by (metis fst_conv)
  from bt_customer_token_fresh [OF inv eq] obtain tok where
    "Str (tok_id 0) = Str tok" "bt_methods (bw_store ?w) tok = None"
    "bt_methods (bw_store (snd ?R)) tok \<noteq> None"
    by blast
  with f show ?thesis by auto
qed

end
