(* ===== verification/Base64.thy ===== *)
theory Base64
  imports Prelude
begin

text \<open>
  Base64 as Node's \<open>Buffer.toString('base64')\<close> computes it (RFC 4648, standard
  alphabet, \<open>=\<close> padding), used by \<open>getAccessToken\<close> in
  \<open>src/config/paypal.js\<close> to build the HTTP Basic credentials. A string is its
  sequence of bytes (\<open>Buffer.from\<close> of a string is its UTF-8 encoding; a HOL
  \<open>char\<close> is a byte). \<open>b64_encode\<close> works on groups of three bytes as the
  library does; \<open>b64_decode\<close> is the inverse a server applies, and the round trip
  \<open>b64_decode (b64_encode bs) = Some bs\<close> holds for every byte list. This models
  Node's library, not code of the repository; the round trip is what the statement
  about the credentials \<open>getAccessToken\<close> sends (\<open>Config\<close>) rests on.
\<close>

definition b64_alphabet :: string where
  "b64_alphabet = ''ABCDEFGHIJKLMNOPQRSTUVWXYZabcdefghijklmnopqrstuvwxyz0123456789+/''"

definition b64_char :: "nat \<Rightarrow> char" where
  "b64_char k = b64_alphabet ! k"

text \<open>Three bytes are 24 bits, read as four 6-bit digits; a final group of one or
  two bytes is padded with zero bits and \<open>=\<close>.\<close>

fun b64_encode :: "nat list \<Rightarrow> string" where
  "b64_encode (a # b # c # rest) =
     (let n = a * 65536 + b * 256 + c in
      [b64_char (n div 262144), b64_char (n div 4096 mod 64), b64_char (n div 64 mod 64),
       b64_char (n mod 64)] @ b64_encode rest)"
| "b64_encode [a, b] =
     (let n = a * 65536 + b * 256 in
      [b64_char (n div 262144), b64_char (n div 4096 mod 64), b64_char (n div 64 mod 64), CHR ''=''])"
| "b64_encode [a] =
     (let n = a * 65536 in [b64_char (n div 262144), b64_char (n div 4096 mod 64), CHR ''='', CHR ''=''])"
| "b64_encode [] = []"

definition bytes_of :: "string \<Rightarrow> nat list" where
  "bytes_of s = map of_char s"

text \<open>\<open>Buffer.from(s).toString('base64')\<close>.\<close>

definition base64_of_string :: "string \<Rightarrow> string" where
  "base64_of_string s = b64_encode (bytes_of s)"

fun idx_of :: "'a list \<Rightarrow> 'a \<Rightarrow> nat option" where
  "idx_of [] x = None"
| "idx_of (y # ys) x = (if x = y then Some 0 else map_option Suc (idx_of ys x))"

definition b64_digit :: "char \<Rightarrow> nat option" where
  "b64_digit c = idx_of b64_alphabet c"

fun b64_decode :: "string \<Rightarrow> nat list option" where
  "b64_decode [] = Some []"
| "b64_decode [c0, c1, c2, c3] =
     (case (b64_digit c0, b64_digit c1) of
        (Some d0, Some d1) \<Rightarrow>
          (if c2 = CHR ''='' \<and> c3 = CHR ''='' then Some [(d0 * 262144 + d1 * 4096) div 65536]
           else case b64_digit c2 of
             None \<Rightarrow> None
           | Some d2 \<Rightarrow>
               (if c3 = CHR ''='' then
                  Some [(d0 * 262144 + d1 * 4096 + d2 * 64) div 65536,
                        (d0 * 262144 + d1 * 4096 + d2 * 64) div 256 mod 256]
                else case b64_digit c3 of
                  None \<Rightarrow> None
                | Some d3 \<Rightarrow>
                    (let n = d0 * 262144 + d1 * 4096 + d2 * 64 + d3 in
                     Some [n div 65536, n div 256 mod 256, n mod 256])))
      | _ \<Rightarrow> None)"
| "b64_decode (c0 # c1 # c2 # c3 # rest) =
     (case b64_decode [c0, c1, c2, c3] of
        Some [a, b, c] \<Rightarrow> map_option (\<lambda>r. a # b # c # r) (b64_decode rest)
      | _ \<Rightarrow> None)"
| "b64_decode _ = None"

section \<open>Round trip\<close>

lemma b64_alphabet_facts: "length b64_alphabet = 64" "distinct b64_alphabet" "CHR ''='' \<notin> set b64_alphabet"
  by (simp_all add: b64_alphabet_def)

lemma idx_of_nth: "distinct xs \<Longrightarrow> k < length xs \<Longrightarrow> idx_of xs (xs ! k) = Some k"
proof (induction xs arbitrary: k)
  case Nil
  then show ?case by simp
next
  case (Cons y ys)
  then show ?case by (cases k) (auto simp: nth_mem)
qed

lemma b64_digit_char [simp]: "k < 64 \<Longrightarrow> b64_digit (b64_char k) = Some k"
  by (simp add: b64_digit_def b64_char_def idx_of_nth b64_alphabet_facts)

lemma b64_char_not_pad [simp]: "k < 64 \<Longrightarrow> b64_char k \<noteq> CHR ''=''"
  using b64_alphabet_facts by (metis b64_char_def nth_mem)

lemma sextets: "(n div 262144) * 262144 + (n div 4096 mod 64) * 4096 + (n div 64 mod 64) * 64 + n mod 64 = (n::nat)"
proof -
  have m1: "n mod 262144 = 4096 * (n div 4096 mod 64) + n mod 4096"
    using mod_mult2_eq [of n 4096 64] by simp
  have m2: "n mod 4096 = 64 * (n div 64 mod 64) + n mod 64"
    using mod_mult2_eq [of n 64 64] by simp
  have "n = n div 262144 * 262144 + n mod 262144" by simp
  with m1 m2 show ?thesis by linarith
qed

lemma bytes3:
  assumes a: "a < 256" and b: "b < 256" and c: "(c::nat) < 256"
  shows "(a * 65536 + b * 256 + c) div 65536 = a" "(a * 65536 + b * 256 + c) div 256 mod 256 = b"
    "(a * 65536 + b * 256 + c) mod 256 = c"
proof -
  have lo: "b * 256 + c < 65536" using b c by linarith
  have "(a * 65536 + b * 256 + c) div 65536 = a + (b * 256 + c) div 65536"
    by (simp add: add.assoc)
  with lo show "(a * 65536 + b * 256 + c) div 65536 = a" by simp
  have "(a * 65536 + b * 256 + c) div 256 = a * 256 + b + c div 256"
    by (simp add: add.assoc)
  with c have "(a * 65536 + b * 256 + c) div 256 = a * 256 + b" by simp
  with b show "(a * 65536 + b * 256 + c) div 256 mod 256 = b" by simp
  have e: "a * 65536 + b * 256 + c = c + (a * 256 + b) * 256" by simp
  have "(c + (a * 256 + b) * 256) mod 256 = c mod 256"
    by (rule mod_mult_self1)
  with c show "(a * 65536 + b * 256 + c) mod 256 = c" by (simp only: e) simp
qed

lemma b64_decode_cons4:
  assumes g: "b64_decode [c0, c1, c2, c3] = Some [a, b, c]"
  shows "b64_decode (c0 # c1 # c2 # c3 # s) = map_option (\<lambda>r. a # b # c # r) (b64_decode s)"
proof (cases s)
  case Nil
  with g show ?thesis by simp
next
  case (Cons x xs)
  with g show ?thesis by simp
qed

lemma b64_group3:
  assumes a: "a < 256" and b: "b < 256" and c: "c < 256"
  defines "n \<equiv> a * 65536 + b * 256 + c"
  shows "b64_decode [b64_char (n div 262144), b64_char (n div 4096 mod 64), b64_char (n div 64 mod 64),
                      b64_char (n mod 64)] = Some [a, b, c]"
proof -
  have "n < 262144 * 64" using a b c unfolding n_def by linarith
  then have d0: "n div 262144 < 64" by (simp add: less_mult_imp_div_less)
  from sextets [of n] bytes3 [OF a b c] d0 show ?thesis
    by (simp add: n_def)
qed

lemma b64_group2:
  assumes a: "a < 256" and b: "b < 256"
  defines "n \<equiv> a * 65536 + b * 256"
  shows "b64_decode [b64_char (n div 262144), b64_char (n div 4096 mod 64), b64_char (n div 64 mod 64),
                      CHR ''='']  = Some [a, b]"
proof -
  have "n < 262144 * 64" using a b unfolding n_def by linarith
  then have d0: "n div 262144 < 64" by (simp add: less_mult_imp_div_less)
  have "n = (a * 1024 + b * 4) * 64" unfolding n_def by simp
  then have m: "n mod 64 = 0" by (simp only:) simp
  from sextets [of n] m have "(n div 262144) * 262144 + (n div 4096 mod 64) * 4096 + (n div 64 mod 64) * 64 = n"
    by linarith
  with bytes3 [OF a b, of 0] d0 show ?thesis
    by (simp add: n_def)
qed

lemma b64_group1:
  assumes a: "a < 256"
  defines "n \<equiv> a * 65536"
  shows "b64_decode [b64_char (n div 262144), b64_char (n div 4096 mod 64), CHR ''='', CHR ''='']  = Some [a]"
proof -
  have "n < 262144 * 64" using a unfolding n_def by linarith
  then have d0: "n div 262144 < 64" by (simp add: less_mult_imp_div_less)
  have e: "n = (a * 16 * 64) * 64" unfolding n_def by simp
  then have m: "n mod 64 = 0" "n div 64 mod 64 = 0" by (simp only:, simp)+
  from sextets [of n] m have "(n div 262144) * 262144 + (n div 4096 mod 64) * 4096 = n"
    by linarith
  with bytes3 [OF a, of 0 0] d0 show ?thesis
    by (simp add: n_def)
qed


theorem b64_roundtrip: "\<forall>x \<in> set bs. x < 256 \<Longrightarrow> b64_decode (b64_encode bs) = Some bs"
proof (induction bs rule: b64_encode.induct)
  case (1 a b c rest)
  then have "b64_decode (b64_encode rest) = Some rest" by simp
  with "1.prems" show ?case
    by (simp add: Let_def b64_decode_cons4 [OF b64_group3])
next
  case (2 a b)
  then have "a < 256" "b < 256" by simp_all
  then show ?case unfolding b64_encode.simps Let_def by (rule b64_group2)
next
  case (3 a)
  then have "a < 256" by simp
  then show ?case unfolding b64_encode.simps Let_def by (rule b64_group1)
next
  case 4
  then show ?case by simp
qed


lemma bytes_of_bound: "\<forall>x \<in> set (bytes_of s). x < 256"
  by (simp add: bytes_of_def)

lemma chars_of_bytes_of: "map char_of (bytes_of s) = s"
  by (simp add: bytes_of_def comp_def)

end
