(* ===== verification/Config.thy ===== *)
theory Config
  imports Services Base64
begin

text \<open>
  \<open>src/config/paypal.js\<close> and \<open>src/config/braintree.js\<close>: the credential
  providers. The wallet processor's provider computes its base URL once from
  \<open>PAYPAL_MODE\<close> (\<open>paypal_api\<close>) and, on every call of \<open>getAccessToken\<close>, posts
  a client-credentials grant with HTTP Basic credentials built from
  \<open>PAYPAL_CLIENT_ID\<close> and \<open>PAYPAL_SECRET\<close>. A template literal prints an unset
  variable as \<open>undefined\<close> (\<open>env_str\<close>). The card processor's provider is the
  gateway's configuration: the environment chosen by \<open>BRAINTREE_MODE\<close> and the
  three credentials as they are in the environment.
\<close>

definition paypal_api :: "(string \<Rightarrow> string option) \<Rightarrow> string" where
  "paypal_api env =
     (if env ''PAYPAL_MODE'' = Some ''sandbox'' then ''https://api-m.sandbox.paypal.com''
      else ''https://api-m.paypal.com'')"

definition env_str :: "(string \<Rightarrow> string option) \<Rightarrow> string \<Rightarrow> string" where
  "env_str env k = (case env k of None \<Rightarrow> ''undefined'' | Some v \<Rightarrow> v)"

definition paypal_basic_auth :: "(string \<Rightarrow> string option) \<Rightarrow> string" where
  "paypal_basic_auth env =
     base64_of_string (env_str env ''PAYPAL_CLIENT_ID'' @ '':'' @ env_str env ''PAYPAL_SECRET'')"

definition paypal_token_request :: "(string \<Rightarrow> string option) \<Rightarrow> http_req" where
  "paypal_token_request env =
     \<lparr>req_method = POST,
      req_url = paypal_api env @ ''/v1/oauth2/token'',
      req_headers = [(''Authorization'', ''Basic '' @ paypal_basic_auth env),
                     (''Content-Type'', ''application/x-www-form-urlencoded'')],
      req_body = FormBody ''grant_type=client_credentials''\<rparr>"

definition getAccessToken :: "'w services \<Rightarrow> ('w, jsval) io" where
  "getAccessToken sv =
     catch_io
       (bind_io (axios sv (paypal_token_request (penv sv))) (\<lambda>response.
        lift_io (js_get (resp_data response) ''access_token'')))
       (\<lambda>error. throw error)"

datatype bt_environment = Sandbox | Production

record bt_gateway_config =
  environment :: bt_environment
  merchantId :: "string option"
  publicKey :: "string option"
  privateKey :: "string option"

definition braintree_gateway :: "(string \<Rightarrow> string option) \<Rightarrow> bt_gateway_config" where
  "braintree_gateway env =
     \<lparr>environment = (if env ''BRAINTREE_MODE'' = Some ''sandbox'' then Sandbox else Production),
      merchantId = env ''BRAINTREE_MERCHANT_ID'',
      publicKey = env ''BRAINTREE_PUBLIC_KEY'',
      privateKey = env ''BRAINTREE_PRIVATE_KEY''\<rparr>"

section \<open>Properties of the credential provider\<close>

lemma getAccessToken_traced:
  "getAccessToken (traced sv) (w, log) =
     (case getAccessToken sv w of (x, w') \<Rightarrow> (x, (w', log @ [HttpCall (paypal_token_request (penv sv))])))"
  by (simp add: getAccessToken_def axios_def io_simps split: prod.split sum.split)

text \<open>C10: \<open>getAccessToken\<close> makes exactly one request, a POST of the
  client-credentials grant to the token endpoint of the configured base URL, and the
  Basic credentials it sends decode to \<open>clientId:secret\<close> as the environment holds
  them (the text \<open>undefined\<close> for an unset variable).\<close>

theorem getAccessToken_request:
  assumes run: "getAccessToken (traced sv) (w, []) = (r, (w', log))"
  shows "\<exists>auth. log = [HttpCall \<lparr>req_method = POST, req_url = paypal_api (penv sv) @ ''/v1/oauth2/token'',
                         req_headers = [(''Authorization'', ''Basic '' @ auth),
                                        (''Content-Type'', ''application/x-www-form-urlencoded'')],
                         req_body = FormBody ''grant_type=client_credentials''\<rparr>] \<and>
           map_option (map char_of) (b64_decode auth) =
             Some (env_str (penv sv) ''PAYPAL_CLIENT_ID'' @ '':'' @ env_str (penv sv) ''PAYPAL_SECRET'')"
  using run
  by (auto simp: getAccessToken_traced paypal_token_request_def paypal_basic_auth_def
        base64_of_string_def b64_roundtrip bytes_of_bound chars_of_bytes_of split: prod.splits)

text \<open>C11: the outcome of \<open>getAccessToken\<close> is decided by the token endpoint's
  answer: a 2xx response yields its \<open>access_token\<close> field (\<open>undefined\<close> when the
  body has none), any other status rejects with the \<open>AxiosError\<close> that carries the
  response, and a transport failure rejects as it is; nothing is retried.\<close>

theorem getAccessToken_outcome:
  assumes tr: "transport sv (paypal_token_request (penv sv)) w = (x, w')"
  shows "getAccessToken sv w =
           (case x of
              Inl e \<Rightarrow> (Inl e, w')
            | Inr resp \<Rightarrow>
                (if 200 \<le> resp_status resp \<and> resp_status resp < 300
                 then (js_get (resp_data resp) ''access_token'', w')
                 else (Inl (axios_error resp), w')))"
  using tr
  by (simp add: getAccessToken_def axios_def io_simps split: sum.split)

end
