(* ===== verification/Braintree_Auth.thy ===== *)
theory Braintree_Auth
  imports Braintree_Sim Config
begin

text \<open>
  The card processor as the gateway of \<open>src/config/braintree.js\<close> reaches it.
  Braintree authenticates every SDK call with the gateway's public and private key,
  against the merchant account of the environment the gateway was built for (sandbox
  and production accounts, and their keys, are separate). Keys that are not the
  merchant's keys in that environment, or a merchant id the keys do not belong to,
  make the SDK reject the call with its \<open>authenticationError\<close> (message
  \<open>Authentication Error\<close>), and the processor does nothing.
  \<^item> \<open>bt_account\<close>: the merchant's account, and \<open>bt_authenticates\<close>, whether a
    gateway configuration (\<open>braintree_gateway\<close>) is accepted by it;
  \<^item> \<open>bt_sdk\<close>: the SDK as seen through a configuration, \<open>bt_sim\<close> when it
    authenticates and a rejection otherwise; \<open>bt_sdk_services\<close>, the services value
    of a deployment whose environment builds the configuration.
  A configuration that does not authenticate turns every card route into a 500 answer
  with that error (\<open>bt_refused_routes\<close>).
\<close>

record bt_account =
  acct_env :: bt_environment
  acct_merchant :: string
  acct_public :: string
  acct_private :: string

definition bt_authenticates :: "bt_gateway_config \<Rightarrow> bt_account \<Rightarrow> bool" where
  "bt_authenticates cfg a \<longleftrightarrow>
     environment cfg = acct_env a \<and> merchantId cfg = Some (acct_merchant a) \<and>
     publicKey cfg = Some (acct_public a) \<and> privateKey cfg = Some (acct_private a)"

definition bt_auth_error :: js_error where
  "bt_auth_error = JsErr ''authenticationError'' ''Authentication Error'' None"

definition bt_sdk ::
  "bt_gateway_config \<Rightarrow> bt_account \<Rightarrow> bt_op \<Rightarrow> int \<Rightarrow> bt_store \<Rightarrow> (js_error + jsval) \<times> bt_store" where
  "bt_sdk cfg a op now s = (if bt_authenticates cfg a then bt_sim op now s else (Inl bt_auth_error, s))"

definition bt_sdk_services :: "(string \<Rightarrow> string option) \<Rightarrow> bt_account \<Rightarrow> bt_world services" where
  "bt_sdk_services env a =
     \<lparr>penv = env,
      clock = bw_clock,
      transport = (\<lambda>r w. (Inl (JsErr ''Error'' ''connect ECONNREFUSED'' None), w)),
      gateway = (\<lambda>op w. case bt_sdk (braintree_gateway env) a op (bw_clock w) (bw_store w) of
                          (x, s') \<Rightarrow> (x, w\<lparr>bw_store := s'\<rparr>))\<rparr>"

text \<open>A sandbox merchant account.\<close>

definition bt_account0 :: bt_account where
  "bt_account0 = \<lparr>acct_env = Sandbox, acct_merchant = ''merchant'', acct_public = ''public-key'',
                  acct_private = ''private-key''\<rparr>"

section \<open>The SDK through a configuration\<close>

lemma bt_sdk_accepted [simp]: "bt_authenticates cfg a \<Longrightarrow> bt_sdk cfg a op now s = bt_sim op now s"
  by (simp add: bt_sdk_def)

lemma bt_sdk_refused [simp]: "\<not> bt_authenticates cfg a \<Longrightarrow> bt_sdk cfg a op now s = (Inl bt_auth_error, s)"
  by (simp add: bt_sdk_def)

text \<open>The environment of the gateway is the sandbox exactly when \<open>BRAINTREE_MODE\<close> is
  the string \<open>sandbox\<close>; any other value, and an unset variable, selects production.\<close>

lemma braintree_gateway_env:
  "environment (braintree_gateway env) = Sandbox \<longleftrightarrow> env ''BRAINTREE_MODE'' = Some ''sandbox''"
  by (simp add: braintree_gateway_def)

lemma braintree_gateway_keys:
  "bt_authenticates (braintree_gateway env) a \<longleftrightarrow>
     (env ''BRAINTREE_MODE'' = Some ''sandbox'' \<longleftrightarrow> acct_env a = Sandbox) \<and>
     env ''BRAINTREE_MERCHANT_ID'' = Some (acct_merchant a) \<and>
     env ''BRAINTREE_PUBLIC_KEY'' = Some (acct_public a) \<and> env ''BRAINTREE_PRIVATE_KEY'' = Some (acct_private a)"
  by (cases "acct_env a") (auto simp: bt_authenticates_def braintree_gateway_def)

lemma bt_sdk_services_gateway [io_simps]:
  "\<not> bt_authenticates (braintree_gateway env) a \<Longrightarrow> gateway (bt_sdk_services env a) op w = (Inl bt_auth_error, w)"
  by (simp add: bt_sdk_services_def)

text \<open>With a configuration the account refuses, every card route answers 500 with
  \<open>{error: 'Authentication Error'}\<close> and the processor is unchanged.\<close>

lemma bt_refused_routes:
  assumes bad: "\<not> bt_authenticates (braintree_gateway env) a" and obj: "\<not> nullish b"
  shows "bt_subscribe_route (bt_sdk_services env a) b w = (Inr (bt_error_response bt_auth_error), w)"
    "bt_check_subscription_route (bt_sdk_services env a) sid w = (Inr (bt_error_response bt_auth_error), w)"
    "bt_update_card_route (bt_sdk_services env a) sid b w = (Inr (bt_error_response bt_auth_error), w)"
    "bt_test_connection_route (bt_sdk_services env a) w = (Inr (bt_error_response bt_auth_error), w)"
    "bt_test_subscription_route (bt_sdk_services env a) b w = (Inr (bt_error_response bt_auth_error), w)"
proof -
  from obj obtain n t where eqs: "destructure b ''paymentMethodNonce'' = Inr n"
    "destructure b ''paymentMethodToken'' = Inr t"
    using destructure_Inr by metis
  show "bt_subscribe_route (bt_sdk_services env a) b w = (Inr (bt_error_response bt_auth_error), w)"
    "bt_check_subscription_route (bt_sdk_services env a) sid w = (Inr (bt_error_response bt_auth_error), w)"
    "bt_update_card_route (bt_sdk_services env a) sid b w = (Inr (bt_error_response bt_auth_error), w)"
    "bt_test_connection_route (bt_sdk_services env a) w = (Inr (bt_error_response bt_auth_error), w)"
    "bt_test_subscription_route (bt_sdk_services env a) b w = (Inr (bt_error_response bt_auth_error), w)"
    using bad by (simp_all add: bt_route_defs bt_test_connection_route_def bt_test_subscription_route_def
        eqs io_simps)
qed

end
