(* ===== verification/PayPal_Routes.thy ===== *)
theory PayPal_Routes
  imports Config
begin

text \<open>
  \<open>src/routes/payment.js\<close>: the wallet-processor integration, mounted at
  \<open>/payment\<close>. Four helpers send REST requests through axios
  (\<open>createProduct\<close>, \<open>createPlan\<close>, \<open>pp_createSubscription\<close>,
  \<open>pp_checkSubscriptionStatus\<close>) with a bearer token from \<open>getAccessToken\<close>; three
  routes compose them. Each request carries the headers the source writes, including
  \<open>PayPal-Request-Id\<close> made from \<open>Date.now()\<close>; request bodies are the source's
  object literals. \<open>start_time\<close> is \<open>new Date(Date.now() + 10 * 60 * 1000)
  .toISOString()\<close>. Every route's catch block answers 500 with
  \<open>error.response?.data || error.message\<close> (\<open>pp_error_response\<close>).
\<close>

section \<open>REST helpers\<close>

definition pp_json_headers :: "jsval \<Rightarrow> (string \<times> string) list" where
  "pp_json_headers token = [(''Authorization'', ''Bearer '' @ to_str token), (''Content-Type'', ''application/json'')]"

definition pp_product_data :: jsval where
  "pp_product_data =
     Obj [(''name'', Str ''Monthly Subscription''),
          (''description'', Str ''Monthly recurring payment for premium access''),
          (''type'', Str ''SERVICE''),
          (''category'', Str ''SOFTWARE'')]"

definition pp_product_request :: "(string \<Rightarrow> string option) \<Rightarrow> jsval \<Rightarrow> int \<Rightarrow> http_req" where
  "pp_product_request env token now =
     \<lparr>req_method = POST,
      req_url = paypal_api env @ ''/v1/catalogs/products'',
      req_headers = pp_json_headers token @ [(''PayPal-Request-Id'', ''PRODUCT-'' @ dec_int now)],
      req_body = JsonBody pp_product_data\<rparr>"

definition createProduct :: "'w services \<Rightarrow> jsval \<Rightarrow> ('w, jsval) io" where
  "createProduct sv token =
     bind_io (get_io (clock sv)) (\<lambda>now.
     bind_io (axios sv (pp_product_request (penv sv) token now)) (\<lambda>response.
     lift_io (js_get (resp_data response) ''id'')))"

definition pp_plan_data :: "jsval \<Rightarrow> jsval" where
  "pp_plan_data productId =
     Obj [(''product_id'', productId),
          (''name'', Str ''Monthly Premium Plan''),
          (''description'', Str ''Monthly subscription for $10''),
          (''status'', Str ''ACTIVE''),
          (''billing_cycles'',
             Arr [Obj [(''frequency'', Obj [(''interval_unit'', Str ''MONTH''), (''interval_count'', Num 1)]),
                       (''tenure_type'', Str ''REGULAR''),
                       (''sequence'', Num 1),
                       (''total_cycles'', Num 0),
                       (''pricing_scheme'',
                          Obj [(''fixed_price'', Obj [(''value'', Str ''10.00''), (''currency_code'', Str ''USD'')])])]]),
          (''payment_preferences'',
             Obj [(''auto_bill_outstanding'', Bool True),
                  (''setup_fee_failure_action'', Str ''CONTINUE''),
                  (''payment_failure_threshold'', Num 3)])]"

definition pp_plan_request :: "(string \<Rightarrow> string option) \<Rightarrow> jsval \<Rightarrow> jsval \<Rightarrow> int \<Rightarrow> http_req" where
  "pp_plan_request env token productId now =
     \<lparr>req_method = POST,
      req_url = paypal_api env @ ''/v1/billing/plans'',
      req_headers = pp_json_headers token @ [(''PayPal-Request-Id'', ''PLAN-'' @ dec_int now)],
      req_body = JsonBody (pp_plan_data productId)\<rparr>"

definition createPlan :: "'w services \<Rightarrow> jsval \<Rightarrow> jsval \<Rightarrow> ('w, jsval) io" where
  "createPlan sv token productId =
     bind_io (get_io (clock sv)) (\<lambda>now.
     bind_io (axios sv (pp_plan_request (penv sv) token productId now)) (\<lambda>response.
     lift_io (js_get (resp_data response) ''id'')))"

definition pp_subscription_data :: "jsval \<Rightarrow> string \<Rightarrow> jsval" where
  "pp_subscription_data planId startTime =
     Obj [(''plan_id'', planId),
          (''start_time'', Str startTime),
          (''subscriber'',
             Obj [(''name'', Obj [(''given_name'', Str ''John''), (''surname'', Str ''Doe'')]),
                  (''email_address'', Str ''customer@example.com'')])]"

definition pp_subscription_request ::
  "(string \<Rightarrow> string option) \<Rightarrow> jsval \<Rightarrow> jsval \<Rightarrow> string \<Rightarrow> int \<Rightarrow> http_req" where
  "pp_subscription_request env token planId startTime now =
     \<lparr>req_method = POST,
      req_url = paypal_api env @ ''/v1/billing/subscriptions'',
      req_headers = pp_json_headers token @ [(''PayPal-Request-Id'', ''SUB-'' @ dec_int now)],
      req_body = JsonBody (pp_subscription_data planId startTime)\<rparr>"

text \<open>\<open>Date.now()\<close> is read twice (start time, request id); both reads happen in
  the same synchronous step and see the same clock.\<close>

definition pp_createSubscription :: "'w services \<Rightarrow> jsval \<Rightarrow> jsval \<Rightarrow> ('w, jsval) io" where
  "pp_createSubscription sv token planId =
     bind_io (get_io (clock sv)) (\<lambda>now.
     bind_io (lift_io (to_iso_string (now + 10 * 60 * 1000))) (\<lambda>startTime.
     bind_io (get_io (clock sv)) (\<lambda>now'.
     bind_io (axios sv (pp_subscription_request (penv sv) token planId startTime now')) (\<lambda>response.
     bind_io (lift_io (js_get (resp_data response) ''links'')) (\<lambda>links.
     bind_io (lift_io (js_find_eq ''response.data.links'' links ''rel'' (Str ''approve''))) (\<lambda>link.
     bind_io (lift_io (js_get link ''href'')) (\<lambda>approvalUrl.
     bind_io (lift_io (js_get (resp_data response) ''id'')) (\<lambda>subscriptionId.
     ret (Obj [(''approvalUrl'', approvalUrl), (''subscriptionId'', subscriptionId)])))))))))"

definition pp_status_request :: "(string \<Rightarrow> string option) \<Rightarrow> jsval \<Rightarrow> string \<Rightarrow> http_req" where
  "pp_status_request env token subscriptionId =
     \<lparr>req_method = GET,
      req_url = paypal_api env @ ''/v1/billing/subscriptions/'' @ subscriptionId,
      req_headers = pp_json_headers token,
      req_body = NoBody\<rparr>"

definition pp_checkSubscriptionStatus :: "'w services \<Rightarrow> jsval \<Rightarrow> string \<Rightarrow> ('w, jsval) io" where
  "pp_checkSubscriptionStatus sv token subscriptionId =
     bind_io (axios sv (pp_status_request (penv sv) token subscriptionId)) (\<lambda>response.
     ret (resp_data response))"

section \<open>Routes\<close>

text \<open>\<open>error.response?.data || error.message\<close>.\<close>

definition pp_error_response :: "js_error \<Rightarrow> response" where
  "pp_error_response error =
     res_status_json 500
       (Obj [(''error'', js_or (case err_resp error of None \<Rightarrow> Undef | Some r \<Rightarrow> resp_data r)
                               (Str (err_msg error)))])"

definition pp_create_plan_route :: "'w services \<Rightarrow> ('w, response) io" where
  "pp_create_plan_route sv =
     catch_io
       (bind_io (getAccessToken sv) (\<lambda>token.
        bind_io (createProduct sv token) (\<lambda>productId.
        bind_io (createPlan sv token productId) (\<lambda>planId.
        ret (res_json (Obj [(''planId'', planId)]))))))
       (\<lambda>error. ret (pp_error_response error))"

definition pp_subscribe_route :: "'w services \<Rightarrow> jsval \<Rightarrow> ('w, response) io" where
  "pp_subscribe_route sv reqbody =
     bind_io (lift_io (destructure reqbody ''planId'')) (\<lambda>planId.
     catch_io
       (bind_io (getAccessToken sv) (\<lambda>token.
        bind_io (pp_createSubscription sv token planId) (\<lambda>result.
        ret (res_json result))))
       (\<lambda>error. ret (pp_error_response error)))"

definition pp_status_fields :: "(string \<times> step list) list" where
  "pp_status_fields =
     [(''id'', [Get ''id'']),
      (''status'', [Get ''status'']),
      (''plan_id'', [Get ''plan_id'']),
      (''start_time'', [Get ''start_time'']),
      (''next_billing_time'', [Get ''billing_info'', OptGet ''next_billing_time'']),
      (''last_payment'', [Get ''billing_info'', OptGet ''last_payment''])]"

definition pp_check_subscription_route :: "'w services \<Rightarrow> string \<Rightarrow> ('w, response) io" where
  "pp_check_subscription_route sv subscriptionId =
     catch_io
       (bind_io (getAccessToken sv) (\<lambda>token.
        bind_io (pp_checkSubscriptionStatus sv token subscriptionId) (\<lambda>subscriptionDetails.
        bind_io (lift_io (js_pick subscriptionDetails pp_status_fields)) (\<lambda>snapshot.
        ret (res_json snapshot)))))
       (\<lambda>error. ret (pp_error_response error))"

text \<open>The request id a request carries, the answers the router promises, and a
  sandbox configuration with a transport answering 201 with fixed data.\<close>

definition request_id :: "http_req \<Rightarrow> string option" where
  "request_id r = map_of (req_headers r) ''PayPal-Request-Id''"

definition pp_answered :: "response \<Rightarrow> bool" where
  "pp_answered r \<longleftrightarrow>
     status r = 200 \<or>
     status r = 500 \<and> (case body r of Obj [(k, v)] \<Rightarrow> k = ''error'' | _ \<Rightarrow> False)"

definition pp_env0 :: "string \<Rightarrow> string option" where
  "pp_env0 = [''PAYPAL_MODE'' \<mapsto> ''sandbox'', ''PAYPAL_CLIENT_ID'' \<mapsto> ''client'', ''PAYPAL_SECRET'' \<mapsto> ''s3cret'']"

definition pp_ok_answer :: "jsval \<Rightarrow> http_req \<Rightarrow> http_resp" where
  "pp_ok_answer d r = \<lparr>resp_status = 201, resp_data = d\<rparr>"

section \<open>Properties of the router\<close>

lemma createProduct_traced:
  "createProduct (traced sv) t (w, log) =
     (case createProduct sv t w of
        (x, w') \<Rightarrow> (x, (w', log @ [HttpCall (pp_product_request (penv sv) t (clock sv w))])))"
  by (simp add: createProduct_def axios_def io_simps split: prod.split sum.split)

lemma createPlan_traced:
  "createPlan (traced sv) t p (w, log) =
     (case createPlan sv t p w of
        (x, w') \<Rightarrow> (x, (w', log @ [HttpCall (pp_plan_request (penv sv) t p (clock sv w))])))"
  by (simp add: createPlan_def axios_def io_simps split: prod.split sum.split)

text \<open>C12: \<open>GET /create-plan\<close> requests a token, then creates the product with that
  token, then the plan with that token and the product id the product request
  returned; the first failure stops the sequence and nothing is undone.\<close>

theorem pp_create_plan_calls:
  assumes run: "pp_create_plan_route (traced sv) (w, []) = (r, (w', log))"
  shows "log = [HttpCall (paypal_token_request (penv sv))] \<or>
         (\<exists>t w1. getAccessToken sv w = (Inr t, w1) \<and>
            (log = [HttpCall (paypal_token_request (penv sv)),
                    HttpCall (pp_product_request (penv sv) t (clock sv w1))] \<or>
             (\<exists>p w2. createProduct sv t w1 = (Inr p, w2) \<and>
                log = [HttpCall (paypal_token_request (penv sv)),
                       HttpCall (pp_product_request (penv sv) t (clock sv w1)),
                       HttpCall (pp_plan_request (penv sv) t p (clock sv w2))])))"
  using run
  by (auto simp: pp_create_plan_route_def io_simps getAccessToken_traced createProduct_traced
        createPlan_traced split: prod.splits sum.splits)


text \<open>C13: the \<open>PayPal-Request-Id\<close> of a product request depends on the clock alone:
  two product requests carry the same id exactly when they are sent in the same
  millisecond, whatever their tokens, so two logical requests in one millisecond
  collide under the processor's idempotency key.\<close>

theorem pp_request_id_clock:
  "request_id (pp_product_request env t n1) = request_id (pp_product_request env' t' n2) \<longleftrightarrow> n1 = n2"
  by (simp add: request_id_def pp_product_request_def pp_json_headers_def)

text \<open>C14: when the token endpoint rejects the credentials (any status outside 2xx),
  \<open>GET /create-plan\<close> makes no further request and answers 500 with the rejection's
  body, or with axios' message when the body is falsy.\<close>

theorem pp_create_plan_auth_failure:
  assumes tok: "transport sv (paypal_token_request (penv sv)) w = (Inr resp, wa)"
    and bad: "\<not> (200 \<le> resp_status resp \<and> resp_status resp < 300)"
  shows "pp_create_plan_route (traced sv) (w, []) =
           (Inr (res_status_json 500 (Obj [(''error'', js_or (resp_data resp)
                   (Str (''Request failed with status code '' @ dec_nat (resp_status resp))))])),
            (wa, [HttpCall (paypal_token_request (penv sv))]))"
  using tok bad
  by (auto simp: pp_create_plan_route_def io_simps getAccessToken_traced getAccessToken_def axios_def
      pp_error_response_def axios_error_def split: if_splits)


lemma pp_answered_ok [simp]: "pp_answered (res_json v)" "pp_answered (pp_error_response e)"
  by (simp_all add: pp_answered_def res_json_def pp_error_response_def res_status_json_def)

text \<open>C15: with an object request body, no wallet route lets an exception escape: each
  answers 200 or 500 with the upstream payload or the message.\<close>

theorem pp_routes_answer:
  assumes obj: "\<not> nullish reqbody"
  shows "(never_throws (pp_create_plan_route sv) \<and> returns pp_answered (pp_create_plan_route sv)) \<and>
         (never_throws (pp_subscribe_route sv reqbody) \<and> returns pp_answered (pp_subscribe_route sv reqbody)) \<and>
         (never_throws (pp_check_subscription_route sv sid) \<and> returns pp_answered (pp_check_subscription_route sv sid))"
proof -
  from obj obtain p where p: "destructure reqbody ''planId'' = Inr p"
    using destructure_Inr by blast
  show ?thesis
    unfolding pp_create_plan_route_def pp_subscribe_route_def pp_check_subscription_route_def p
    by (intro conjI; intro returns_intros; simp)
qed


lemma find_field_eq_none:
  "\<forall>l \<in> set ls. \<exists>gs. l = Obj gs \<and> obj_lookup gs k \<noteq> v \<Longrightarrow> find_field_eq ls k v = Inr Undef"
  by (induction ls) auto

text \<open>C16: when PayPal creates the subscription but its \<open>links\<close> have no \<open>approve\<close>
  entry, \<open>POST /subscribe\<close> answers 500 with the TypeError of reading \<open>href\<close>
  of undefined, and the subscription created upstream is not reported.\<close>

theorem pp_subscribe_no_approve_link:
  assumes tok: "getAccessToken sv w = (Inr t, wa)"
    and iso: "to_iso_string (clock sv wa + 600000) = Inr st"
    and sub: "transport sv (pp_subscription_request (penv sv) t p st (clock sv wa)) wa = (Inr resp, wb)"
    and ok: "200 \<le> resp_status resp" "resp_status resp < 300"
    and data: "resp_data resp = Obj fs" "obj_lookup fs ''links'' = Arr ls"
    and none: "\<forall>l \<in> set ls. \<exists>gs. l = Obj gs \<and> obj_lookup gs ''rel'' \<noteq> Str ''approve''"
  shows "pp_subscribe_route sv (Obj [(''planId'', p)]) w =
           (Inr (pp_error_response (type_error_read Undef ''href'')), wb)"
  using tok iso sub ok data find_field_eq_none [OF none]
  by (simp add: pp_subscribe_route_def pp_createSubscription_def io_simps axios_def js_find_eq_def)

text \<open>C17: \<open>GET /check-subscription/:id\<close> projects PayPal's subscription onto six
  fields; when it has no \<open>billing_info\<close>, the optional chains give
  \<open>undefined\<close> and the response omits \<open>next_billing_time\<close> and
  \<open>last_payment\<close> instead of sending a default.\<close>

theorem pp_check_omits_billing:
  assumes tok: "getAccessToken sv w = (Inr t, wa)"
    and st: "transport sv (pp_status_request (penv sv) t sid) wa = (Inr resp, wb)"
    and ok: "200 \<le> resp_status resp" "resp_status resp < 300"
    and data: "resp_data resp = Obj fs" "''billing_info'' \<notin> fst ` set fs"
  shows "pp_check_subscription_route sv sid w =
           (Inr (res_json (Obj [(''id'', obj_lookup fs ''id''), (''status'', obj_lookup fs ''status''),
                               (''plan_id'', obj_lookup fs ''plan_id''),
                               (''start_time'', obj_lookup fs ''start_time'')])), wb)"
proof -
  have b: "obj_lookup fs ''billing_info'' = Undef"
    using data(2) by (rule obj_lookup_notin)
  show ?thesis
    using tok st ok data(1) b
    by (simp add: pp_check_subscription_route_def pp_checkSubscriptionStatus_def io_simps axios_def
        js_pick_def pp_status_fields_def res_json_def)
qed

lemma iso_600000: "to_iso_string 600000 = Inr ''1970-01-01T00:10:00.000Z''"
  by code_simp







lemma pp_createSubscription_traced:
  "snd (snd (pp_createSubscription (traced sv) t p (w, log))) =
     log @ (case to_iso_string (clock sv w + 600000) of
              Inl e \<Rightarrow> []
            | Inr st \<Rightarrow> [HttpCall (pp_subscription_request (penv sv) t p st (clock sv w))])"
  by (simp add: pp_createSubscription_def axios_def io_simps split: prod.split sum.split)

text \<open>C18: \<open>POST /subscribe\<close> requests a token and then sends one subscription request
  for the plan of the request body, whose \<open>start_time\<close> is the clock plus ten minutes
  in ISO format and whose request id is \<open>SUB-\<close> and the clock.\<close>

theorem pp_subscribe_calls:
  assumes run: "pp_subscribe_route (traced sv) (Obj [(''planId'', p)]) (w, []) = (r, (w', log))"
  shows "log = [HttpCall (paypal_token_request (penv sv))] \<or>
         (\<exists>t wa st. getAccessToken sv w = (Inr t, wa) \<and> to_iso_string (clock sv wa + 600000) = Inr st \<and>
            log = [HttpCall (paypal_token_request (penv sv)),
                   HttpCall (pp_subscription_request (penv sv) t p st (clock sv wa))])"
proof -
  obtain x wa where tok: "getAccessToken sv w = (x, wa)" by fastforce
  show ?thesis
  proof (cases x)
    case (Inl e)
    with run tok show ?thesis
      by (simp add: pp_subscribe_route_def io_simps getAccessToken_traced)
  next
    case (Inr t)
    let ?S = "pp_createSubscription (traced sv) t p (wa, [HttpCall (paypal_token_request (penv sv))])"
    from run tok Inr have "log = snd (snd ?S)"
      by (auto simp: pp_subscribe_route_def io_simps getAccessToken_traced split: prod.splits sum.splits)
    then have "log = HttpCall (paypal_token_request (penv sv)) #
                (case to_iso_string (clock sv wa + 600000) of
                   Inl e \<Rightarrow> [] | Inr st \<Rightarrow> [HttpCall (pp_subscription_request (penv sv) t p st (clock sv wa))])"
      by (simp add: pp_createSubscription_traced)
    with tok Inr show ?thesis by (auto split: sum.splits)
  qed
qed

section \<open>Witnesses\<close>

theorem getAccessToken_request_witness:
  "let R = getAccessToken (traced (fixed_services pp_env0 0 (pp_ok_answer (Obj [(''access_token'', Str ''A21'')])))) ((), [])
   in \<exists>auth. snd (snd R) = [HttpCall \<lparr>req_method = POST, req_url = ''https://api-m.sandbox.paypal.com/v1/oauth2/token'',
                         req_headers = [(''Authorization'', ''Basic '' @ auth),
                                        (''Content-Type'', ''application/x-www-form-urlencoded'')],
                         req_body = FormBody ''grant_type=client_credentials''\<rparr>] \<and>
           map_option (map char_of) (b64_decode auth) = Some ''client:s3cret''"
proof -
  let ?sv = "fixed_services pp_env0 0 (pp_ok_answer (Obj [(''access_token'', Str ''A21'')]))"
  let ?R = "getAccessToken (traced ?sv) ((), [])"
  have "?R = (fst ?R, fst (snd ?R), snd (snd ?R))" by (cases ?R) auto
  from getAccessToken_request [OF this] show ?thesis
    by (simp add: Let_def fixed_services_def pp_env0_def env_str_def paypal_api_def)
qed

theorem pp_create_plan_auth_failure_witness:
  "pp_create_plan_route (traced (fixed_services pp_env0 0
      (\<lambda>r. \<lparr>resp_status = 401, resp_data = Obj [(''error'', Str ''invalid_client'')]\<rparr>))) ((), []) =
   (Inr (res_status_json 500 (Obj [(''error'', Obj [(''error'', Str ''invalid_client'')])])),
    ((), [HttpCall (paypal_token_request pp_env0)]))"
  using pp_create_plan_auth_failure [where sv = "fixed_services pp_env0 0
      (\<lambda>r. \<lparr>resp_status = 401, resp_data = Obj [(''error'', Str ''invalid_client'')]\<rparr>)"
      and w = "()" and wa = "()"
      and resp = "\<lparr>resp_status = 401, resp_data = Obj [(''error'', Str ''invalid_client'')]\<rparr>"]
  by (simp add: fixed_services_def)

theorem pp_subscribe_no_approve_link_witness:
  "pp_subscribe_route (fixed_services pp_env0 0 (pp_ok_answer
      (Obj [(''access_token'', Str ''A21''), (''id'', Str ''I-1''),
            (''links'', Arr [Obj [(''rel'', Str ''self''), (''href'', Str ''https://x/I-1'')]])])))
     (Obj [(''planId'', Str ''P-1'')]) () =
   (Inr (pp_error_response (type_error_read Undef ''href'')), ())"
  by (rule pp_subscribe_no_approve_link [where t = "Str ''A21''" and wa = "()" and st = "''1970-01-01T00:10:00.000Z''"
        and fs = "[(''access_token'', Str ''A21''), (''id'', Str ''I-1''),
            (''links'', Arr [Obj [(''rel'', Str ''self''), (''href'', Str ''https://x/I-1'')]])]"])
     (simp add: fixed_services_def pp_ok_answer_def getAccessToken_def axios_def io_simps iso_600000)+

theorem pp_check_omits_billing_witness:
  "pp_check_subscription_route (fixed_services pp_env0 0 (pp_ok_answer
      (Obj [(''access_token'', Str ''A21''), (''id'', Str ''I-1''), (''status'', Str ''ACTIVE'')])))
     ''I-1'' () =
   (Inr (res_json (Obj [(''id'', Str ''I-1''), (''status'', Str ''ACTIVE''), (''plan_id'', Undef),
                        (''start_time'', Undef)])), ())"
proof -
  let ?fs = "[(''access_token'', Str ''A21''), (''id'', Str ''I-1''), (''status'', Str ''ACTIVE'')]"
  have "pp_check_subscription_route (fixed_services pp_env0 0 (pp_ok_answer (Obj ?fs))) ''I-1'' () =
         (Inr (res_json (Obj [(''id'', obj_lookup ?fs ''id''), (''status'', obj_lookup ?fs ''status''),
                             (''plan_id'', obj_lookup ?fs ''plan_id''),
                             (''start_time'', obj_lookup ?fs ''start_time'')])), ())"
    by (rule pp_check_omits_billing [where t = "Str ''A21''" and wa = "()"])
       (simp add: fixed_services_def pp_ok_answer_def getAccessToken_def axios_def io_simps)+
  then show ?thesis by simp
qed

theorem getAccessToken_outcome_witness:
  "getAccessToken (fixed_services pp_env0 0 (\<lambda>r. \<lparr>resp_status = 401, resp_data = Obj [(''error'', Str ''invalid_client'')]\<rparr>)) () =
     (Inl (axios_error \<lparr>resp_status = 401, resp_data = Obj [(''error'', Str ''invalid_client'')]\<rparr>), ())"
  by (subst getAccessToken_outcome [where x = "Inr \<lparr>resp_status = 401, resp_data = Obj [(''error'', Str ''invalid_client'')]\<rparr>"
        and w' = "()"]) (simp_all add: fixed_services_def)

theorem pp_create_plan_calls_witness:
  "let R = pp_create_plan_route (traced (fixed_services pp_env0 5 (pp_ok_answer (Obj [(''access_token'', Str ''A21''), (''id'', Str ''X'')])))) ((), [])
   in snd (snd R) = [HttpCall (paypal_token_request pp_env0)] \<or>
      (\<exists>t w1. getAccessToken (fixed_services pp_env0 5 (pp_ok_answer (Obj [(''access_token'', Str ''A21''), (''id'', Str ''X'')]))) () = (Inr t, w1) \<and>
         (snd (snd R) = [HttpCall (paypal_token_request pp_env0), HttpCall (pp_product_request pp_env0 t 5)] \<or>
          (\<exists>p w2. createProduct (fixed_services pp_env0 5 (pp_ok_answer (Obj [(''access_token'', Str ''A21''), (''id'', Str ''X'')]))) t w1 = (Inr p, w2) \<and>
             snd (snd R) = [HttpCall (paypal_token_request pp_env0), HttpCall (pp_product_request pp_env0 t 5),
                            HttpCall (pp_plan_request pp_env0 t p 5)])))"
proof -
  let ?sv = "fixed_services pp_env0 5 (pp_ok_answer (Obj [(''access_token'', Str ''A21''), (''id'', Str ''X'')]))"
  let ?R = "pp_create_plan_route (traced ?sv) ((), [])"
  have "?R = (fst ?R, fst (snd ?R), snd (snd ?R))" by (cases ?R) auto
  from pp_create_plan_calls [OF this] show ?thesis
    by (simp add: Let_def fixed_services_def)
qed

theorem pp_subscribe_calls_witness:
  "let R = pp_subscribe_route (traced (fixed_services pp_env0 0 (pp_ok_answer (Obj [(''access_token'', Str ''A21'')])))) (Obj [(''planId'', Str ''P-1'')]) ((), [])
   in snd (snd R) = [HttpCall (paypal_token_request pp_env0)] \<or>
      (\<exists>t wa st. getAccessToken (fixed_services pp_env0 0 (pp_ok_answer (Obj [(''access_token'', Str ''A21'')]))) () = (Inr t, wa) \<and>
         to_iso_string (0 + 600000) = Inr st \<and>
         snd (snd R) = [HttpCall (paypal_token_request pp_env0),
                        HttpCall (pp_subscription_request pp_env0 t (Str ''P-1'') st 0)])"
proof -
  let ?sv = "fixed_services pp_env0 0 (pp_ok_answer (Obj [(''access_token'', Str ''A21'')]))"
  let ?R = "pp_subscribe_route (traced ?sv) (Obj [(''planId'', Str ''P-1'')]) ((), [])"
  have "?R = (fst ?R, fst (snd ?R), snd (snd ?R))" by (cases ?R) auto
  from pp_subscribe_calls [OF this] show ?thesis
    by (simp add: Let_def fixed_services_def)
qed

theorem pp_routes_answer_witness:
  "(never_throws (pp_create_plan_route (fixed_services pp_env0 0 (pp_ok_answer Null))) \<and>
    returns pp_answered (pp_create_plan_route (fixed_services pp_env0 0 (pp_ok_answer Null)))) \<and>
   (never_throws (pp_subscribe_route (fixed_services pp_env0 0 (pp_ok_answer Null)) (Obj [])) \<and>
    returns pp_answered (pp_subscribe_route (fixed_services pp_env0 0 (pp_ok_answer Null)) (Obj []))) \<and>
   (never_throws (pp_check_subscription_route (fixed_services pp_env0 0 (pp_ok_answer Null)) ''I-1'') \<and>
    returns pp_answered (pp_check_subscription_route (fixed_services pp_env0 0 (pp_ok_answer Null)) ''I-1''))"
  by (rule pp_routes_answer) simp

theorem pp_request_id_clock_witness:
  "request_id (pp_product_request pp_env0 (Str ''A'') 1700000000000) =
     request_id (pp_product_request pp_env0 (Str ''B'') 1700000000000) \<and>
   request_id (pp_product_request pp_env0 (Str ''A'') 1700000000000) \<noteq>
     request_id (pp_product_request pp_env0 (Str ''A'') 1700000000001)"
  by (simp only: pp_request_id_clock) simp

end
