(* ===== verification/Server.thy ===== *)
theory Server
  imports Braintree_Routes PayPal_Routes
begin

text \<open>
  \<open>src/server.js\<close>: the transport shell. The application parses JSON bodies
  (\<open>express.json()\<close>) and mounts the wallet router at \<open>/payment\<close> and the card
  router at \<open>/braintree\<close>. A request is dispatched the way Express 4 does it: the
  path ends at the query string or at a fragment (parseurl hands a URL with \<open>#\<close>
  to \<open>url.parse\<close>, which drops the fragment); a mount path matches case-insensitively when it is the
  whole path or followed by \<open>/\<close>, and is removed; a route path such as
  \<open>/check-subscription/:subscriptionId\<close> matches case-insensitively, with one
  optional trailing slash, a parameter being one non-empty segment without \<open>/\<close>;
  the first matching route of a router handles the request; a parameter is decoded
  with \<open>decodeURIComponent\<close> before the handler runs, and a malformed escape makes
  Express answer 400. A request no route matches reaches Express's final handler
  (404). The body is \<open>req.body\<close> as the JSON parser left it.
\<close>

record in_req =
  in_method :: http_method
  in_url :: string
  in_body :: jsval

datatype 'w routed = Handler "('w, response) io" | NoRoute | BadParam

section \<open>Path matching\<close>

definition lower_ascii :: "char \<Rightarrow> char" where
  "lower_ascii c =
     (let n = of_char c :: nat in if 65 \<le> n \<and> n \<le> 90 then char_of (n + 32) else c)"

definition ci_eq :: "string \<Rightarrow> string \<Rightarrow> bool" where
  "ci_eq a b \<longleftrightarrow> map lower_ascii a = map lower_ascii b"

definition ci_prefix :: "string \<Rightarrow> string \<Rightarrow> bool" where
  "ci_prefix lit s \<longleftrightarrow> length lit \<le> length s \<and> ci_eq lit (take (length lit) s)"

text \<open>\<open>app.use(prefix, router)\<close>: the path left for the router, if the mount
  matches (the regular expression \<open>^prefix\/?(?=\/|$)\<close>, case-insensitive).\<close>

definition mount_rest :: "string \<Rightarrow> string \<Rightarrow> string option" where
  "mount_rest prefix p =
     (if \<not> ci_prefix prefix p then None
      else let r = drop (length prefix) p in
        if r = [] \<or> r = ''/'' then Some ''/''
        else if hd r \<noteq> CHR ''/'' then None
        else if hd (tl r) = CHR ''/'' then Some (tl r)
        else Some r)"

text \<open>A literal route path, \<open>^lit\/?$\<close> case-insensitive.\<close>

definition route_exact :: "string \<Rightarrow> string \<Rightarrow> bool" where
  "route_exact lit p \<longleftrightarrow> ci_eq p lit \<or> ci_eq p (lit @ ''/'')"

text \<open>A route path \<open>lit:param\<close>, \<open>^lit([^\/]+?)\/?$\<close> case-insensitive: the raw
  parameter.\<close>

definition route_param :: "string \<Rightarrow> string \<Rightarrow> string option" where
  "route_param lit p =
     (if \<not> ci_prefix lit p then None
      else let r = drop (length lit) p;
               seg = (if r \<noteq> [] \<and> last r = CHR ''/'' then butlast r else r) in
        if seg \<noteq> [] \<and> CHR ''/'' \<notin> set seg then Some seg else None)"

section \<open>\<open>decodeURIComponent\<close>\<close>

text \<open>A string is its sequence of bytes (UTF-8). \<open>decodeURIComponent\<close> turns each
  escape \<open>%XY\<close> into the byte \<open>XY\<close>; an escaped byte of 128 or more must start a
  complete, well-formed UTF-8 sequence of escapes (RFC 3629), otherwise, and for a
  \<open>%\<close> not followed by two hexadecimal digits, it throws \<open>URIError\<close> (\<open>None\<close>).\<close>

datatype url_tok = Lit char | Esc nat

definition hex_digit :: "char \<Rightarrow> nat option" where
  "hex_digit c =
     (let n = of_char c :: nat in
      if 48 \<le> n \<and> n \<le> 57 then Some (n - 48)
      else if 65 \<le> n \<and> n \<le> 70 then Some (n - 55)
      else if 97 \<le> n \<and> n \<le> 102 then Some (n - 87)
      else None)"

fun url_tokens :: "string \<Rightarrow> url_tok list option" where
  "url_tokens [] = Some []"
| "url_tokens (c # cs) =
     (if c \<noteq> CHR ''%'' then map_option (Cons (Lit c)) (url_tokens cs)
      else case cs of
        h1 # h2 # rest \<Rightarrow>
          (case (hex_digit h1, hex_digit h2) of
             (Some a, Some b) \<Rightarrow> map_option (Cons (Esc (a * 16 + b))) (url_tokens rest)
           | _ \<Rightarrow> None)
      | _ \<Rightarrow> None)"

text \<open>The number of continuation bytes announced by a leading byte.\<close>

definition utf8_len :: "nat \<Rightarrow> nat option" where
  "utf8_len b =
     (if 192 \<le> b \<and> b < 224 then Some 1
      else if 224 \<le> b \<and> b < 240 then Some 2
      else if 240 \<le> b \<and> b < 248 then Some 3
      else None)"

definition cont :: "nat \<Rightarrow> bool" where
  "cont b \<longleftrightarrow> 128 \<le> b \<and> b < 192"

fun utf8_ok :: "nat list \<Rightarrow> bool" where
  "utf8_ok [b0, b1] \<longleftrightarrow> 194 \<le> b0 \<and> b0 \<le> 223 \<and> cont b1"
| "utf8_ok [b0, b1, b2] \<longleftrightarrow>
     (b0 = 224 \<and> 160 \<le> b1 \<and> b1 < 192 \<or> 225 \<le> b0 \<and> b0 \<le> 236 \<and> cont b1 \<or>
      b0 = 237 \<and> 128 \<le> b1 \<and> b1 < 160 \<or> 238 \<le> b0 \<and> b0 \<le> 239 \<and> cont b1) \<and> cont b2"
| "utf8_ok [b0, b1, b2, b3] \<longleftrightarrow>
     (b0 = 240 \<and> 144 \<le> b1 \<and> b1 < 192 \<or> 241 \<le> b0 \<and> b0 \<le> 243 \<and> cont b1 \<or>
      b0 = 244 \<and> 128 \<le> b1 \<and> b1 < 144) \<and> cont b2 \<and> cont b3"
| "utf8_ok _ \<longleftrightarrow> False"

fun esc_bytes :: "url_tok list \<Rightarrow> nat list option" where
  "esc_bytes [] = Some []"
| "esc_bytes (Esc b # ts) = map_option (Cons b) (esc_bytes ts)"
| "esc_bytes (Lit c # ts) = None"

function decode_toks :: "url_tok list \<Rightarrow> string option" where
  "decode_toks [] = Some []"
| "decode_toks (Lit c # ts) = map_option (Cons c) (decode_toks ts)"
| "decode_toks (Esc b # ts) =
     (if b < 128 then map_option (Cons (char_of b)) (decode_toks ts)
      else case utf8_len b of
        None \<Rightarrow> None
      | Some n \<Rightarrow>
          (case esc_bytes (take n ts) of
             Some bs \<Rightarrow>
               (if length bs = n \<and> utf8_ok (b # bs)
                then map_option (\<lambda>r. map char_of (b # bs) @ r) (decode_toks (drop n ts))
                else None)
           | None \<Rightarrow> None))"
  by pat_completeness auto
termination
  by (relation "measure length") auto

definition decodeURIComponent :: "string \<Rightarrow> string option" where
  "decodeURIComponent s = Option.bind (url_tokens s) decode_toks"

text \<open>Express's \<open>decode_param\<close>: a parameter that does not decode is a 400.\<close>

definition with_param :: "string \<Rightarrow> (string \<Rightarrow> ('w, response) io) \<Rightarrow> 'w routed" where
  "with_param seg h = (case decodeURIComponent seg of None \<Rightarrow> BadParam | Some d \<Rightarrow> Handler (h d))"

section \<open>Routers and the application\<close>

text \<open>Express tries the layers of a router in order. A parameter is decoded as soon
  as the layer's path matches, before its method is checked, so a bad escape is a
  400 whatever the method.\<close>

definition pp_router :: "'w services \<Rightarrow> http_method \<Rightarrow> string \<Rightarrow> jsval \<Rightarrow> 'w routed" where
  "pp_router sv m p reqbody =
     (if m = GET \<and> route_exact ''/create-plan'' p then Handler (pp_create_plan_route sv)
      else if m = POST \<and> route_exact ''/subscribe'' p then Handler (pp_subscribe_route sv reqbody)
      else case route_param ''/check-subscription/'' p of
        None \<Rightarrow> NoRoute
      | Some seg \<Rightarrow>
          (case decodeURIComponent seg of
             None \<Rightarrow> BadParam
           | Some subscriptionId \<Rightarrow>
               if m = GET then Handler (pp_check_subscription_route sv subscriptionId) else NoRoute))"

definition bt_router :: "'w services \<Rightarrow> http_method \<Rightarrow> string \<Rightarrow> jsval \<Rightarrow> 'w routed" where
  "bt_router sv m p reqbody =
     (if m = POST \<and> route_exact ''/subscribe'' p then Handler (bt_subscribe_route sv reqbody)
      else case route_param ''/check-subscription/'' p of
        Some seg \<Rightarrow>
          (case decodeURIComponent seg of
             None \<Rightarrow> BadParam
           | Some subscriptionId \<Rightarrow>
               if m = GET then Handler (bt_check_subscription_route sv subscriptionId) else NoRoute)
      | None \<Rightarrow>
          (case route_param ''/update-card/'' p of
             Some seg \<Rightarrow>
               (case decodeURIComponent seg of
                  None \<Rightarrow> BadParam
                | Some subscriptionId \<Rightarrow>
                    if m = POST then Handler (bt_update_card_route sv subscriptionId reqbody) else NoRoute)
           | None \<Rightarrow>
               if m = GET \<and> route_exact ''/test-connection'' p then Handler (bt_test_connection_route sv)
               else if m = POST \<and> route_exact ''/test-subscription'' p
               then Handler (bt_test_subscription_route sv reqbody)
               else NoRoute))"

text \<open>\<open>app.use('/payment', ...)\<close> then \<open>app.use('/braintree', ...)\<close>: a request
  the first router does not handle goes on to the next layer; an error goes to the
  final handler. The path is the URL up to the first \<open>?\<close> or \<open>#\<close>
  (\<open>parseurl\<close>).\<close>

definition server_dispatch :: "'w services \<Rightarrow> in_req \<Rightarrow> 'w routed" where
  "server_dispatch sv r =
     (let p = takeWhile (\<lambda>c. c \<noteq> CHR ''?'' \<and> c \<noteq> CHR ''#'') (in_url r) in
      case (case mount_rest ''/payment'' p of
              Some q \<Rightarrow> pp_router sv (in_method r) q (in_body r)
            | None \<Rightarrow> NoRoute) of
        NoRoute \<Rightarrow>
          (case mount_rest ''/braintree'' p of
             Some q \<Rightarrow> bt_router sv (in_method r) q (in_body r)
           | None \<Rightarrow> NoRoute)
      | x \<Rightarrow> x)"

text \<open>\<open>const PORT = process.env.PORT || 3000\<close>: the value \<open>app.listen\<close> is given,
  the variable's text when it is set and not empty, else the number 3000.\<close>

definition server_port :: "(string \<Rightarrow> string option) \<Rightarrow> jsval" where
  "server_port env = js_or (case env ''PORT'' of None \<Rightarrow> Undef | Some p \<Rightarrow> Str p) (Num 3000)"

section \<open>Where an outgoing request goes\<close>

text \<open>axios resolves the URL it is given with the WHATWG URL parser: the path ends at
  \<open>?\<close> or \<open>#\<close>, \<open>/\<close> and \<open>\\\<close> separate segments (the scheme is \<open>https\<close>), a
  segment \<open>..\<close> removes the one before it and \<open>.\<close> is dropped (also written with
  \<open>%2e\<close>); a final dot segment leaves an empty one.\<close>

fun split_segs :: "string \<Rightarrow> string list" where
  "split_segs [] = [[]]"
| "split_segs (c # cs) =
     (if c = CHR ''/'' \<or> c = CHR 0x5C then [] # split_segs cs
      else case split_segs cs of s # ss \<Rightarrow> (c # s) # ss | [] \<Rightarrow> [[c]])"

definition dot_seg :: "string \<Rightarrow> bool" where
  "dot_seg s \<longleftrightarrow> map lower_ascii s \<in> {''.'', ''%2e''}"

definition dotdot_seg :: "string \<Rightarrow> bool" where
  "dotdot_seg s \<longleftrightarrow> map lower_ascii s \<in> {''..'', ''.%2e'', ''%2e.'', ''%2e%2e''}"

fun resolve_segs :: "string list \<Rightarrow> string list \<Rightarrow> string list" where
  "resolve_segs acc [] = rev acc"
| "resolve_segs acc [s] =
     (if dotdot_seg s then rev ([] # drop 1 acc) else if dot_seg s then rev ([] # acc) else rev (s # acc))"
| "resolve_segs acc (s # s' # ss) =
     (if dotdot_seg s then resolve_segs (drop 1 acc) (s' # ss)
      else if dot_seg s then resolve_segs acc (s' # ss)
      else resolve_segs (s # acc) (s' # ss))"

fun join_slash :: "string list \<Rightarrow> string" where
  "join_slash [] = []"
| "join_slash [s] = s"
| "join_slash (s # ss) = s @ ''/'' @ join_slash ss"

text \<open>The path a request for \<open>url\<close> reaches on \<open>origin\<close>.\<close>

definition url_path :: "string \<Rightarrow> string \<Rightarrow> string option" where
  "url_path origin url =
     (if take (length origin) url = origin \<and> take 1 (drop (length origin) url) = ''/''
      then let p = takeWhile (\<lambda>c. c \<noteq> CHR ''?'' \<and> c \<noteq> CHR ''#'') (drop (length origin + 1) url) in
           Some (''/'' @ join_slash (resolve_segs [] (split_segs p)))
      else None)"


section \<open>Properties of the dispatch\<close>

lemma url_tokens_plain: "CHR ''%'' \<notin> set s \<Longrightarrow> url_tokens s = Some (map Lit s)"
  by (induction s) auto

lemma decode_toks_Lit: "decode_toks (map Lit s) = Some s"
  by (induction s) auto

lemma decodeURIComponent_plain: "CHR ''%'' \<notin> set s \<Longrightarrow> decodeURIComponent s = Some s"
  by (simp add: decodeURIComponent_def url_tokens_plain decode_toks_Lit)

lemma split_segs_plain: "CHR ''/'' \<notin> set s \<Longrightarrow> CHR 0x5C \<notin> set s \<Longrightarrow> split_segs s = [s]"
  by (induction s) auto

lemma takeWhile_all: "(\<And>c. c \<in> set s \<Longrightarrow> P c) \<Longrightarrow> takeWhile P s = s"
  by (simp add: takeWhile_eq_all_conv)

lemma route_param_seg:
  assumes "seg \<noteq> []" "CHR ''/'' \<notin> set seg"
  shows "route_param lit (lit @ seg) = Some seg"
proof -
  have "last seg \<noteq> CHR ''/''" using assms by (metis last_in_set)
  with assms show ?thesis by (simp add: route_param_def ci_prefix_def ci_eq_def)
qed

lemma route_param_mismatch: "\<not> ci_prefix lit p \<Longrightarrow> route_param lit p = None"
  by (simp add: route_param_def)

lemma route_param_empty: "route_param lit lit = None"
  by (simp add: route_param_def ci_prefix_def ci_eq_def)

lemma server_port_value:
  "server_port env = (case env ''PORT'' of Some p \<Rightarrow> if p = [] then Num 3000 else Str p | None \<Rightarrow> Num 3000)"
  by (simp add: server_port_def js_or_def split: option.split)

lemma route_exact_self [simp]: "route_exact lit lit"
  by (simp add: route_exact_def ci_eq_def)

lemmas dispatch_simps = server_dispatch_def pp_router_def bt_router_def mount_rest_def ci_prefix_def ci_eq_def
  route_exact_def lower_ascii_def Let_def route_param_mismatch

lemma of_char_lower_ascii:
  "(of_char (lower_ascii c) :: nat) = (if 65 \<le> (of_char c :: nat) \<and> of_char c \<le> (90::nat) then of_char c + 32 else of_char c)"
  by (simp add: lower_ascii_def Let_def)

lemma lower_ascii_punct: "lower_ascii c = CHR ''.'' \<Longrightarrow> c = CHR ''.''" "lower_ascii c = CHR ''%'' \<Longrightarrow> c = CHR ''%''"
proof -
  assume "lower_ascii c = CHR ''.''"
  then have "(of_char (lower_ascii c) :: nat) = 46" by simp
  then have "(of_char c :: nat) = of_char CHR ''.''" unfolding of_char_lower_ascii by (simp split: if_splits)
  then show "c = CHR ''.''" by (simp only: of_char_eq_iff)
next
  assume "lower_ascii c = CHR ''%''"
  then have "(of_char (lower_ascii c) :: nat) = 37" by simp
  then have "(of_char c :: nat) = of_char CHR ''%''" unfolding of_char_lower_ascii by (simp split: if_splits)
  then show "c = CHR ''%''" by (simp only: of_char_eq_iff)
qed

lemma char_of_47: "char_of (47::nat) = CHR ''/''"
  by code_simp

lemma plain_not_dot_seg:
  assumes "CHR ''.'' \<notin> set s" "CHR ''%'' \<notin> set s"
  shows "\<not> dot_seg s" "\<not> dotdot_seg s"
proof -
  have hd: "hd (map lower_ascii s) \<noteq> CHR ''.'' \<and> hd (map lower_ascii s) \<noteq> CHR ''%''" if "s \<noteq> []"
    using assms that lower_ascii_punct by (cases s) auto
  show "\<not> dot_seg s" "\<not> dotdot_seg s"
    using hd by (auto simp: dot_seg_def dotdot_seg_def)
qed

lemma dispatch_pp_check:
  assumes "seg \<noteq> []" "CHR ''/'' \<notin> set seg" "CHR ''?'' \<notin> set seg" "CHR ''#'' \<notin> set seg" "decodeURIComponent seg = Some d"
  shows "server_dispatch sv \<lparr>in_method = GET, in_url = ''/payment/check-subscription/'' @ seg, in_body = b\<rparr> =
           Handler (pp_check_subscription_route sv d)"
proof -
  have tw: "takeWhile (\<lambda>c. c \<noteq> CHR ''?'' \<and> c \<noteq> CHR ''#'') seg = seg"
    using assms by (auto intro: takeWhile_all)
  show ?thesis
    using assms route_param_seg [OF assms(1,2), of "''/check-subscription/''"]
    by (simp add: dispatch_simps tw)
qed

text \<open>An id that escapes slashes and dot segments decodes to a path that climbs out of
  the subscriptions collection, and the HTTP client follows it.\<close>

lemma decode_plans_escape:
  assumes x: "x \<noteq> []" "set x \<inter> {CHR ''/'', CHR 0x5C, CHR ''?'', CHR ''#'', CHR ''%'', CHR ''.''} = {}"
  shows "decodeURIComponent (''..%2Fplans%2F'' @ x) = Some (''../plans/'' @ x)"
  using x by (simp add: decodeURIComponent_def url_tokens_plain decode_toks_Lit hex_digit_def char_of_47)

lemma url_path_plans_escape:
  assumes x: "x \<noteq> []" "set x \<inter> {CHR ''/'', CHR 0x5C, CHR ''?'', CHR ''#'', CHR ''%'', CHR ''.''} = {}"
  shows "url_path origin (origin @ ''/v1/billing/subscriptions/'' @ ''../plans/'' @ x) = Some (''/v1/billing/plans/'' @ x)"
proof -
  have tw: "takeWhile (\<lambda>c. c \<noteq> CHR ''?'' \<and> c \<noteq> CHR ''#'') x = x"
    using x by (auto intro: takeWhile_all)
  have sp: "split_segs x = [x]" using x by (auto intro: split_segs_plain)
  have nd: "\<not> dot_seg x" "\<not> dotdot_seg x" using x plain_not_dot_seg [of x] by auto
  then show ?thesis
    by (simp add: url_path_def tw sp dot_seg_def dotdot_seg_def lower_ascii_def Let_def)
qed

text \<open>The handlers the application can run are the routes of the two routers.\<close>

lemma server_dispatch_Handler:
  assumes "server_dispatch sv r = Handler h"
  shows "h = pp_create_plan_route sv \<or> h = pp_subscribe_route sv (in_body r) \<or>
         (\<exists>d. h = pp_check_subscription_route sv d) \<or> h = bt_subscribe_route sv (in_body r) \<or>
         (\<exists>d. h = bt_check_subscription_route sv d) \<or> (\<exists>d. h = bt_update_card_route sv d (in_body r)) \<or>
         h = bt_test_connection_route sv \<or> h = bt_test_subscription_route sv (in_body r)"
  using assms
  by (auto simp: server_dispatch_def pp_router_def bt_router_def Let_def
      split: option.splits routed.splits if_splits)

text \<open>C19: the application routes each endpoint of the two routers to its handler: a
  request for \<open>/payment/...\<close> or \<open>/braintree/...\<close> with the matching method runs the
  route of \<open>src/routes/payment.js\<close> or \<open>src/routes/braintree.js\<close> with the request
  body, and a path parameter reaches the handler decoded by \<open>decodeURIComponent\<close>.\<close>

theorem server_routes:
  assumes seg: "seg \<noteq> []" "CHR ''/'' \<notin> set seg" "CHR ''?'' \<notin> set seg" "CHR ''#'' \<notin> set seg"
    and d: "decodeURIComponent seg = Some d"
  shows "server_dispatch sv \<lparr>in_method = GET, in_url = ''/payment/create-plan'', in_body = b\<rparr> =
           Handler (pp_create_plan_route sv) \<and>
         server_dispatch sv \<lparr>in_method = POST, in_url = ''/payment/subscribe'', in_body = b\<rparr> =
           Handler (pp_subscribe_route sv b) \<and>
         server_dispatch sv \<lparr>in_method = GET, in_url = ''/payment/check-subscription/'' @ seg, in_body = b\<rparr> =
           Handler (pp_check_subscription_route sv d) \<and>
         server_dispatch sv \<lparr>in_method = POST, in_url = ''/braintree/subscribe'', in_body = b\<rparr> =
           Handler (bt_subscribe_route sv b) \<and>
         server_dispatch sv \<lparr>in_method = GET, in_url = ''/braintree/check-subscription/'' @ seg, in_body = b\<rparr> =
           Handler (bt_check_subscription_route sv d) \<and>
         server_dispatch sv \<lparr>in_method = POST, in_url = ''/braintree/update-card/'' @ seg, in_body = b\<rparr> =
           Handler (bt_update_card_route sv d b) \<and>
         server_dispatch sv \<lparr>in_method = GET, in_url = ''/braintree/test-connection'', in_body = b\<rparr> =
           Handler (bt_test_connection_route sv) \<and>
         server_dispatch sv \<lparr>in_method = POST, in_url = ''/braintree/test-subscription'', in_body = b\<rparr> =
           Handler (bt_test_subscription_route sv b)"
proof -
  have tw: "takeWhile (\<lambda>c. c \<noteq> CHR ''?'' \<and> c \<noteq> CHR ''#'') seg = seg"
    using seg by (auto intro: takeWhile_all)
  note rp = route_param_seg [OF seg(1,2)]
  show ?thesis
    by (simp add: server_dispatch_def pp_router_def bt_router_def tw d mount_rest_def ci_prefix_def ci_eq_def
        route_exact_def lower_ascii_def Let_def route_param_mismatch rp [of "''/check-subscription/''", simplified] rp [of "''/update-card/''", simplified])
qed

text \<open>C20: the subscription id of \<open>GET /payment/check-subscription/:id\<close> is decoded
  and pasted into the PayPal URL unchecked, so an id with encoded slashes and dot
  segments makes the gateway send its bearer token to another PayPal endpoint: the
  request for \<open>..%2Fplans%2F\<close> followed by a plan id reads that billing plan.\<close>

theorem pp_check_path_injection:
  assumes x: "x \<noteq> []" "set x \<inter> {CHR ''/'', CHR 0x5C, CHR ''?'', CHR ''#'', CHR ''%'', CHR ''.''} = {}"
  shows "server_dispatch sv \<lparr>in_method = GET, in_url = ''/payment/check-subscription/..%2Fplans%2F'' @ x, in_body = b\<rparr> =
           Handler (pp_check_subscription_route sv (''../plans/'' @ x)) \<and>
         url_path (paypal_api env) (req_url (pp_status_request env t (''../plans/'' @ x))) =
           Some (''/v1/billing/plans/'' @ x)"
  using dispatch_pp_check [OF _ _ _ _ decode_plans_escape [OF x]] url_path_plans_escape [OF x] x
  by (auto simp: pp_status_request_def)

text \<open>C21: a path parameter that is not a valid percent-encoding (a stray \<open>%\<close> or a
  truncated or overlong UTF-8 sequence) is answered 400 by Express before any
  handler runs, whatever the method.\<close>

theorem server_bad_escape:
  assumes seg: "seg \<noteq> []" "CHR ''/'' \<notin> set seg" "CHR ''?'' \<notin> set seg" "CHR ''#'' \<notin> set seg"
    and bad: "decodeURIComponent seg = None"
  shows "server_dispatch sv \<lparr>in_method = m, in_url = ''/payment/check-subscription/'' @ seg, in_body = b\<rparr> = BadParam \<and>
         server_dispatch sv \<lparr>in_method = m, in_url = ''/braintree/check-subscription/'' @ seg, in_body = b\<rparr> = BadParam \<and>
         server_dispatch sv \<lparr>in_method = m, in_url = ''/braintree/update-card/'' @ seg, in_body = b\<rparr> = BadParam"
proof -
  have tw: "takeWhile (\<lambda>c. c \<noteq> CHR ''?'' \<and> c \<noteq> CHR ''#'') seg = seg"
    using seg by (auto intro: takeWhile_all)
  note rp = route_param_seg [OF seg(1,2)]
  show ?thesis
    by (cases m) (simp_all add: dispatch_simps tw bad rp [of "''/check-subscription/''", simplified]
        rp [of "''/update-card/''", simplified])
qed

text \<open>What the dispatch does at its boundaries. No route serves the paths of the
  interface table (\<open>/wallet/...\<close>, \<open>/braintree-like/...\<close>: the routers are
  mounted at \<open>/payment\<close> and \<open>/braintree\<close> and a mount path matches only a whole
  segment), an empty subscription id (a parameter is at least one character), or a
  route asked with the other method: all are Express's 404. A path in other letter
  case, with a trailing slash, a query string or a fragment reaches the same handler.\<close>

lemma server_dispatch_boundaries:
  "server_dispatch sv \<lparr>in_method = m, in_url = ''/wallet'' @ rest, in_body = b\<rparr> = NoRoute \<and>
   server_dispatch sv \<lparr>in_method = m, in_url = ''/braintree-like'' @ rest, in_body = b\<rparr> = NoRoute \<and>
   server_dispatch sv \<lparr>in_method = GET, in_url = ''/payment/check-subscription/'', in_body = b\<rparr> = NoRoute \<and>
   server_dispatch sv \<lparr>in_method = GET, in_url = ''/braintree/check-subscription/'', in_body = b\<rparr> = NoRoute \<and>
   server_dispatch sv \<lparr>in_method = POST, in_url = ''/braintree/update-card/'', in_body = b\<rparr> = NoRoute \<and>
   server_dispatch sv \<lparr>in_method = POST, in_url = ''/payment/create-plan'', in_body = b\<rparr> = NoRoute \<and>
   server_dispatch sv \<lparr>in_method = GET, in_url = ''/braintree/subscribe'', in_body = b\<rparr> = NoRoute \<and>
   server_dispatch sv \<lparr>in_method = GET, in_url = ''/PAYMENT/Create-Plan/?retry=1'', in_body = b\<rparr> =
     Handler (pp_create_plan_route sv) \<and>
   server_dispatch sv \<lparr>in_method = POST, in_url = ''/Braintree/SUBSCRIBE/'', in_body = b\<rparr> =
     Handler (bt_subscribe_route sv b) \<and>
   server_dispatch sv \<lparr>in_method = GET, in_url = ''/payment/check-subscription/I-1#x'', in_body = b\<rparr> =
     Handler (pp_check_subscription_route sv ''I-1'')"
proof -
  have "server_dispatch sv \<lparr>in_method = GET, in_url = ''/payment/check-subscription/'' @ ''I-1'' @ ''#x'', in_body = b\<rparr> =
          Handler (pp_check_subscription_route sv ''I-1'')"
    using route_param_seg [of "''I-1''" "''/check-subscription/''"]
    by (simp add: dispatch_simps decodeURIComponent_def)
  then show ?thesis by (simp add: dispatch_simps char_of_def bit_0 route_param_empty)
qed

section \<open>Remote calls per request\<close>

text \<open>Each helper makes one remote call (\<open>updatePaymentMethod\<close> two), whatever the
  services answer; each route composes them without loops or retries.\<close>

lemma calls_helpers [calls_intros]:
  "calls_within 1 (getAccessToken (traced sv))" "calls_within 1 (createProduct (traced sv) t)"
  "calls_within 1 (createPlan (traced sv) t p)" "calls_within 1 (pp_createSubscription (traced sv) t p)"
  "calls_within 1 (pp_checkSubscriptionStatus (traced sv) t i)"
  "calls_within 1 (createCustomerWithPayment (traced sv) n)" "calls_within 1 (bt_createSubscription (traced sv) t)"
  "calls_within 1 (bt_checkSubscriptionStatus (traced sv) j)" "calls_within 2 (updatePaymentMethod (traced sv) j n)"
  unfolding getAccessToken_def createProduct_def createPlan_def pp_createSubscription_def
    pp_checkSubscriptionStatus_def createCustomerWithPayment_def bt_createSubscription_def
    bt_checkSubscriptionStatus_def updatePaymentMethod_def
  by (rule calls_mono, (rule calls_intros)+, simp)+

lemma calls_routes:
  "calls_within 3 (pp_create_plan_route (traced sv))" "calls_within 2 (pp_subscribe_route (traced sv) b)"
  "calls_within 2 (pp_check_subscription_route (traced sv) d)" "calls_within 2 (bt_subscribe_route (traced sv) b)"
  "calls_within 1 (bt_check_subscription_route (traced sv) d)" "calls_within 2 (bt_update_card_route (traced sv) d b)"
  "calls_within 1 (bt_test_connection_route (traced sv))" "calls_within 1 (bt_test_subscription_route (traced sv) b)"
  unfolding pp_create_plan_route_def pp_subscribe_route_def pp_check_subscription_route_def
    bt_subscribe_route_def bt_check_subscription_route_def bt_update_card_route_def
    bt_test_connection_route_def bt_test_subscription_route_def
  by (rule calls_mono, (rule calls_intros)+, simp)+

lemma calls_dispatch:
  assumes "server_dispatch (traced sv) r = Handler h"
  shows "calls_within 3 h"
proof -
  note c = calls_routes [of sv]
  have up: "calls_within k m \<Longrightarrow> k \<le> 3 \<Longrightarrow> calls_within 3 m" for k and m :: "('a \<times> call list, response) io"
    by (rule calls_mono)
  show ?thesis
    using server_dispatch_Handler [OF assms]
    by (auto intro: up [OF c(1)] up [OF c(2)] up [OF c(3)] up [OF c(4)] up [OF c(5)] up [OF c(6)] up [OF c(7)]
        up [OF c(8)])
qed

text \<open>C29: handling any request ends after at most three remote calls, whatever the
  processors answer or throw: no route loops, polls or retries (specification section
  7: no retries, the first failure aborts the request); the longest chain is
  \<open>GET /payment/create-plan\<close> (token, product, plan).\<close>

theorem request_calls_bounded:
  assumes "server_dispatch (traced sv) r = Handler h"
  shows "\<exists>cs. snd (snd (h (w, log))) = log @ cs \<and> length cs \<le> 3"
  using calls_dispatch [OF assms] unfolding calls_within_def by blast

section \<open>Witnesses\<close>

theorem pp_check_path_injection_witness:
  "server_dispatch (fixed_services pp_env0 0 (pp_ok_answer Null))
     \<lparr>in_method = GET, in_url = ''/payment/check-subscription/..%2Fplans%2F'' @ ''P-1'', in_body = Obj []\<rparr> =
     Handler (pp_check_subscription_route (fixed_services pp_env0 0 (pp_ok_answer Null)) (''../plans/'' @ ''P-1'')) \<and>
   url_path (paypal_api pp_env0) (req_url (pp_status_request pp_env0 (Str ''A21'') (''../plans/'' @ ''P-1''))) =
     Some (''/v1/billing/plans/'' @ ''P-1'')"
  by (rule pp_check_path_injection) auto

theorem server_bad_escape_witness:
  "server_dispatch (fixed_services pp_env0 0 (pp_ok_answer Null)) \<lparr>in_method = POST, in_url = ''/payment/check-subscription/'' @ ''%E0%80'', in_body = Obj []\<rparr> = BadParam \<and>
   server_dispatch (fixed_services pp_env0 0 (pp_ok_answer Null)) \<lparr>in_method = POST, in_url = ''/braintree/check-subscription/'' @ ''%E0%80'', in_body = Obj []\<rparr> = BadParam \<and>
   server_dispatch (fixed_services pp_env0 0 (pp_ok_answer Null)) \<lparr>in_method = POST, in_url = ''/braintree/update-card/'' @ ''%E0%80'', in_body = Obj []\<rparr> = BadParam"
  by (rule server_bad_escape) (simp_all add: decodeURIComponent_def hex_digit_def utf8_len_def)

theorem server_routes_witness:
  "server_dispatch (fixed_services pp_env0 0 (pp_ok_answer Null))
     \<lparr>in_method = GET, in_url = ''/payment/create-plan'', in_body = Obj []\<rparr> =
     Handler (pp_create_plan_route (fixed_services pp_env0 0 (pp_ok_answer Null))) \<and>
   server_dispatch (fixed_services pp_env0 0 (pp_ok_answer Null))
     \<lparr>in_method = POST, in_url = ''/payment/subscribe'', in_body = Obj []\<rparr> =
     Handler (pp_subscribe_route (fixed_services pp_env0 0 (pp_ok_answer Null)) (Obj [])) \<and>
   server_dispatch (fixed_services pp_env0 0 (pp_ok_answer Null))
     \<lparr>in_method = GET, in_url = ''/payment/check-subscription/'' @ ''I-1'', in_body = Obj []\<rparr> =
     Handler (pp_check_subscription_route (fixed_services pp_env0 0 (pp_ok_answer Null)) ''I-1'') \<and>
   server_dispatch (fixed_services pp_env0 0 (pp_ok_answer Null))
     \<lparr>in_method = POST, in_url = ''/braintree/subscribe'', in_body = Obj []\<rparr> =
     Handler (bt_subscribe_route (fixed_services pp_env0 0 (pp_ok_answer Null)) (Obj [])) \<and>
   server_dispatch (fixed_services pp_env0 0 (pp_ok_answer Null))
     \<lparr>in_method = GET, in_url = ''/braintree/check-subscription/'' @ ''I-1'', in_body = Obj []\<rparr> =
     Handler (bt_check_subscription_route (fixed_services pp_env0 0 (pp_ok_answer Null)) ''I-1'') \<and>
   server_dispatch (fixed_services pp_env0 0 (pp_ok_answer Null))
     \<lparr>in_method = POST, in_url = ''/braintree/update-card/'' @ ''I-1'', in_body = Obj []\<rparr> =
     Handler (bt_update_card_route (fixed_services pp_env0 0 (pp_ok_answer Null)) ''I-1'' (Obj [])) \<and>
   server_dispatch (fixed_services pp_env0 0 (pp_ok_answer Null))
     \<lparr>in_method = GET, in_url = ''/braintree/test-connection'', in_body = Obj []\<rparr> =
     Handler (bt_test_connection_route (fixed_services pp_env0 0 (pp_ok_answer Null))) \<and>
   server_dispatch (fixed_services pp_env0 0 (pp_ok_answer Null))
     \<lparr>in_method = POST, in_url = ''/braintree/test-subscription'', in_body = Obj []\<rparr> =
     Handler (bt_test_subscription_route (fixed_services pp_env0 0 (pp_ok_answer Null)) (Obj []))"
  by (rule server_routes) (simp_all add: decodeURIComponent_def)

theorem request_calls_bounded_witness:
  "\<exists>cs. snd (snd (pp_create_plan_route (traced (fixed_services pp_env0 0 (pp_ok_answer Null))) ((), []))) =
     [] @ cs \<and> length cs \<le> 3"
  by (rule request_calls_bounded [of _ "\<lparr>in_method = GET, in_url = ''/payment/create-plan'', in_body = Obj []\<rparr>"])
     (simp add: dispatch_simps)

end
