(* ===== verification/PayPal_Sim.thy ===== *)
theory PayPal_Sim
  imports Server
begin

text \<open>
  A processor for the wallet gateway: the state PayPal's REST API keeps for the
  merchant's app and its answers to the requests \<open>src/config/paypal.js\<close> and
  \<open>src/routes/payment.js\<close> send, following PayPal's documented contract (the processor
  is an external service; nothing here translates code of the repository).
  \<^item> \<open>pp_store\<close>: the app's client credentials, the access tokens issued, the
    catalog products, the plans (plan to product), the subscriptions, a counter for
    new identifiers, and the idempotency cache: a POST carrying a
    \<open>PayPal-Request-Id\<close> already seen on that path is not executed again, its first
    answer is returned;
  \<^item> \<open>pp_sim\<close>: one answer per request, found by method and by the path the URL
    resolves to (\<open>url_path\<close>, as the HTTP client resolves it). The token endpoint
    checks the Basic credentials; every other endpoint checks the bearer token;
    plans need an existing product and subscriptions an existing plan; a new
    subscription waits for the buyer's approval (\<open>APPROVAL_PENDING\<close>, no
    \<open>billing_info\<close>) and carries an \<open>approve\<close> link;
  \<^item> \<open>pp_world\<close>: the clock and the store, and \<open>pp_services\<close>, the services value
    through which the routes of \<open>PayPal_Routes\<close> reach this processor.
\<close>

record pp_sub =
  ps_plan :: string
  ps_start :: jsval
  ps_status :: string

record pp_store =
  pp_client :: string
  pp_tokens :: "string list"
  pp_products :: "string list"
  pp_plans :: "string \<rightharpoonup> string"
  pp_subs :: "string \<rightharpoonup> pp_sub"
  pp_seq :: nat
  pp_idem :: "string \<times> string \<rightharpoonup> http_resp"

definition access_token_id :: "nat \<Rightarrow> string" where "access_token_id k = ''A21-'' @ dec_nat k"
definition product_ident :: "nat \<Rightarrow> string" where "product_ident k = ''PROD-'' @ dec_nat k"
definition plan_ident :: "nat \<Rightarrow> string" where "plan_ident k = ''P-'' @ dec_nat k"
definition subscription_ident :: "nat \<Rightarrow> string" where "subscription_ident k = ''I-'' @ dec_nat k"

definition approve_url :: "nat \<Rightarrow> string" where
  "approve_url k = ''https://www.sandbox.paypal.com/webapps/billing/subscriptions?ba_token=BA-'' @ dec_nat k"

definition answer :: "nat \<Rightarrow> jsval \<Rightarrow> http_resp" where
  "answer st v = \<lparr>resp_status = st, resp_data = v\<rparr>"

definition pp_header :: "http_req \<Rightarrow> string \<Rightarrow> string option" where
  "pp_header r k = map_of (req_headers r) k"

definition pp_field :: "http_req \<Rightarrow> string \<Rightarrow> jsval" where
  "pp_field r k = (case req_body r of JsonBody v \<Rightarrow> param v k | _ \<Rightarrow> Undef)"

definition invalid_client :: jsval where
  "invalid_client = Obj [(''error'', Str ''invalid_client''), (''error_description'', Str ''Client Authentication failed'')]"

definition auth_failure :: jsval where
  "auth_failure =
     Obj [(''name'', Str ''AUTHENTICATION_FAILURE''),
          (''message'', Str ''Authentication failed due to invalid authentication credentials or a missing Authorization header.'')]"

definition not_found_body :: jsval where
  "not_found_body = Obj [(''name'', Str ''RESOURCE_NOT_FOUND''), (''message'', Str ''The specified resource does not exist.'')]"

definition bearer_ok :: "pp_store \<Rightarrow> http_req \<Rightarrow> bool" where
  "bearer_ok s r \<longleftrightarrow> pp_header r ''Authorization'' \<in> (\<lambda>t. Some (''Bearer '' @ t)) ` set (pp_tokens s)"

text \<open>\<open>POST /v1/oauth2/token\<close>: Basic credentials of the app give a new token.\<close>

definition pp_token_grant :: "http_req \<Rightarrow> pp_store \<Rightarrow> http_resp \<times> pp_store" where
  "pp_token_grant r s =
     (if pp_header r ''Authorization'' = Some (''Basic '' @ base64_of_string (pp_client s))
      then (answer 200 (Obj [(''access_token'', Str (access_token_id (pp_seq s))), (''token_type'', Str ''Bearer'')]),
            s\<lparr>pp_tokens := pp_tokens s @ [access_token_id (pp_seq s)], pp_seq := Suc (pp_seq s)\<rparr>)
      else (answer 401 invalid_client, s))"

definition pp_product_create :: "http_req \<Rightarrow> pp_store \<Rightarrow> http_resp \<times> pp_store" where
  "pp_product_create r s =
     (let i = product_ident (pp_seq s) in
      (answer 201 (Obj [(''id'', Str i), (''name'', pp_field r ''name'')]),
       s\<lparr>pp_products := pp_products s @ [i], pp_seq := Suc (pp_seq s)\<rparr>))"

definition pp_plan_create :: "http_req \<Rightarrow> pp_store \<Rightarrow> http_resp \<times> pp_store" where
  "pp_plan_create r s =
     (let i = plan_ident (pp_seq s) in
      case pp_field r ''product_id'' of
        Str p \<Rightarrow>
          (if p \<in> set (pp_products s) then
             (answer 201 (Obj [(''id'', Str i), (''product_id'', Str p), (''status'', Str ''ACTIVE'')]),
              s\<lparr>pp_plans := (pp_plans s)(i \<mapsto> p), pp_seq := Suc (pp_seq s)\<rparr>)
           else (answer 404 not_found_body, s))
      | _ \<Rightarrow> (answer 400 (Obj [(''name'', Str ''INVALID_REQUEST'')]), s))"

definition sub_body :: "string \<Rightarrow> pp_sub \<Rightarrow> jsval" where
  "sub_body i sb =
     Obj [(''id'', Str i), (''plan_id'', Str (ps_plan sb)), (''start_time'', ps_start sb),
          (''status'', Str (ps_status sb))]"

definition pp_subscription_create :: "http_req \<Rightarrow> pp_store \<Rightarrow> http_resp \<times> pp_store" where
  "pp_subscription_create r s =
     (let i = subscription_ident (pp_seq s);
          sb = \<lparr>ps_plan = [], ps_start = pp_field r ''start_time'', ps_status = ''APPROVAL_PENDING''\<rparr> in
      case pp_field r ''plan_id'' of
        Str q \<Rightarrow>
          (if pp_plans s q \<noteq> None then
             (answer 201 (Obj [(''id'', Str i), (''status'', Str ''APPROVAL_PENDING''),
                               (''links'', Arr [Obj [(''href'', Str (approve_url (pp_seq s))), (''rel'', Str ''approve''),
                                                     (''method'', Str ''GET'')]])]),
              s\<lparr>pp_subs := (pp_subs s)(i \<mapsto> sb\<lparr>ps_plan := q\<rparr>), pp_seq := Suc (pp_seq s)\<rparr>)
           else (answer 404 not_found_body, s))
      | _ \<Rightarrow> (answer 400 (Obj [(''name'', Str ''INVALID_REQUEST'')]), s))"

text \<open>A POST with a request id seen before on the same path answers as the first
  one did, without executing again.\<close>

definition pp_idempotent ::
  "string \<Rightarrow> http_req \<Rightarrow> (http_req \<Rightarrow> pp_store \<Rightarrow> http_resp \<times> pp_store) \<Rightarrow> pp_store \<Rightarrow> http_resp \<times> pp_store" where
  "pp_idempotent p r create s =
     (case pp_header r ''PayPal-Request-Id'' of
        None \<Rightarrow> create r s
      | Some rid \<Rightarrow>
          (case pp_idem s (p, rid) of
             Some cached \<Rightarrow> (cached, s)
           | None \<Rightarrow> (case create r s of (resp, s') \<Rightarrow> (resp, s'\<lparr>pp_idem := (pp_idem s')((p, rid) \<mapsto> resp)\<rparr>))))"

definition pp_lookup :: "string \<Rightarrow> pp_store \<Rightarrow> http_resp" where
  "pp_lookup p s =
     (if take 26 p = ''/v1/billing/subscriptions/'' then
        (case pp_subs s (drop 26 p) of Some sb \<Rightarrow> answer 200 (sub_body (drop 26 p) sb) | None \<Rightarrow> answer 404 not_found_body)
      else if take 18 p = ''/v1/billing/plans/'' then
        (case pp_plans s (drop 18 p) of
           Some pr \<Rightarrow> answer 200 (Obj [(''id'', Str (drop 18 p)), (''product_id'', Str pr), (''status'', Str ''ACTIVE'')])
         | None \<Rightarrow> answer 404 not_found_body)
      else answer 404 not_found_body)"

definition pp_handle :: "string \<Rightarrow> http_req \<Rightarrow> pp_store \<Rightarrow> http_resp \<times> pp_store" where
  "pp_handle p r s =
     (if req_method r = POST \<and> p = ''/v1/oauth2/token'' then pp_token_grant r s
      else if \<not> bearer_ok s r then (answer 401 auth_failure, s)
      else if req_method r = POST \<and> p = ''/v1/catalogs/products'' then pp_idempotent p r pp_product_create s
      else if req_method r = POST \<and> p = ''/v1/billing/plans'' then pp_idempotent p r pp_plan_create s
      else if req_method r = POST \<and> p = ''/v1/billing/subscriptions'' then pp_idempotent p r pp_subscription_create s
      else if req_method r = GET then (pp_lookup p s, s)
      else (answer 404 not_found_body, s))"

definition pp_sim :: "string \<Rightarrow> http_req \<Rightarrow> pp_store \<Rightarrow> (js_error + http_resp) \<times> pp_store" where
  "pp_sim origin r s =
     (case url_path origin (req_url r) of
        None \<Rightarrow> (Inl (JsErr ''Error'' ''getaddrinfo ENOTFOUND'' None), s)
      | Some p \<Rightarrow> (case pp_handle p r s of (resp, s') \<Rightarrow> (Inr resp, s')))"

record pp_world =
  pw_clock :: int
  pw_store :: pp_store

definition pp_services :: "(string \<Rightarrow> string option) \<Rightarrow> pp_world services" where
  "pp_services env =
     \<lparr>penv = env,
      clock = pw_clock,
      transport = (\<lambda>r w. case pp_sim (paypal_api env) r (pw_store w) of (x, s') \<Rightarrow> (x, w\<lparr>pw_store := s'\<rparr>)),
      gateway = (\<lambda>op w. (Inl (JsErr ''Error'' ''no gateway'' None), w))\<rparr>"

definition pp_store0 :: pp_store where
  "pp_store0 = \<lparr>pp_client = ''client:s3cret'', pp_tokens = [], pp_products = [], pp_plans = Map.empty,
                pp_subs = Map.empty, pp_seq = 0, pp_idem = Map.empty\<rparr>"

text \<open>The answers the processor caches for the requests of \<open>GET /create-plan\<close>.\<close>

definition product_answer :: "nat \<Rightarrow> http_resp" where
  "product_answer k = answer 201 (Obj [(''id'', Str (product_ident k)), (''name'', Str ''Monthly Subscription'')])"

definition plan_answer :: "nat \<Rightarrow> string \<Rightarrow> http_resp" where
  "plan_answer k p = answer 201 (Obj [(''id'', Str (plan_ident k)), (''product_id'', Str p), (''status'', Str ''ACTIVE'')])"

section \<open>Requests as the processor sees them\<close>

lemmas pp_sim_defs = pp_sim_def pp_handle_def pp_token_grant_def pp_product_create_def pp_plan_create_def
  pp_subscription_create_def pp_idempotent_def pp_lookup_def pp_header_def pp_field_def bearer_ok_def
  answer_def param_def Let_def

lemmas pp_route_defs = pp_create_plan_route_def pp_subscribe_route_def pp_check_subscription_route_def
  createProduct_def createPlan_def pp_createSubscription_def pp_checkSubscriptionStatus_def
  pp_product_request_def pp_plan_request_def pp_subscription_request_def pp_status_request_def
  pp_json_headers_def

lemma pp_services_simps [io_simps]:
  "penv (pp_services env) = env"
  "clock (pp_services env) w = pw_clock w"
  "transport (pp_services env) r w = (case pp_sim (paypal_api env) r (pw_store w) of (x, s') \<Rightarrow> (x, w\<lparr>pw_store := s'\<rparr>))"
  by (simp_all add: pp_services_def)

lemma url_path_origin:
  "url_path origin (origin @ CHR ''/'' # rest) =
     Some (''/'' @ join_slash (resolve_segs [] (split_segs (takeWhile (\<lambda>c. c \<noteq> CHR ''?'' \<and> c \<noteq> CHR ''#'') rest))))"
  by (simp add: url_path_def)

lemma plain_ident:
  "takeWhile (\<lambda>c. c \<noteq> CHR ''?'' \<and> c \<noteq> CHR ''#'') (dec_nat k) = dec_nat k"
  "split_segs (dec_nat k) = [dec_nat k]"
  using dec_nat_plain [of k] by (auto intro: takeWhile_all split_segs_plain)

lemmas url_simps = url_path_origin dot_seg_def dotdot_seg_def lower_ascii_def

lemma subscription_path:
  "url_path origin (origin @ ''/v1/billing/subscriptions/'' @ subscription_ident k) =
     Some (''/v1/billing/subscriptions/'' @ subscription_ident k)"
  by (simp add: url_simps subscription_ident_def plain_ident Let_def)

text \<open>\<open>getAccessToken\<close> against the processor: with the app's credentials in the
  environment it obtains a fresh token.\<close>

lemma pp_getAccessToken:
  assumes creds: "pp_client (pw_store w) = env_str env ''PAYPAL_CLIENT_ID'' @ '':'' @ env_str env ''PAYPAL_SECRET''"
  shows "getAccessToken (pp_services env) w =
           (Inr (Str (access_token_id (pp_seq (pw_store w)))),
            w\<lparr>pw_store := (pw_store w)\<lparr>pp_tokens := pp_tokens (pw_store w) @ [access_token_id (pp_seq (pw_store w))],
                                     pp_seq := Suc (pp_seq (pw_store w))\<rparr>\<rparr>)"
  using creds
  by (simp add: getAccessToken_def axios_def io_simps pp_sim_defs paypal_token_request_def url_simps
      paypal_basic_auth_def)

lemma pp_store0_simps [simp]:
  "pp_client pp_store0 = ''client:s3cret''" "pp_tokens pp_store0 = []" "pp_products pp_store0 = []"
  "pp_plans pp_store0 = Map.empty" "pp_subs pp_store0 = Map.empty" "pp_seq pp_store0 = 0" "pp_idem pp_store0 = Map.empty"
  by (simp_all add: pp_store0_def)

lemma pp_env0_creds: "env_str pp_env0 ''PAYPAL_CLIENT_ID'' = ''client''" "env_str pp_env0 ''PAYPAL_SECRET'' = ''s3cret''"
  by (simp_all add: pp_env0_def env_str_def)

lemma base64_of_string_inj: "base64_of_string a = base64_of_string b \<longleftrightarrow> a = b"
proof
  assume "base64_of_string a = base64_of_string b"
  then have "b64_decode (b64_encode (bytes_of a)) = b64_decode (b64_encode (bytes_of b))"
    by (simp add: base64_of_string_def)
  then have "bytes_of a = bytes_of b" by (simp add: b64_roundtrip bytes_of_bound)
  then show "a = b" by (metis chars_of_bytes_of)
qed simp

lemma products_path: "url_path origin (origin @ ''/v1/catalogs/products'') = Some ''/v1/catalogs/products''"
  by (simp add: url_simps Let_def)

lemma plans_path: "url_path origin (origin @ ''/v1/billing/plans'') = Some ''/v1/billing/plans''"
  by (simp add: url_simps Let_def)

lemma subscriptions_path: "url_path origin (origin @ ''/v1/billing/subscriptions'') = Some ''/v1/billing/subscriptions''"
  by (simp add: url_simps Let_def)

lemmas create_plan_defs = pp_create_plan_route_def createProduct_def createPlan_def axios_def
  pp_product_request_def pp_plan_request_def pp_json_headers_def products_path plans_path
  pp_plan_data_def pp_product_data_def

lemma pp_create_plan_run:
  assumes creds: "pp_client s = env_str env ''PAYPAL_CLIENT_ID'' @ '':'' @ env_str env ''PAYPAL_SECRET''"
    and fresh: "pp_idem s (''/v1/catalogs/products'', ''PRODUCT-'' @ dec_int now) = None"
               "pp_idem s (''/v1/billing/plans'', ''PLAN-'' @ dec_int now) = None"
  shows "pp_create_plan_route (pp_services env) \<lparr>pw_clock = now, pw_store = s\<rparr> =
           (Inr (res_json (Obj [(''planId'', Str (plan_ident (pp_seq s + 2)))])),
            \<lparr>pw_clock = now,
             pw_store = s\<lparr>pp_tokens := pp_tokens s @ [access_token_id (pp_seq s)],
                          pp_products := pp_products s @ [product_ident (pp_seq s + 1)],
                          pp_plans := (pp_plans s)(plan_ident (pp_seq s + 2) \<mapsto> product_ident (pp_seq s + 1)),
                          pp_seq := pp_seq s + 3,
                          pp_idem := (pp_idem s)
                             ((''/v1/catalogs/products'', ''PRODUCT-'' @ dec_int now) \<mapsto> product_answer (pp_seq s + 1),
                              (''/v1/billing/plans'', ''PLAN-'' @ dec_int now) \<mapsto>
                                plan_answer (pp_seq s + 2) (product_ident (pp_seq s + 1)))\<rparr>\<rparr>)"
  using creds fresh
  by (simp add: create_plan_defs io_simps pp_getAccessToken pp_sim_defs product_answer_def plan_answer_def)

lemma pp_ids_distinct [simp]:
  "product_ident a = product_ident b \<longleftrightarrow> a = b" "plan_ident a = plan_ident b \<longleftrightarrow> a = b"
  "subscription_ident a = subscription_ident b \<longleftrightarrow> a = b" "access_token_id a = access_token_id b \<longleftrightarrow> a = b"
  by (simp_all add: product_ident_def plan_ident_def subscription_ident_def access_token_id_def)

text \<open>C22: the scenario of the specification against the processor: with the app's
  credentials and an existing plan, \<open>POST /subscribe\<close> answers 200 with the new
  subscription's id and its approval link, and \<open>GET /check-subscription/:id\<close> for that
  id answers the same id, status \<open>APPROVAL_PENDING\<close>, the plan and the start time ten
  minutes after the request, with no billing fields.\<close>

theorem pp_subscribe_then_check:
  assumes creds: "pp_client s = env_str env ''PAYPAL_CLIENT_ID'' @ '':'' @ env_str env ''PAYPAL_SECRET''"
    and plan: "pp_plans s q = Some pr"
    and fresh: "pp_idem s (''/v1/billing/subscriptions'', ''SUB-'' @ dec_int now) = None"
    and iso: "to_iso_string (now + 600000) = Inr st"
    and run: "pp_subscribe_route (pp_services env) (Obj [(''planId'', Str q)]) \<lparr>pw_clock = now, pw_store = s\<rparr> = (r, w')"
  shows "r = Inr (res_json (Obj [(''approvalUrl'', Str (approve_url (pp_seq s + 1))),
                                (''subscriptionId'', Str (subscription_ident (pp_seq s + 1)))])) \<and>
         fst (pp_check_subscription_route (pp_services env) (subscription_ident (pp_seq s + 1)) w') =
           Inr (res_json (Obj [(''id'', Str (subscription_ident (pp_seq s + 1))), (''status'', Str ''APPROVAL_PENDING''),
                               (''plan_id'', Str q), (''start_time'', Str st)]))"
  using run creds plan fresh iso
  by (auto simp add: pp_subscribe_route_def pp_check_subscription_route_def pp_createSubscription_def
      pp_checkSubscriptionStatus_def axios_def pp_subscription_request_def pp_status_request_def
      pp_json_headers_def subscriptions_path subscription_path [simplified] pp_subscription_data_def sub_body_def
      io_simps pp_getAccessToken pp_sim_defs destructure_def pp_status_fields_def js_pick_def js_find_eq_def res_json_def)

text \<open>C23: with the app's credentials and no earlier request in the same millisecond,
  \<open>GET /create-plan\<close> creates one product and one plan for it and answers the plan's id.\<close>

theorem pp_create_plan_e2e:
  assumes creds: "pp_client s = env_str env ''PAYPAL_CLIENT_ID'' @ '':'' @ env_str env ''PAYPAL_SECRET''"
    and fresh: "pp_idem s (''/v1/catalogs/products'', ''PRODUCT-'' @ dec_int now) = None"
               "pp_idem s (''/v1/billing/plans'', ''PLAN-'' @ dec_int now) = None"
    and run: "pp_create_plan_route (pp_services env) \<lparr>pw_clock = now, pw_store = s\<rparr> = (r, w')"
  shows "r = Inr (res_json (Obj [(''planId'', Str (plan_ident (pp_seq s + 2)))])) \<and>
         pp_products (pw_store w') = pp_products s @ [product_ident (pp_seq s + 1)] \<and>
         pp_plans (pw_store w') = (pp_plans s)(plan_ident (pp_seq s + 2) \<mapsto> product_ident (pp_seq s + 1))"
  using run creds fresh
  by (auto simp add: create_plan_defs io_simps pp_getAccessToken pp_sim_defs)

text \<open>C24: a second \<open>GET /create-plan\<close> in the same millisecond creates nothing: its
  request ids repeat the first one's, PayPal replays the first answers, and the caller
  receives the plan created for the first request.\<close>

theorem pp_create_plan_replay:
  assumes creds: "pp_client s = env_str env ''PAYPAL_CLIENT_ID'' @ '':'' @ env_str env ''PAYPAL_SECRET''"
    and fresh: "pp_idem s (''/v1/catalogs/products'', ''PRODUCT-'' @ dec_int now) = None"
               "pp_idem s (''/v1/billing/plans'', ''PLAN-'' @ dec_int now) = None"
    and run1: "pp_create_plan_route (pp_services env) \<lparr>pw_clock = now, pw_store = s\<rparr> = (r1, w1)"
    and run2: "pp_create_plan_route (pp_services env) w1 = (r2, w2)"
  shows "r2 = r1 \<and> pp_products (pw_store w2) = pp_products (pw_store w1) \<and>
         pp_plans (pw_store w2) = pp_plans (pw_store w1)"
  using run1 run2 creds pp_create_plan_run [OF creds fresh]
  by (auto simp add: create_plan_defs io_simps pp_getAccessToken pp_sim_defs product_answer_def plan_answer_def)

text \<open>C25: through the encoded id of \<open>GET /payment/check-subscription/:id\<close> a caller reads
  a billing plan with the gateway's token: the route answers 200 with the plan's id and
  status as if it were a subscription.\<close>

theorem pp_check_reads_plan:
  assumes creds: "pp_client s = env_str env ''PAYPAL_CLIENT_ID'' @ '':'' @ env_str env ''PAYPAL_SECRET''"
    and plan: "pp_plans s q = Some pr"
    and x: "q \<noteq> []" "set q \<inter> {CHR ''/'', CHR 0x5C, CHR ''?'', CHR ''#'', CHR ''%'', CHR ''.''} = {}"
  shows "server_dispatch (pp_services env)
           \<lparr>in_method = GET, in_url = ''/payment/check-subscription/..%2Fplans%2F'' @ q, in_body = b\<rparr> =
           Handler (pp_check_subscription_route (pp_services env) (''../plans/'' @ q)) \<and>
         fst (pp_check_subscription_route (pp_services env) (''../plans/'' @ q) \<lparr>pw_clock = now, pw_store = s\<rparr>) =
           Inr (res_json (Obj [(''id'', Str q), (''status'', Str ''ACTIVE'')]))"
proof
  show "server_dispatch (pp_services env)
           \<lparr>in_method = GET, in_url = ''/payment/check-subscription/..%2Fplans%2F'' @ q, in_body = b\<rparr> =
           Handler (pp_check_subscription_route (pp_services env) (''../plans/'' @ q))"
    using dispatch_pp_check [OF _ _ _ _ decode_plans_escape [OF x]] x by auto
  show "fst (pp_check_subscription_route (pp_services env) (''../plans/'' @ q) \<lparr>pw_clock = now, pw_store = s\<rparr>) =
           Inr (res_json (Obj [(''id'', Str q), (''status'', Str ''ACTIVE'')]))"
    using creds plan url_path_plans_escape [OF x, simplified]
    by (simp add: pp_check_subscription_route_def pp_checkSubscriptionStatus_def axios_def pp_status_request_def
        pp_json_headers_def io_simps pp_getAccessToken pp_sim_defs pp_status_fields_def js_pick_def res_json_def)
qed

text \<open>When the environment's credentials are not the app's, \<open>getAccessToken\<close>
  rejects with the 401 \<open>invalid_client\<close> answer and no token is issued, and
  \<open>GET /create-plan\<close> answers 500 with that answer's body; the processor is unchanged.\<close>

lemma pp_bad_credentials:
  assumes bad: "pp_client s \<noteq> env_str env ''PAYPAL_CLIENT_ID'' @ '':'' @ env_str env ''PAYPAL_SECRET''"
  shows "getAccessToken (pp_services env) \<lparr>pw_clock = now, pw_store = s\<rparr> =
           (Inl (axios_error (answer 401 invalid_client)), \<lparr>pw_clock = now, pw_store = s\<rparr>) \<and>
         pp_create_plan_route (pp_services env) \<lparr>pw_clock = now, pw_store = s\<rparr> =
           (Inr (res_status_json 500 (Obj [(''error'', invalid_client)])), \<lparr>pw_clock = now, pw_store = s\<rparr>)"
proof -
  have "getAccessToken (pp_services env) \<lparr>pw_clock = now, pw_store = s\<rparr> =
          (Inl (axios_error (answer 401 invalid_client)), \<lparr>pw_clock = now, pw_store = s\<rparr>)"
    using bad
    by (simp add: getAccessToken_def axios_def io_simps pp_sim_defs paypal_token_request_def url_simps
        paypal_basic_auth_def base64_of_string_inj)
  then show ?thesis
    by (simp add: pp_create_plan_route_def io_simps pp_error_response_def axios_error_def invalid_client_def answer_def)
qed

section \<open>Witnesses at a sandbox store\<close>

theorem pp_subscribe_then_check_witness:
  "let s = pp_store0\<lparr>pp_plans := [''P-2'' \<mapsto> ''PROD-1'']\<rparr>;
       R = pp_subscribe_route (pp_services pp_env0) (Obj [(''planId'', Str ''P-2'')]) \<lparr>pw_clock = 0, pw_store = s\<rparr>
   in fst R = Inr (res_json (Obj [(''approvalUrl'', Str (approve_url 1)), (''subscriptionId'', Str (subscription_ident 1))])) \<and>
      fst (pp_check_subscription_route (pp_services pp_env0) (subscription_ident 1) (snd R)) =
        Inr (res_json (Obj [(''id'', Str (subscription_ident 1)), (''status'', Str ''APPROVAL_PENDING''),
                            (''plan_id'', Str ''P-2''), (''start_time'', Str ''1970-01-01T00:10:00.000Z'')]))"
proof -
  let ?s = "pp_store0\<lparr>pp_plans := [''P-2'' \<mapsto> ''PROD-1'']\<rparr>"
  let ?R = "pp_subscribe_route (pp_services pp_env0) (Obj [(''planId'', Str ''P-2'')]) \<lparr>pw_clock = 0, pw_store = ?s\<rparr>"
  have "?R = (fst ?R, snd ?R)" by simp
  from pp_subscribe_then_check [OF _ _ _ _ this, of "''PROD-1''" "''1970-01-01T00:10:00.000Z''"] show ?thesis
    by (simp add: pp_env0_creds iso_600000 Let_def)
qed

theorem pp_create_plan_e2e_witness:
  "let R = pp_create_plan_route (pp_services pp_env0) \<lparr>pw_clock = 1000, pw_store = pp_store0\<rparr>
   in fst R = Inr (res_json (Obj [(''planId'', Str (plan_ident 2))])) \<and>
      pp_products (pw_store (snd R)) = [product_ident 1] \<and>
      pp_plans (pw_store (snd R)) = [plan_ident 2 \<mapsto> product_ident 1]"
proof -
  let ?R = "pp_create_plan_route (pp_services pp_env0) \<lparr>pw_clock = 1000, pw_store = pp_store0\<rparr>"
  have "?R = (fst ?R, snd ?R)" by simp
  from pp_create_plan_e2e [OF _ _ _ this] show ?thesis
    by (simp add: pp_env0_creds Let_def numeral_2_eq_2)
qed

theorem pp_create_plan_replay_witness:
  "let R1 = pp_create_plan_route (pp_services pp_env0) \<lparr>pw_clock = 1000, pw_store = pp_store0\<rparr>;
       R2 = pp_create_plan_route (pp_services pp_env0) (snd R1)
   in fst R2 = fst R1 \<and> pp_products (pw_store (snd R2)) = pp_products (pw_store (snd R1)) \<and>
      pp_plans (pw_store (snd R2)) = pp_plans (pw_store (snd R1))"
proof -
  let ?R1 = "pp_create_plan_route (pp_services pp_env0) \<lparr>pw_clock = 1000, pw_store = pp_store0\<rparr>"
  let ?R2 = "pp_create_plan_route (pp_services pp_env0) (snd ?R1)"
  have "?R1 = (fst ?R1, snd ?R1)" "?R2 = (fst ?R2, snd ?R2)" by simp_all
  from pp_create_plan_replay [OF _ _ _ this] show ?thesis
    by (simp add: pp_env0_creds Let_def)
qed

theorem pp_check_reads_plan_witness:
  "server_dispatch (pp_services pp_env0)
     \<lparr>in_method = GET, in_url = ''/payment/check-subscription/..%2Fplans%2F'' @ ''P-2'', in_body = Obj []\<rparr> =
     Handler (pp_check_subscription_route (pp_services pp_env0) (''../plans/'' @ ''P-2'')) \<and>
   fst (pp_check_subscription_route (pp_services pp_env0) (''../plans/'' @ ''P-2'')
          \<lparr>pw_clock = 0, pw_store = pp_store0\<lparr>pp_plans := [''P-2'' \<mapsto> ''PROD-1'']\<rparr>\<rparr>) =
     Inr (res_json (Obj [(''id'', Str ''P-2''), (''status'', Str ''ACTIVE'')]))"
  by (rule pp_check_reads_plan [where pr = "''PROD-1''"]) (simp_all add: pp_env0_creds)

end
