(* ===== verification/Gateway.thy ===== *)
theory Gateway
  imports Braintree_Auth PayPal_Sim
begin

text \<open>
  The whole service: \<open>src/server.js\<close> with both routers, in front of both
  processors at once. \<open>gw_world\<close> holds the clock, the two processors' stores and
  the merchant's Braintree account; \<open>gw_services env\<close> sends HTTP requests to the
  wallet processor and SDK calls, through the gateway configured from \<open>env\<close>
  (\<open>Braintree_Auth.bt_sdk\<close>), to the card processor. An inbound request
  (\<open>http_request\<close>) carries its arrival time, method, URL and JSON body; \<open>express_json\<close> is the body parser the application
  installs first (\<open>app.use(express.json())\<close>, body-parser 1.x in strict mode): a
  request without a JSON body gets \<open>req.body = {}\<close>, a JSON body that is not an
  object or an array is answered 400. \<open>serve\<close> runs one request to its outcome (an
  answer, Express's 404 or 400, or an exception that escapes the handler and leaves
  the request unanswered, as Express 4 does with a rejected async handler);
  \<open>serve_all\<close> serves a sequence of requests one after the other. The lemmas:
  every request is answered (C27), every answer is a JSON object (C28), and refused
  credentials give 500 answers and no change at either processor (C26).
\<close>

record gw_world =
  gw_clock :: int
  gw_bt :: bt_store
  gw_pp :: pp_store
  gw_bt_account :: bt_account

definition gw_services :: "(string \<Rightarrow> string option) \<Rightarrow> gw_world services" where
  "gw_services env =
     \<lparr>penv = env,
      clock = gw_clock,
      transport = (\<lambda>r w. case pp_sim (paypal_api env) r (gw_pp w) of (x, s') \<Rightarrow> (x, w\<lparr>gw_pp := s'\<rparr>)),
      gateway = (\<lambda>op w. case bt_sdk (braintree_gateway env) (gw_bt_account w) op (gw_clock w) (gw_bt w) of
                          (x, s') \<Rightarrow> (x, w\<lparr>gw_bt := s'\<rparr>))\<rparr>"

record http_request =
  rq_time :: int
  rq_method :: http_method
  rq_url :: string
  rq_json :: "jsval option"

definition express_json :: "jsval option \<Rightarrow> jsval option" where
  "express_json b =
     (case b of
        None \<Rightarrow> Some (Obj [])
      | Some v \<Rightarrow> (case v of Obj fs \<Rightarrow> Some v | Arr vs \<Rightarrow> Some v | _ \<Rightarrow> None))"

datatype outcome = Answered response | NotFound | BadRequest | Unanswered js_error

definition answered :: "outcome \<Rightarrow> bool" where
  "answered oc \<longleftrightarrow> (case oc of Unanswered e \<Rightarrow> False | _ \<Rightarrow> True)"

definition serve :: "(string \<Rightarrow> string option) \<Rightarrow> http_request \<Rightarrow> gw_world \<Rightarrow> outcome \<times> gw_world" where
  "serve env rq w =
     (case express_json (rq_json rq) of
        None \<Rightarrow> (BadRequest, w)
      | Some b \<Rightarrow>
          (case server_dispatch (gw_services env) \<lparr>in_method = rq_method rq, in_url = rq_url rq, in_body = b\<rparr> of
             Handler h \<Rightarrow>
               (case h (w\<lparr>gw_clock := rq_time rq\<rparr>) of
                  (Inr resp, w') \<Rightarrow> (Answered resp, w')
                | (Inl e, w') \<Rightarrow> (Unanswered e, w'))
           | NoRoute \<Rightarrow> (NotFound, w)
           | BadParam \<Rightarrow> (BadRequest, w)))"

fun serve_all :: "(string \<Rightarrow> string option) \<Rightarrow> http_request list \<Rightarrow> gw_world \<Rightarrow> outcome list \<times> gw_world" where
  "serve_all env [] w = ([], w)"
| "serve_all env (rq # rqs) w =
     (case serve env rq w of
        (o1, w1) \<Rightarrow> (case serve_all env rqs w1 of (os, w2) \<Rightarrow> (o1 # os, w2)))"

text \<open>A deployment's environment with both processors' sandbox credentials: the
  PayPal app of \<open>pp_env0\<close> and the Braintree account \<open>bt_account0\<close>.\<close>

definition gw_env0 :: "string \<Rightarrow> string option" where
  "gw_env0 = pp_env0(''BRAINTREE_MODE'' \<mapsto> ''sandbox'', ''BRAINTREE_MERCHANT_ID'' \<mapsto> ''merchant'',
                     ''BRAINTREE_PUBLIC_KEY'' \<mapsto> ''public-key'', ''BRAINTREE_PRIVATE_KEY'' \<mapsto> ''private-key'')"

text \<open>What a client receives: a 200 or 500 answer whose body is a JSON object with
  no \<open>undefined\<close> left at any depth, so that \<open>JSON.stringify\<close> writes exactly the
  value the handler built; Express's own 404 and 400 pages are not JSON.\<close>

definition json_object :: "jsval \<Rightarrow> bool" where
  "json_object v \<longleftrightarrow> (case v of Obj fs \<Rightarrow> no_undef v | _ \<Rightarrow> False)"

definition json_answer :: "response \<Rightarrow> bool" where
  "json_answer r \<longleftrightarrow> (status r = 200 \<or> status r = 500) \<and> json_object (body r)"

definition well_typed :: "outcome \<Rightarrow> bool" where
  "well_typed oc \<longleftrightarrow> (case oc of Answered r \<Rightarrow> json_answer r | _ \<Rightarrow> True)"

section \<open>Every request is answered\<close>

lemma routes_never_throw:
  assumes obj: "\<not> nullish b"
  shows "never_throws (pp_create_plan_route sv)" "never_throws (pp_subscribe_route sv b)"
    "never_throws (pp_check_subscription_route sv d)" "never_throws (bt_subscribe_route sv b)"
    "never_throws (bt_check_subscription_route sv d)" "never_throws (bt_update_card_route sv d b)"
    "never_throws (bt_test_connection_route sv)" "never_throws (bt_test_subscription_route sv b)"
proof -
  from obj obtain n t p where eqs: "destructure b ''paymentMethodNonce'' = Inr n"
    "destructure b ''paymentMethodToken'' = Inr t" "destructure b ''planId'' = Inr p"
    using destructure_Inr by metis
  show "never_throws (pp_create_plan_route sv)" "never_throws (pp_subscribe_route sv b)"
    "never_throws (pp_check_subscription_route sv d)" "never_throws (bt_subscribe_route sv b)"
    "never_throws (bt_check_subscription_route sv d)" "never_throws (bt_update_card_route sv d b)"
    "never_throws (bt_test_connection_route sv)" "never_throws (bt_test_subscription_route sv b)"
    unfolding pp_create_plan_route_def pp_subscribe_route_def pp_check_subscription_route_def
      bt_subscribe_route_def bt_check_subscription_route_def bt_update_card_route_def
      bt_test_connection_route_def bt_test_subscription_route_def eqs
    by (intro returns_intros; simp)+
qed

lemma dispatch_never_throws:
  assumes "server_dispatch sv r = Handler h" "\<not> nullish (in_body r)"
  shows "never_throws h"
  using server_dispatch_Handler [OF assms(1)] routes_never_throw [OF assms(2)] by auto

lemma express_json_object: "express_json b = Some v \<Longrightarrow> \<not> nullish v"
  by (auto simp: express_json_def split: option.splits jsval.splits)

lemma serve_answered: "answered (fst (serve env rq w))"
proof (cases "express_json (rq_json rq)")
  case None
  then show ?thesis by (simp add: serve_def answered_def)
next
  case (Some b)
  let ?r = "\<lparr>in_method = rq_method rq, in_url = rq_url rq, in_body = b\<rparr>"
  have obj: "\<not> nullish (in_body ?r)" using express_json_object [OF Some] by simp
  show ?thesis
  proof (cases "server_dispatch (gw_services env) ?r")
    case (Handler h)
    from never_throws_run [OF dispatch_never_throws [OF Handler obj]]
    obtain x w' where "h (w\<lparr>gw_clock := rq_time rq\<rparr>) = (Inr x, w')" by blast
    with Some Handler show ?thesis by (simp add: serve_def answered_def)
  qed (use Some in \<open>simp_all add: serve_def answered_def\<close>)
qed

text \<open>C27: every request of any sequence gets an answer (a response, a 404 or a 400):
  the body parser only lets objects and arrays through, so no handler's
  destructuring throws, and every other exception is caught by the routes.\<close>

theorem serve_all_answered: "list_all answered (fst (serve_all env rqs w))"
proof (induction rqs arbitrary: w)
  case Nil
  then show ?case by simp
next
  case (Cons rq rqs)
  then show ?case using serve_answered [of env rq w] by (simp split: prod.split) (metis fst_conv)
qed

section \<open>Every answer is a JSON object\<close>

lemma json_object_clean [simp]: "json_object (json_clean (Obj fs))"
proof -
  have "no_undef (json_clean (Obj fs))" by (rule no_undef_json_clean) simp
  moreover obtain gs where "json_clean (Obj fs) = Obj gs" by simp
  ultimately show ?thesis by (simp add: json_object_def del: json_clean.simps)
qed

lemma json_answer_obj [simp]:
  "json_answer (res_json (Obj fs))" "json_answer (bt_error_response e)" "json_answer (pp_error_response e)"
  by (simp_all add: json_answer_def res_json_def res_status_json_def bt_error_response_def pp_error_response_def
      del: json_clean.simps)

lemma pick_json_answer: "returns json_answer (bind_io (lift_io (js_pick v fs)) (\<lambda>s. ret (res_json s)))"
  by (auto simp: js_pick_def io_simps returns_def ret_def throw_def split: sum.split simp del: json_clean.simps)

lemma pp_createSubscription_obj: "returns (\<lambda>x. \<exists>fs. x = Obj fs) (pp_createSubscription sv t p)"
  unfolding pp_createSubscription_def by (intro returns_intros) simp

lemma pp_createSubscription_json_answer:
  "returns json_answer (bind_io (pp_createSubscription sv t p) (\<lambda>r. ret (res_json r)))"
  by (rule returns_bind_post [OF pp_createSubscription_obj]) (auto intro: returns_ret simp del: json_clean.simps)

lemma routes_json_answer:
  "returns json_answer (pp_create_plan_route sv)" "returns json_answer (pp_subscribe_route sv b)"
  "returns json_answer (pp_check_subscription_route sv d)" "returns json_answer (bt_subscribe_route sv b)"
  "returns json_answer (bt_check_subscription_route sv d)" "returns json_answer (bt_update_card_route sv d b)"
  "returns json_answer (bt_test_connection_route sv)" "returns json_answer (bt_test_subscription_route sv b)"
  unfolding pp_create_plan_route_def pp_subscribe_route_def pp_check_subscription_route_def
    bt_subscribe_route_def bt_check_subscription_route_def bt_update_card_route_def
    bt_test_connection_route_def bt_test_subscription_route_def
  by (intro pick_json_answer pp_createSubscription_json_answer returns_intros; simp del: json_clean.simps)+

lemma dispatch_json_answer: "server_dispatch sv r = Handler h \<Longrightarrow> returns json_answer h"
  using server_dispatch_Handler routes_json_answer by blast

lemma serve_well_typed: "well_typed (fst (serve env rq w))"
proof -
  have "json_answer resp"
    if "server_dispatch (gw_services env) r = Handler h" "h w1 = (Inr resp, w')" for r h w1 resp w'
    using dispatch_json_answer [OF that(1)] that(2) unfolding returns_def by blast
  then show ?thesis
    by (auto simp: serve_def well_typed_def split: option.split routed.split prod.split sum.split)
qed

text \<open>C28: every answer the service gives to any sequence of requests is a 200 or a
  500 whose body is a JSON object with no \<open>undefined\<close> at any depth: each route
  answers an object literal, a \<open>js_pick\<close> projection or the object returned by
  \<open>createSubscription\<close>, serialised by \<open>res.json\<close>.\<close>

theorem serve_all_well_typed: "list_all well_typed (fst (serve_all env rqs w))"
proof (induction rqs arbitrary: w)
  case Nil
  then show ?case by simp
next
  case (Cons rq rqs)
  then show ?case using serve_well_typed [of env rq w] by (simp split: prod.split) (metis fst_conv)
qed

section \<open>Credentials the processors refuse\<close>

text \<open>C26: credentials from the environment that a processor refuses make its routes
  answer 500 with the processor's authentication error and leave the processor
  unchanged. Wallet processor: when \<open>PAYPAL_CLIENT_ID:PAYPAL_SECRET\<close> are not the
  app's, \<open>getAccessToken\<close> rejects with the 401 \<open>invalid_client\<close> answer and
  \<open>GET /create-plan\<close> answers 500 with that body. Card processor: when the gateway
  configuration built from the environment is not accepted by the merchant's account
  (other keys, another merchant, or \<open>BRAINTREE_MODE\<close> selecting the other
  environment), each of the five card routes answers 500
  \<open>{error: 'Authentication Error'}\<close>.\<close>

theorem bad_credentials:
  assumes pp: "pp_client s \<noteq> env_str env ''PAYPAL_CLIENT_ID'' @ '':'' @ env_str env ''PAYPAL_SECRET''"
    and bt: "\<not> bt_authenticates (braintree_gateway env) a" and obj: "\<not> nullish b"
  shows "getAccessToken (pp_services env) \<lparr>pw_clock = now, pw_store = s\<rparr> =
           (Inl (axios_error (answer 401 invalid_client)), \<lparr>pw_clock = now, pw_store = s\<rparr>) \<and>
         pp_create_plan_route (pp_services env) \<lparr>pw_clock = now, pw_store = s\<rparr> =
           (Inr (res_status_json 500 (Obj [(''error'', invalid_client)])), \<lparr>pw_clock = now, pw_store = s\<rparr>) \<and>
         bt_subscribe_route (bt_sdk_services env a) b w = (Inr (bt_error_response bt_auth_error), w) \<and>
         bt_check_subscription_route (bt_sdk_services env a) sid w = (Inr (bt_error_response bt_auth_error), w) \<and>
         bt_update_card_route (bt_sdk_services env a) sid b w = (Inr (bt_error_response bt_auth_error), w) \<and>
         bt_test_connection_route (bt_sdk_services env a) w = (Inr (bt_error_response bt_auth_error), w) \<and>
         bt_test_subscription_route (bt_sdk_services env a) b w = (Inr (bt_error_response bt_auth_error), w)"
  using pp_bad_credentials [OF pp] bt_refused_routes [OF bt obj] by simp

section \<open>Witnesses\<close>

lemma gw_env0_authenticates: "bt_authenticates (braintree_gateway gw_env0) bt_account0"
  by (simp add: bt_authenticates_def braintree_gateway_def gw_env0_def bt_account0_def)

theorem bad_credentials_witness:
  "getAccessToken (pp_services (gw_env0(''BRAINTREE_MODE'' := None))) \<lparr>pw_clock = 0, pw_store = pp_store0\<lparr>pp_client := ''client:other''\<rparr>\<rparr> =
     (Inl (axios_error (answer 401 invalid_client)), \<lparr>pw_clock = 0, pw_store = pp_store0\<lparr>pp_client := ''client:other''\<rparr>\<rparr>) \<and>
   pp_create_plan_route (pp_services (gw_env0(''BRAINTREE_MODE'' := None))) \<lparr>pw_clock = 0, pw_store = pp_store0\<lparr>pp_client := ''client:other''\<rparr>\<rparr> =
     (Inr (res_status_json 500 (Obj [(''error'', invalid_client)])),
      \<lparr>pw_clock = 0, pw_store = pp_store0\<lparr>pp_client := ''client:other''\<rparr>\<rparr>) \<and>
   bt_subscribe_route (bt_sdk_services (gw_env0(''BRAINTREE_MODE'' := None)) bt_account0) (Obj [])
       \<lparr>bw_clock = 0, bw_store = bt_store0\<rparr> =
     (Inr (bt_error_response bt_auth_error), \<lparr>bw_clock = 0, bw_store = bt_store0\<rparr>) \<and>
   bt_check_subscription_route (bt_sdk_services (gw_env0(''BRAINTREE_MODE'' := None)) bt_account0) ''sub_0''
       \<lparr>bw_clock = 0, bw_store = bt_store0\<rparr> =
     (Inr (bt_error_response bt_auth_error), \<lparr>bw_clock = 0, bw_store = bt_store0\<rparr>) \<and>
   bt_update_card_route (bt_sdk_services (gw_env0(''BRAINTREE_MODE'' := None)) bt_account0) ''sub_0'' (Obj [])
       \<lparr>bw_clock = 0, bw_store = bt_store0\<rparr> =
     (Inr (bt_error_response bt_auth_error), \<lparr>bw_clock = 0, bw_store = bt_store0\<rparr>) \<and>
   bt_test_connection_route (bt_sdk_services (gw_env0(''BRAINTREE_MODE'' := None)) bt_account0)
       \<lparr>bw_clock = 0, bw_store = bt_store0\<rparr> =
     (Inr (bt_error_response bt_auth_error), \<lparr>bw_clock = 0, bw_store = bt_store0\<rparr>) \<and>
   bt_test_subscription_route (bt_sdk_services (gw_env0(''BRAINTREE_MODE'' := None)) bt_account0) (Obj [])
       \<lparr>bw_clock = 0, bw_store = bt_store0\<rparr> =
     (Inr (bt_error_response bt_auth_error), \<lparr>bw_clock = 0, bw_store = bt_store0\<rparr>)"
  by (rule bad_credentials)
     (simp_all add: gw_env0_def pp_env0_def env_str_def bt_authenticates_def braintree_gateway_def bt_account0_def
       nullish_def)

end
