(* ===== verification/Spec2Isabelle.thy ===== *)
theory Spec2Isabelle
  imports Gateway
begin

text \<open>
  \<^bold>\<open>ValuePay: a verification development of the payment gateway.\<close>

  The program (\<open>src/\<close>) is an Express service that fronts two payment processors.
  \<open>src/server.js\<close> mounts two routers: \<open>src/routes/payment.js\<close> at \<open>/payment\<close>
  (the wallet processor, PayPal's REST API through axios) and
  \<open>src/routes/braintree.js\<close> at \<open>/braintree\<close> (the card processor, through the
  Braintree SDK). \<open>src/config/paypal.js\<close> provides the PayPal base URL and
  \<open>getAccessToken\<close>; \<open>src/config/braintree.js\<close> builds the SDK gateway from the
  environment. The service keeps no state of its own: everything a request changes
  lives at a processor, and every route is a chain of remote calls ended by one JSON
  answer.

  \<^bold>\<open>Theories.\<close>
  \<^item> \<open>Prelude\<close>: the JavaScript values the code handles (\<open>jsval\<close>: undefined, null,
    booleans, numbers as \<open>int\<close>, strings, arrays, objects as association lists whose
    last binding wins), the language rules the code relies on (truthiness, \<open>||\<close>,
    template literals \<open>to_str\<close>, property reads that throw a \<open>TypeError\<close> on
    \<open>undefined\<close>/\<open>null\<close>, optional chaining, object destructuring, \<open>new Error\<close>,
    \<open>Date.prototype.toISOString\<close>, JSON serialisation dropping \<open>undefined\<close>), and
    the exception-and-state monad \<open>('w, 'a) io\<close> in which an \<open>async\<close> function is a
    map from the world to an outcome (\<open>Inl\<close> a thrown error, \<open>Inr\<close> a value) and
    the new world; \<open>await\<close> is \<open>bind_io\<close>, \<open>try/catch\<close> is \<open>catch_io\<close>. The
    predicates \<open>returns\<close> and \<open>never_throws\<close> give a Hoare-style layer over it.
  \<^item> \<open>Services\<close>: the interface to the outside world, a record \<open>'w services\<close> of the
    process environment, the clock (\<open>Date.now()\<close>), the HTTP transport and the
    Braintree SDK calls (\<open>bt_op\<close>); \<open>axios\<close> adds axios' rule that a non-2xx
    status rejects; \<open>traced\<close> records every remote call in order, and the
    call-ordering theorems are stated over it. All route lemmas hold for every
    world type and every services value.
  \<^item> \<open>Braintree_Routes\<close>: \<open>src/routes/braintree.js\<close>, statement by statement:
    \<open>createCustomerWithPayment\<close>, \<open>bt_createSubscription\<close> (with
    \<open>bt_subscription_params\<close>), \<open>bt_checkSubscriptionStatus\<close>,
    \<open>updatePaymentMethod\<close> and the five routes \<open>bt_subscribe_route\<close>,
    \<open>bt_check_subscription_route\<close>, \<open>bt_update_card_route\<close>,
    \<open>bt_test_connection_route\<close>, \<open>bt_test_subscription_route\<close>. Lemmas: no route
    lets an exception escape (C2), and the SDK calls of subscribe and update-card
    come in the order and with the arguments the code gives (C3, C4).
  \<^item> \<open>Braintree_Sim\<close>: a Braintree processor (\<open>bt_store\<close>, \<open>bt_sim\<close>) following
    the SDK's documented contract: nonces are single use, customer and payment-method
    creation vault tokens, \<open>paymentMethod.create\<close> requires \<open>customerId\<close>,
    \<open>subscription.create\<close> requires a vaulted token, a known merchant account and
    one of the merchant's plans (\<open>planId\<close>), \<open>subscription.find\<close> throws
    \<open>notFoundError\<close>. Over it the end-to-end theorems: subscribe never creates a
    subscription, because the source sends no \<open>planId\<close>; the customer is vaulted and
    the request answers 500 with Braintree's validation message (C1); single-use nonces
    (C5), fresh tokens under the store condition \<open>bt_inv\<close> (C6), unknown ids (C7),
    update-card always rejected (C8), customer orphaned without a nonce (C9).
  \<^item> \<open>Base64\<close>: \<open>Buffer.toString('base64')\<close> (Node's library, which
    \<open>src/config/paypal.js\<close> calls) as 3-byte groups with padding, its decoder, and
    the round trip for every byte list, on which C10 rests.
  \<^item> \<open>Config\<close>: \<open>src/config/paypal.js\<close> (\<open>paypal_api\<close>, \<open>paypal_basic_auth\<close>,
    \<open>paypal_token_request\<close>, \<open>getAccessToken\<close>) and \<open>src/config/braintree.js\<close>
    (\<open>braintree_gateway\<close>). Lemmas: the one token request and its credentials
    (C10), the outcome decided by the endpoint's answer (C11).
  \<^item> \<open>PayPal_Routes\<close>: \<open>src/routes/payment.js\<close>: the request builders
    (\<open>pp_product_request\<close>, \<open>pp_plan_request\<close>, \<open>pp_subscription_request\<close>,
    \<open>pp_status_request\<close>) with the source's bodies and headers, the helpers
    \<open>createProduct\<close>, \<open>createPlan\<close>, \<open>pp_createSubscription\<close>,
    \<open>pp_checkSubscriptionStatus\<close>, and the routes \<open>pp_create_plan_route\<close>,
    \<open>pp_subscribe_route\<close>, \<open>pp_check_subscription_route\<close>. Lemmas: call order of
    create-plan (C12) and subscribe (C18), request ids from the clock (C13), the
    error answers (C14, C15, C16), the status projection (C17).
  \<^item> \<open>Server\<close>: \<open>src/server.js\<close> with Express 4's dispatch: the path is the URL up
    to its query string or fragment (Express reads it with \<open>parseurl\<close>, whose
    fallback \<open>url.parse\<close> drops both), a mount path (\<open>mount_rest\<close>) and a route path
    (\<open>route_exact\<close>, \<open>route_param\<close>) match case-insensitively with an optional
    trailing slash, a parameter is one segment decoded by \<open>decodeURIComponent\<close>
    (percent escapes and UTF-8 validation, RFC 3629), and \<open>pp_router\<close>,
    \<open>bt_router\<close>, \<open>server_dispatch\<close> try the layers in the source's order
    (\<open>routed\<close>: a handler, no route (404) or a bad parameter (400)). \<open>url_path\<close>
    resolves an outgoing URL as axios' WHATWG URL parser does (dot segments, \<open>?\<close>,
    \<open>#\<close>). Lemmas: the route table (C19), the path injection through an encoded id
    (C20), 400 on bad escapes (C21); the lemma \<open>server_dispatch_boundaries\<close>
    evaluates the dispatch at its edges (the interface table's paths, an empty id and the
    other method unserved, letter case, a trailing slash, a query string and a fragment
    ignored). \<open>server_port\<close> is the value \<open>app.listen\<close> is given.
    \<open>calls_within\<close> (\<open>Services\<close>) bounds the remote calls a program appends to the
    log of a traced world, composed additively over \<open>await\<close> and \<open>try\<close> and by
    the maximum over branches: every request ends after at most three remote calls
    whatever the processors answer, with no loop or retry (C29).
  \<^item> \<open>PayPal_Sim\<close>: a PayPal REST processor (\<open>pp_store\<close>, \<open>pp_sim\<close>) following
    PayPal's documented contract: client-credentials grant checked against the app's
    credentials, bearer tokens, products, plans that need a product, subscriptions
    that need a plan and wait for approval, and the idempotency cache keyed by path
    and \<open>PayPal-Request-Id\<close>; requests are routed by the path \<open>url_path\<close>
    resolves. Over it: the specification's subscribe-then-check scenario (C22),
    create-plan end to end (C23), a second create-plan in the same millisecond handed
    the first plan (C24), a plan read through the check route (C25).
  \<^item> \<open>Braintree_Auth\<close>: the gateway object of \<open>src/config/braintree.js\<close> in use:
    the merchant's account (\<open>bt_account\<close>) accepts a configuration
    (\<open>braintree_gateway\<close>) only with its environment, merchant id and keys
    (\<open>bt_authenticates\<close>); \<open>bt_sdk\<close> is the SDK through a configuration,
    \<open>bt_sim\<close> when accepted and an \<open>authenticationError\<close> that changes nothing
    otherwise.
  \<^item> \<open>Gateway\<close>: the whole service in front of both processors at once.
    \<open>gw_world\<close> is the clock, both stores and the merchant's Braintree account;
    \<open>gw_services env\<close> wires the transport to \<open>PayPal_Sim\<close> at the base URL
    \<open>paypal_api env\<close> and the SDK to \<open>bt_sdk\<close> with the configuration
    \<open>braintree_gateway env\<close>; \<open>express_json\<close> is
    \<open>app.use(express.json())\<close> (no body gives \<open>{}\<close>, a JSON body that is no object or
    array is a 400); \<open>serve\<close> runs one inbound request through
    \<open>server_dispatch\<close> to its \<open>outcome\<close>, and \<open>serve_all\<close> a sequence of them.
    Lemmas: every request of any sequence is answered (C27), and every answer is a 200
    or 500 whose body is a JSON object with no \<open>undefined\<close> left (\<open>well_typed\<close>,
    C28). Credentials either processor refuses make its routes answer 500 with its
    authentication error and change nothing (C26), including a \<open>BRAINTREE_MODE\<close>
    other than exactly \<open>sandbox\<close> in front of a sandbox account.

  \<^bold>\<open>Correspondence.\<close> A route handler \<open>(req, res) => ...\<close> is a function of the
  services value and of the parsed body or path parameter, returning the
  \<open>response\<close> (status and JSON body) that \<open>res.json\<close>/\<open>res.status(500).json\<close>
  sends; an exception that escapes the handler is an \<open>Inl\<close> outcome. Every
  \<open>await\<close> of the source is one \<open>bind_io\<close>, every property read one \<open>js_get\<close>
  with JavaScript's \<open>TypeError\<close>, every \<open>try/catch\<close> one \<open>catch_io\<close>.

  \<^bold>\<open>Bounds and fuel.\<close> No loop of the program runs over unbounded data except
  \<open>Array.prototype.find\<close> and Base64 encoding, both structural recursions; no
  definition needs fuel. Numbers are integers: the code only handles
  timestamps and small constants, within the range where IEEE doubles are exact;
  \<open>toISOString\<close> is modelled with its \<open>RangeError\<close> beyond \<open>8.64e15\<close> ms.

  \<^bold>\<open>Not modelled.\<close> Logging (\<open>console.log\<close>/\<open>console.error\<close> have no effect on
  answers); the JSON text parsing of \<open>express.json()\<close> (a request carries the value
  parsed from its body; \<open>express_json\<close> models only the parser's strict-mode
  decision which values reach the routes), HEAD and OPTIONS requests;
  \<open>app.listen\<close> (lines 14 to 16 of \<open>src/server.js\<close>: the value it is given is
  \<open>server_port\<close>; what it does with it is Node's port parsing and socket I/O, not
  this program's logic);
  the Braintree SDK and PayPal's servers
  (parameters of the interface; Braintree is simulated from its documented contract
  in \<open>Braintree_Sim\<close>, PayPal in \<open>PayPal_Sim\<close>: token expiry, pagination,
  webhooks and the buyer's approval step are not simulated; the SDK's own checks when
  \<open>new braintree.BraintreeGateway\<close> is constructed are not modelled, and a key
  missing from the environment is refused at the first call like a wrong one).
  Requests are served one after another (\<open>serve_all\<close>); the interleaving of
  concurrent handlers at their awaits is not modelled. The service shares no state
  between requests, so they could interact only through the processors' stores.
\<close>

end
